theory Spec2Isabelle
  imports Complex_Main
begin

section \<open>JavaScript numbers\<close>

text \<open>
  The engine computes on JavaScript numbers. They are modelled as the reals extended by
  the three special values of IEEE arithmetic that the code can produce and that the
  specification talks about: \<open>Infinity\<close>, \<open>-Infinity\<close> and \<open>NaN\<close>. Finite
  arithmetic is exact: rounding to 53 bits, overflow of finite values and the sign of
  zero are not represented. Comparisons with \<open>NaN\<close> are false, as in the language.
  The rules for \<open>NaN\<close> and the infinities are those of the doubles. A statement about
  finite results that the doubles satisfy only away from overflow carries a bound on the
  measurements.
\<close>

datatype number = Fin real | PInf | NInf | NaN

instantiation number :: "{zero, plus, minus, uminus, times, inverse, abs, ord}"
begin

definition zero_number :: number where
  "zero_number = Fin 0"

fun uminus_number :: "number \<Rightarrow> number" where
  "uminus_number (Fin a) = Fin (- a)"
| "uminus_number PInf = NInf"
| "uminus_number NInf = PInf"
| "uminus_number NaN = NaN"

fun plus_number :: "number \<Rightarrow> number \<Rightarrow> number" where
  "plus_number (Fin a) (Fin b) = Fin (a + b)"
| "plus_number NaN _ = NaN"
| "plus_number _ NaN = NaN"
| "plus_number PInf NInf = NaN"
| "plus_number NInf PInf = NaN"
| "plus_number PInf _ = PInf"
| "plus_number _ PInf = PInf"
| "plus_number NInf _ = NInf"
| "plus_number _ NInf = NInf"

definition minus_number :: "number \<Rightarrow> number \<Rightarrow> number" where
  "minus_number x y = x + (- y)"

fun times_number :: "number \<Rightarrow> number \<Rightarrow> number" where
  "times_number (Fin a) (Fin b) = Fin (a * b)"
| "times_number NaN _ = NaN"
| "times_number _ NaN = NaN"
| "times_number (Fin a) PInf = (if a = 0 then NaN else if 0 < a then PInf else NInf)"
| "times_number (Fin a) NInf = (if a = 0 then NaN else if 0 < a then NInf else PInf)"
| "times_number PInf (Fin b) = (if b = 0 then NaN else if 0 < b then PInf else NInf)"
| "times_number NInf (Fin b) = (if b = 0 then NaN else if 0 < b then NInf else PInf)"
| "times_number PInf PInf = PInf"
| "times_number NInf NInf = PInf"
| "times_number PInf NInf = NInf"
| "times_number NInf PInf = NInf"

fun divide_number :: "number \<Rightarrow> number \<Rightarrow> number" where
  "divide_number (Fin a) (Fin b) =
     (if b = 0 then (if a = 0 then NaN else if 0 < a then PInf else NInf)
      else Fin (a / b))"
| "divide_number NaN _ = NaN"
| "divide_number _ NaN = NaN"
| "divide_number (Fin a) PInf = Fin 0"
| "divide_number (Fin a) NInf = Fin 0"
| "divide_number PInf (Fin b) = (if 0 \<le> b then PInf else NInf)"
| "divide_number NInf (Fin b) = (if 0 \<le> b then NInf else PInf)"
| "divide_number _ _ = NaN"

definition inverse_number :: "number \<Rightarrow> number" where
  "inverse_number x = divide (Fin 1) x"

fun abs_number :: "number \<Rightarrow> number" where
  "abs_number (Fin a) = Fin \<bar>a\<bar>"
| "abs_number PInf = PInf"
| "abs_number NInf = PInf"
| "abs_number NaN = NaN"

fun less_number :: "number \<Rightarrow> number \<Rightarrow> bool" where
  "less_number (Fin a) (Fin b) = (a < b)"
| "less_number NaN _ = False"
| "less_number _ NaN = False"
| "less_number _ NInf = False"
| "less_number PInf _ = False"
| "less_number NInf _ = True"
| "less_number _ PInf = True"

fun less_eq_number :: "number \<Rightarrow> number \<Rightarrow> bool" where
  "less_eq_number (Fin a) (Fin b) = (a \<le> b)"
| "less_eq_number NaN _ = False"
| "less_eq_number _ NaN = False"
| "less_eq_number NInf _ = True"
| "less_eq_number _ PInf = True"
| "less_eq_number _ NInf = False"
| "less_eq_number PInf _ = False"

instance ..

end

text \<open>\<open>Math.round\<close>: the nearest integer, a tie going up.\<close>

fun Math_round :: "number \<Rightarrow> number" where
  "Math_round (Fin a) = Fin (of_int \<lfloor>a + 1 / 2\<rfloor>)"
| "Math_round x = x"

fun Math_exp :: "number \<Rightarrow> number" where
  "Math_exp (Fin a) = Fin (exp a)"
| "Math_exp PInf = PInf"
| "Math_exp NInf = Fin 0"
| "Math_exp NaN = NaN"

text \<open>\<open>Math.min\<close> and \<open>Math.max\<close> return \<open>NaN\<close> as soon as an argument is \<open>NaN\<close>.\<close>

fun Math_min :: "number \<Rightarrow> number \<Rightarrow> number" where
  "Math_min NaN _ = NaN"
| "Math_min _ NaN = NaN"
| "Math_min x y = (if x \<le> y then x else y)"

fun Math_max :: "number \<Rightarrow> number \<Rightarrow> number" where
  "Math_max NaN _ = NaN"
| "Math_max _ NaN = NaN"
| "Math_max x y = (if x \<le> y then y else x)"

text \<open>
  \<open>Number(x.toFixed(3))\<close>: \<open>toFixed\<close> works on the magnitude, picks the integer \<open>n\<close>
  with \<open>n / 1000\<close> nearest to it, the larger one on a tie, and puts the sign back;
  from \<open>10^21\<close> on it prints the number itself.
\<close>

fun toFixed3 :: "number \<Rightarrow> number" where
  "toFixed3 (Fin a) =
     (if 10 ^ 21 \<le> \<bar>a\<bar> then Fin a
      else if a < 0 then Fin (- (of_int \<lfloor>- a * 1000 + 1 / 2\<rfloor> / 1000))
      else Fin (of_int \<lfloor>a * 1000 + 1 / 2\<rfloor> / 1000))"
| "toFixed3 x = x"

text \<open>A finite number above zero: what a standard deviation has to be.\<close>

fun positiveFinite :: "number \<Rightarrow> bool" where
  "positiveFinite (Fin a) = (0 < a)"
| "positiveFinite _ = False"

section \<open>Reference population model\<close>

record MeanStd =
  mean :: number
  std :: number

record RefEntry =
  thicknessRef :: MeanStd
  surfAreaRef :: MeanStd
  volumeRef :: MeanStd

record CurvRefEntry =
  meanCurvRef :: MeanStd
  foldIndRef :: MeanStd

definition ms :: "real \<Rightarrow> real \<Rightarrow> MeanStd" where
  "ms m s = \<lparr>mean = Fin m, std = Fin s\<rparr>"

definition refEntry :: "MeanStd \<Rightarrow> MeanStd \<Rightarrow> MeanStd \<Rightarrow> RefEntry" where
  "refEntry t s v = \<lparr>thicknessRef = t, surfAreaRef = s, volumeRef = v\<rparr>"

definition curvEntry :: "MeanStd \<Rightarrow> MeanStd \<Rightarrow> CurvRefEntry" where
  "curvEntry c f = \<lparr>meanCurvRef = c, foldIndRef = f\<rparr>"

definition REFERENCE_DATA_MALE_entries :: "(string \<times> RefEntry) list" where
  "REFERENCE_DATA_MALE_entries =
   [(''precentral'', refEntry (ms 2.65 0.18) (ms 5400 650) (ms 16500 2200)),
    (''postcentral'', refEntry (ms 2.15 0.16) (ms 5200 600) (ms 13500 1800)),
    (''paracentral'', refEntry (ms 2.45 0.17) (ms 1700 280) (ms 4800 700)),
    (''pericalcarine'', refEntry (ms 1.55 0.14) (ms 1900 320) (ms 2400 400)),
    (''cuneus'', refEntry (ms 1.95 0.15) (ms 2300 380) (ms 4600 650)),
    (''lingual'', refEntry (ms 2.05 0.15) (ms 3800 500) (ms 8200 1100)),
    (''entorhinal'', refEntry (ms 3.20 0.35) (ms 480 100) (ms 1600 350)),
    (''parahippocampal'', refEntry (ms 2.75 0.22) (ms 700 120) (ms 2200 380)),
    (''medialorbitofrontal'', refEntry (ms 2.45 0.20) (ms 1800 300) (ms 5000 750)),
    (''superiortemporal'', refEntry (ms 2.85 0.20) (ms 5800 700) (ms 19000 2500)),
    (''parsopercularis'', refEntry (ms 2.55 0.16) (ms 1600 250) (ms 4500 650)),
    (''parstriangularis'', refEntry (ms 2.40 0.17) (ms 1550 280) (ms 4000 600)),
    (''middletemporal'', refEntry (ms 2.85 0.19) (ms 5000 650) (ms 16000 2200)),
    (''fusiform'', refEntry (ms 2.70 0.18) (ms 3300 450) (ms 9500 1300)),
    (''supramarginal'', refEntry (ms 2.60 0.17) (ms 3800 500) (ms 11500 1600)),
    (''inferiorparietal'', refEntry (ms 2.50 0.16) (ms 5500 700) (ms 15500 2100)),
    (''rostralanteriorcingulate'', refEntry (ms 2.85 0.22) (ms 1100 200) (ms 3500 550)),
    (''insula'', refEntry (ms 3.05 0.22) (ms 2500 350) (ms 7800 1000)),
    (''posteriorcingulate'', refEntry (ms 2.45 0.20) (ms 1500 250) (ms 4000 600)),
    (''superiorfrontal'', refEntry (ms 2.75 0.18) (ms 9500 1200) (ms 30000 4000)),
    (''rostralmiddlefrontal'', refEntry (ms 2.40 0.17) (ms 4700 600) (ms 13000 1800)),
    (''caudalmiddlefrontal'', refEntry (ms 2.65 0.17) (ms 2600 400) (ms 7500 1000)),
    (''superiorparietal'', refEntry (ms 2.25 0.15) (ms 5200 650) (ms 13000 1700)),
    (''precuneus'', refEntry (ms 2.40 0.16) (ms 4600 580) (ms 12000 1600)),
    (''lateraloccipital'', refEntry (ms 2.20 0.16) (ms 6300 800) (ms 15000 2000)),
    (''lateralorbitofrontal'', refEntry (ms 2.55 0.20) (ms 3500 480) (ms 9800 1400)),
    (''inferiortemporal'', refEntry (ms 2.80 0.20) (ms 3900 520) (ms 12500 1700)),
    (''BA3b_exvivo'', refEntry (ms 2.15 0.18) (ms 2000 350) (ms 4500 700)),
    (''BA4a_exvivo'', refEntry (ms 2.85 0.20) (ms 1300 250) (ms 4300 650)),
    (''BA4p_exvivo'', refEntry (ms 2.80 0.19) (ms 1000 200) (ms 2700 450)),
    (''BA44_exvivo'', refEntry (ms 2.80 0.18) (ms 1650 300) (ms 5200 750)),
    (''BA45_exvivo'', refEntry (ms 2.50 0.18) (ms 2250 400) (ms 6200 900))]"

definition REFERENCE_DATA_MALE :: "string \<rightharpoonup> RefEntry" where
  "REFERENCE_DATA_MALE = map_of REFERENCE_DATA_MALE_entries"

definition BA_CURVATURE_REFERENCE_entries :: "(string \<times> CurvRefEntry) list" where
  "BA_CURVATURE_REFERENCE_entries =
   [(''BA3b_exvivo'', curvEntry (ms 0.118 0.015) (ms 30 8)),
    (''BA4a_exvivo'', curvEntry (ms 0.091 0.012) (ms 23 6)),
    (''BA4p_exvivo'', curvEntry (ms 0.098 0.013) (ms 8 3)),
    (''BA44_exvivo'', curvEntry (ms 0.113 0.014) (ms 26 7)),
    (''BA45_exvivo'', curvEntry (ms 0.132 0.018) (ms 42 10))]"

definition BA_CURVATURE_REFERENCE :: "string \<rightharpoonup> CurvRefEntry" where
  "BA_CURVATURE_REFERENCE = map_of BA_CURVATURE_REFERENCE_entries"

section \<open>Measurements and results\<close>

record DKTRegionData =
  thickness :: number
  surfArea :: number
  volume :: number
  meanCurv :: "number option"
  gausCurv :: "number option"
  foldInd :: "number option"
  curvInd :: "number option"

record DKTData =
  lh :: "string \<rightharpoonup> DKTRegionData"
  rh :: "string \<rightharpoonup> DKTRegionData"
  lhBA :: "(string \<rightharpoonup> DKTRegionData) option"
  rhBA :: "(string \<rightharpoonup> DKTRegionData) option"

record RegionDetail =
  rd_region :: string
  rd_regionWeight :: number
  rd_zL :: number
  rd_zR :: number
  rd_contribL :: number
  rd_contribR :: number
  rd_weightsUsed :: string

text \<open>
  The fields of a region detail and of an index result carry a prefix, so that the
  calculators can keep the source's names for their variables. Of an index result the
  model keeps the name and the computed fields. The remaining
  fields of the source are fixed texts, and the interpretation comes from outside.
\<close>

record IndexResult =
  ir_name :: string
  ir_value :: number
  ir_percentile :: number
  ir_zScore :: "number option"
  ir_details :: "RegionDetail list"

section \<open>Z-score primitives and percentile conversion\<close>

definition zScore :: "number \<Rightarrow> number \<Rightarrow> number \<Rightarrow> number" where
  "zScore v m s = (v - m) / s"

definition compositeZScore :: "DKTRegionData \<Rightarrow> RefEntry \<Rightarrow> number \<times> number \<times> number \<Rightarrow> number" where
  "compositeZScore data ref weights =
     (let zThick = zScore (thickness data) (mean (thicknessRef ref)) (std (thicknessRef ref));
          zSurf = zScore (surfArea data) (mean (surfAreaRef ref)) (std (surfAreaRef ref));
          zVol = zScore (volume data) (mean (volumeRef ref)) (std (volumeRef ref));
          (wT, wS, wV) = (case weights of (a, b, c) \<Rightarrow> (a / Fin 100, b / Fin 100, c / Fin 100))
      in zThick * wT + zSurf * wS + zVol * wV)"

definition zToPercentile :: "number \<Rightarrow> number" where
  "zToPercentile z =
     (let a1 = Fin 0.254829592;
          a2 = Fin (- 0.284496736);
          a3 = Fin 1.421413741;
          a4 = Fin (- 1.453152027);
          a5 = Fin 1.061405429;
          p = Fin 0.3275911;
          sign = (if z < Fin 0 then Fin (- 1) else Fin 1);
          absZ = \<bar>z\<bar>;
          t = Fin 1.0 / (Fin 1.0 + p * absZ);
          y = Fin 1.0 - (((((a5 * t + a4) * t) + a3) * t + a2) * t + a1) * t
                * Math_exp (- absZ * absZ / Fin 2)
      in Math_round ((Fin 0.5 * (Fin 1.0 + sign * y)) * Fin 100))"

section \<open>Report parser\<close>

text \<open>
  Report text is a \<open>string\<close>; its characters stand for code units below 256. The white
  space of \<open>trim\<close>, of the pattern \<open>\s\<close> and of \<open>parseFloat\<close> is the same set: tab, line
  feed, vertical tab, form feed, carriage return, space and no-break space.
\<close>

definition isWhiteSpace :: "char \<Rightarrow> bool" where
  "isWhiteSpace c = (of_char c \<in> {9, 10, 11, 12, 13, 32, 160 :: nat})"

definition isDigit :: "char \<Rightarrow> bool" where
  "isDigit c = (48 \<le> (of_char c :: nat) \<and> (of_char c :: nat) \<le> 57)"

text \<open>\<open>content.split('\n')\<close>\<close>

fun splitNL :: "string \<Rightarrow> string list" where
  "splitNL [] = [[]]"
| "splitNL (c # cs) =
     (if c = CHR 0x0A then [] # splitNL cs
      else (case splitNL cs of l # ls \<Rightarrow> (c # l) # ls | [] \<Rightarrow> [[c]]))"

definition startsWith :: "string \<Rightarrow> string \<Rightarrow> bool" where
  "startsWith s p = (take (length p) s = p)"

fun includesStr :: "string \<Rightarrow> string \<Rightarrow> bool" where
  "includesStr [] sub = (sub = [])"
| "includesStr (c # cs) sub = (startsWith (c # cs) sub \<or> includesStr cs sub)"

definition trim :: "string \<Rightarrow> string" where
  "trim s = rev (dropWhile isWhiteSpace (rev (dropWhile isWhiteSpace s)))"

text \<open>
  \<open>s.split(/\s+/)\<close>: the pieces between maximal runs of white space. A run at the start
  or at the end of the string leaves an empty piece there.
\<close>

function splitWS :: "string \<Rightarrow> string list" where
  "splitWS s =
     (let tok = takeWhile (\<lambda>c. \<not> isWhiteSpace c) s;
          rest = dropWhile (\<lambda>c. \<not> isWhiteSpace c) s
      in case rest of [] \<Rightarrow> [tok]
         | _ # r \<Rightarrow> tok # splitWS (dropWhile isWhiteSpace r))"
  by pat_completeness auto
termination
proof (relation "measure length")
  fix s :: string and tok rest :: string and c :: char and r :: string
  assume "rest = dropWhile (\<lambda>c. \<not> isWhiteSpace c) s" and "rest = c # r"
  then have "length (dropWhile (\<lambda>c. \<not> isWhiteSpace c) s) = Suc (length r)"
    by (metis length_Cons)
  then have "length r < length s"
    using length_dropWhile_le [of "\<lambda>c. \<not> isWhiteSpace c" s] by linarith
  moreover have "length (dropWhile isWhiteSpace r) \<le> length r"
    by (rule length_dropWhile_le)
  ultimately show "(dropWhile isWhiteSpace r, s) \<in> measure length" by simp
qed simp

declare splitWS.simps [simp del]

definition digitsValue :: "string \<Rightarrow> nat" where
  "digitsValue ds = foldl (\<lambda>n c. 10 * n + (of_char c - 48)) 0 ds"

text \<open>
  \<open>parseFloat\<close> skips leading white space and reads the longest prefix that is a decimal
  literal: a sign, then \<open>Infinity\<close> or digits with an optional fraction and an optional
  exponent. Without such a prefix the result is \<open>NaN\<close>; what follows the prefix is
  ignored. The value is the exact decimal value.
\<close>

definition parseSign :: "string \<Rightarrow> bool \<times> string" where
  "parseSign s =
     (case s of [] \<Rightarrow> (False, s)
      | c # r \<Rightarrow> if c = CHR ''-'' then (True, r)
                 else if c = CHR ''+'' then (False, r) else (False, s))"

definition parseExponent :: "string \<Rightarrow> int" where
  "parseExponent s =
     (case s of [] \<Rightarrow> 0
      | c # r \<Rightarrow>
          if c = CHR ''e'' \<or> c = CHR ''E'' then
            (let (eneg, r') = parseSign r;
                 ed = takeWhile isDigit r'
             in if ed = [] then 0
                else if eneg then - int (digitsValue ed) else int (digitsValue ed))
          else 0)"

definition scale10 :: "real \<Rightarrow> int \<Rightarrow> real" where
  "scale10 x e = (if 0 \<le> e then x * 10 ^ nat e else x / 10 ^ nat (- e))"

definition parseFloat :: "string \<Rightarrow> number" where
  "parseFloat s =
     (let (neg, s2) = parseSign (dropWhile isWhiteSpace s)
      in if startsWith s2 ''Infinity'' then (if neg then NInf else PInf)
         else
           (let ip = takeWhile isDigit s2;
                r1 = dropWhile isDigit s2;
                (fp, r2) =
                  (case r1 of [] \<Rightarrow> ([], r1)
                   | c # r \<Rightarrow>
                       if c = CHR ''.'' then (takeWhile isDigit r, dropWhile isDigit r)
                       else ([], r1))
            in if ip = [] \<and> fp = [] then NaN
               else
                 (let m = scale10 (real (digitsValue (ip @ fp))) (- int (length fp));
                      v = scale10 m (parseExponent r2)
                  in Fin (if neg then - v else v))))"

text \<open>
  The loop of \<open>parseDKTStats\<close> over the lines, with its three variables as the state.
  A row is stored under its first token; the key \<open>__proto__\<close> of a JavaScript object
  is not a property of its own, so a row of that name leaves the entries as they are.
\<close>

definition storeRegion ::
  "(string \<rightharpoonup> DKTRegionData) \<Rightarrow> string \<Rightarrow> DKTRegionData \<Rightarrow> (string \<rightharpoonup> DKTRegionData)" where
  "storeRegion data regionName regionData =
     (if regionName = ''__proto__'' then data else data(regionName \<mapsto> regionData))"

definition parseRow ::
  "bool \<Rightarrow> (string \<rightharpoonup> DKTRegionData) \<Rightarrow> string \<Rightarrow> (string \<rightharpoonup> DKTRegionData)" where
  "parseRow hasExtendedCols data line =
     (let parts = splitWS (trim line)
      in if 5 \<le> length parts then
           (let regionName = parts ! 0;
                regionData = \<lparr>thickness = parseFloat (parts ! 4),
                              surfArea = parseFloat (parts ! 2),
                              volume = parseFloat (parts ! 3),
                              meanCurv = None, gausCurv = None,
                              foldInd = None, curvInd = None\<rparr>;
                regionData' =
                  (if hasExtendedCols \<and> 10 \<le> length parts then
                     regionData\<lparr>meanCurv := Some (parseFloat (parts ! 6)),
                                gausCurv := Some (parseFloat (parts ! 7)),
                                foldInd := Some (parseFloat (parts ! 8)),
                                curvInd := Some (parseFloat (parts ! 9))\<rparr>
                   else regionData)
            in storeRegion data regionName regionData')
         else data)"

fun parseLines ::
  "bool \<Rightarrow> bool \<Rightarrow> (string \<rightharpoonup> DKTRegionData) \<Rightarrow> string list \<Rightarrow> (string \<rightharpoonup> DKTRegionData)" where
  "parseLines inTable hasExtendedCols data [] = data"
| "parseLines inTable hasExtendedCols data (line # lines) =
     (if includesStr line ''ColHeaders'' then
        parseLines True (includesStr line ''MeanCurv'' \<or> includesStr line ''CurvInd'') data lines
      else if inTable \<and> trim line \<noteq> [] \<and> \<not> startsWith line ''#'' then
        parseLines inTable hasExtendedCols (parseRow hasExtendedCols data line) lines
      else parseLines inTable hasExtendedCols data lines)"

definition parseDKTStats :: "string \<Rightarrow> (string \<rightharpoonup> DKTRegionData)" where
  "parseDKTStats content = parseLines False False Map.empty (splitNL content)"

section \<open>Index calculators\<close>

subsection \<open>Shared steps\<close>

text \<open>
  Every loop starts with \<open>if (!ref || !L[region] || !R[region]) continue\<close>: a region takes
  part only when it has a reference entry and a measurement in both hemispheres.
\<close>

definition lookupRegion ::
  "(string \<rightharpoonup> DKTRegionData) \<Rightarrow> (string \<rightharpoonup> DKTRegionData) \<Rightarrow> string
   \<Rightarrow> (RefEntry \<times> DKTRegionData \<times> DKTRegionData) option" where
  "lookupRegion L R nm =
     (case REFERENCE_DATA_MALE nm of None \<Rightarrow> None
      | Some ref \<Rightarrow>
          (case L nm of None \<Rightarrow> None
           | Some l \<Rightarrow> (case R nm of None \<Rightarrow> None | Some r \<Rightarrow> Some (ref, l, r))))"

text \<open>Decimal digits of a natural number, and \<open>x.toFixed(0)\<close> as a string.\<close>

fun showNat :: "nat \<Rightarrow> string" where
  "showNat n =
     (if n < 10 then [char_of (48 + n)] else showNat (n div 10) @ [char_of (48 + n mod 10)])"

declare showNat.simps [simp del]

fun toFixed0 :: "number \<Rightarrow> string" where
  "toFixed0 (Fin a) =
     (if a < 0 then ''-'' @ showNat (nat \<lfloor>- a + 1 / 2\<rfloor>) else showNat (nat \<lfloor>a + 1 / 2\<rfloor>))"
| "toFixed0 PInf = ''Infinity''"
| "toFixed0 NInf = ''-Infinity''"
| "toFixed0 NaN = ''NaN''"

definition weightsLabel :: "number \<Rightarrow> number \<Rightarrow> number \<Rightarrow> string" where
  "weightsLabel a b c = toFixed0 a @ '':'' @ toFixed0 b @ '':'' @ toFixed0 c"

definition mkDetail ::
  "string \<Rightarrow> number \<Rightarrow> number \<Rightarrow> number \<Rightarrow> number \<Rightarrow> number \<Rightarrow> string \<Rightarrow> RegionDetail" where
  "mkDetail r w zl zr cl cr wu =
     \<lparr>rd_region = r, rd_regionWeight = w, rd_zL = toFixed3 zl, rd_zR = toFixed3 zr,
      rd_contribL = toFixed3 cl, rd_contribR = toFixed3 cr, rd_weightsUsed = wu\<rparr>"

definition metricLabel :: "number \<times> number \<times> number \<Rightarrow> string" where
  "metricLabel mw = (case mw of (a, b, c) \<Rightarrow> weightsLabel a b c)"

subsection \<open>Cognitive indices\<close>

definition olfactoryStep ::
  "DKTData \<Rightarrow> number \<times> RegionDetail list \<Rightarrow> string \<times> number \<Rightarrow> number \<times> RegionDetail list" where
  "olfactoryStep data acc rw =
     (case acc of (totalIndex, ds) \<Rightarrow> case rw of (region, weight) \<Rightarrow>
        (case lookupRegion (lh data) (rh data) region of None \<Rightarrow> acc
         | Some (ref, l, r) \<Rightarrow>
             (let metricWeights = (Fin 80, Fin 10, Fin 10);
                  zL = compositeZScore l ref metricWeights;
                  zR = compositeZScore r ref metricWeights
              in (totalIndex + weight * ((zL + zR) / Fin 2),
                  ds @ [mkDetail region weight zL zR (weight * zL) (weight * zR)
                          (metricLabel metricWeights)]))))"

definition olfactoryRegionWeights :: "(string \<times> number) list" where
  "olfactoryRegionWeights =
     [(''entorhinal'', Fin 0.60), (''parahippocampal'', Fin 0.20),
      (''medialorbitofrontal'', Fin 0.20)]"

definition calculateOlfactoryIndex :: "DKTData \<Rightarrow> IndexResult" where
  "calculateOlfactoryIndex data =
     (case foldl (olfactoryStep data) (Fin 0, []) olfactoryRegionWeights of
        (totalIndex, ds) \<Rightarrow>
          \<lparr>ir_name = ''Olfactory Function Index'',
           ir_value = Math_round (totalIndex * Fin 100) / Fin 100,
           ir_percentile = zToPercentile totalIndex,
           ir_zScore = None,
           ir_details = ds\<rparr>)"

definition languageDktStep ::
  "DKTData \<Rightarrow> number \<times> number \<times> RegionDetail list \<Rightarrow> string \<times> number
   \<Rightarrow> number \<times> number \<times> RegionDetail list" where
  "languageDktStep data acc rw =
     (case acc of (totalIndex, totalWeight, ds) \<Rightarrow> case rw of (region, weight) \<Rightarrow>
        (case lookupRegion (lh data) (rh data) region of None \<Rightarrow> acc
         | Some (ref, l, r) \<Rightarrow>
             (let metricWeights = (Fin 45, Fin 30, Fin 25);
                  zL = compositeZScore l ref metricWeights;
                  zR = compositeZScore r ref metricWeights
              in (totalIndex + weight * (Fin 0.7 * zL + Fin 0.3 * zR),
                  totalWeight + weight,
                  ds @ [mkDetail region weight zL zR (weight * Fin 0.7 * zL)
                          (weight * Fin 0.3 * zR) (metricLabel metricWeights)]))))"

definition languageBaStep ::
  "(string \<rightharpoonup> DKTRegionData) \<Rightarrow> (string \<rightharpoonup> DKTRegionData)
   \<Rightarrow> number \<times> number \<times> RegionDetail list \<Rightarrow> string \<times> number
   \<Rightarrow> number \<times> number \<times> RegionDetail list" where
  "languageBaStep L R acc rw =
     (case acc of (totalIndex, totalWeight, ds) \<Rightarrow> case rw of (region, weight) \<Rightarrow>
        (case lookupRegion L R region of None \<Rightarrow> acc
         | Some (ref, l, r) \<Rightarrow>
             (let metricWeights = (Fin 45, Fin 30, Fin 25);
                  zL = compositeZScore l ref metricWeights;
                  zR = compositeZScore r ref metricWeights
              in (totalIndex + weight * (Fin 0.8 * zL + Fin 0.2 * zR),
                  totalWeight + weight,
                  ds @ [mkDetail (region @ '' (Broca)'') weight zL zR (weight * Fin 0.8 * zL)
                          (weight * Fin 0.2 * zR) (metricLabel metricWeights)]))))"

definition dktRegionWeights :: "(string \<times> number) list" where
  "dktRegionWeights =
     [(''superiortemporal'', Fin 0.25), (''parsopercularis'', Fin 0.15),
      (''parstriangularis'', Fin 0.10), (''middletemporal'', Fin 0.10),
      (''fusiform'', Fin 0.10)]"

definition baRegionWeights :: "(string \<times> number) list" where
  "baRegionWeights = [(''BA44_exvivo'', Fin 0.15), (''BA45_exvivo'', Fin 0.15)]"

definition calculateLanguageIndex :: "DKTData \<Rightarrow> IndexResult" where
  "calculateLanguageIndex data =
     (let acc1 = foldl (languageDktStep data) (Fin 0, Fin 0, []) dktRegionWeights;
          acc2 = (case (lhBA data, rhBA data) of
                    (Some L, Some R) \<Rightarrow> foldl (languageBaStep L R) acc1 baRegionWeights
                  | _ \<Rightarrow> acc1)
      in case acc2 of (totalIndex, totalWeight, ds) \<Rightarrow>
           (let totalIndex' =
                  (if Fin 0 < totalWeight \<and> totalWeight < Fin 1 then totalIndex / totalWeight
                   else totalIndex)
            in \<lparr>ir_name = ''Language Composite Index'',
                ir_value = Math_round (totalIndex' * Fin 100) / Fin 100,
                ir_percentile = zToPercentile totalIndex',
                ir_zScore = None,
                ir_details = ds\<rparr>))"

definition readingStep ::
  "DKTData \<Rightarrow> number \<times> RegionDetail list \<Rightarrow> string \<times> number \<Rightarrow> number \<times> RegionDetail list" where
  "readingStep data acc rw =
     (case acc of (totalIndex, ds) \<Rightarrow> case rw of (region, weight) \<Rightarrow>
        (case lookupRegion (lh data) (rh data) region of None \<Rightarrow> acc
         | Some (ref, l, r) \<Rightarrow>
             (let metricWeights = (Fin 50, Fin 30, Fin 20);
                  zL = compositeZScore l ref metricWeights;
                  zR = compositeZScore r ref metricWeights
              in (totalIndex + weight * (Fin 0.75 * zL + Fin 0.25 * zR),
                  ds @ [mkDetail region weight zL zR (weight * Fin 0.75 * zL)
                          (weight * Fin 0.25 * zR) (metricLabel metricWeights)]))))"

definition readingRegionWeights :: "(string \<times> number) list" where
  "readingRegionWeights =
     [(''superiortemporal'', Fin 0.40), (''supramarginal'', Fin 0.25),
      (''inferiorparietal'', Fin 0.20), (''fusiform'', Fin 0.15)]"

definition calculateReadingIndex :: "DKTData \<Rightarrow> IndexResult" where
  "calculateReadingIndex data =
     (case foldl (readingStep data) (Fin 0, []) readingRegionWeights of
        (totalIndex, ds) \<Rightarrow>
          \<lparr>ir_name = ''Reading Fluency Index'',
           ir_value = Math_round (totalIndex * Fin 100) / Fin 100,
           ir_percentile = zToPercentile totalIndex,
           ir_zScore = None,
           ir_details = ds\<rparr>)"

text \<open>
  The Empathy, Executive Function and Fluid Intelligence loops have one body, with a
  symmetric mean and halved contributions; they differ in the metric weights.
\<close>

definition meanStep ::
  "number \<times> number \<times> number \<Rightarrow> DKTData \<Rightarrow> number \<times> RegionDetail list \<Rightarrow> string \<times> number
   \<Rightarrow> number \<times> RegionDetail list" where
  "meanStep metricWeights data acc rw =
     (case acc of (totalIndex, ds) \<Rightarrow> case rw of (region, weight) \<Rightarrow>
        (case lookupRegion (lh data) (rh data) region of None \<Rightarrow> acc
         | Some (ref, l, r) \<Rightarrow>
             (let zL = compositeZScore l ref metricWeights;
                  zR = compositeZScore r ref metricWeights
              in (totalIndex + weight * ((zL + zR) / Fin 2),
                  ds @ [mkDetail region weight zL zR (weight * zL / Fin 2)
                          (weight * zR / Fin 2) (metricLabel metricWeights)]))))"

definition empathyRegionWeights :: "(string \<times> number) list" where
  "empathyRegionWeights =
     [(''rostralanteriorcingulate'', Fin 0.45), (''medialorbitofrontal'', Fin 0.25),
      (''insula'', Fin 0.20), (''posteriorcingulate'', Fin 0.10)]"

definition calculateEmpathyIndex :: "DKTData \<Rightarrow> IndexResult" where
  "calculateEmpathyIndex data =
     (case foldl (meanStep (Fin 80, Fin 10, Fin 10) data) (Fin 0, []) empathyRegionWeights of
        (totalIndex, ds) \<Rightarrow>
          \<lparr>ir_name = ''Empathy Index'',
           ir_value = Math_round (totalIndex * Fin 100) / Fin 100,
           ir_percentile = zToPercentile totalIndex,
           ir_zScore = None,
           ir_details = ds\<rparr>)"

definition executiveRegionWeights :: "(string \<times> number) list" where
  "executiveRegionWeights =
     [(''superiorfrontal'', Fin 0.40), (''rostralmiddlefrontal'', Fin 0.30),
      (''caudalmiddlefrontal'', Fin 0.20), (''parsopercularis'', Fin 0.10)]"

definition calculateExecutiveIndex :: "DKTData \<Rightarrow> IndexResult" where
  "calculateExecutiveIndex data =
     (case foldl (meanStep (Fin 35, Fin 25, Fin 40) data) (Fin 0, []) executiveRegionWeights of
        (totalIndex, ds) \<Rightarrow>
          \<lparr>ir_name = ''Executive Function Index'',
           ir_value = Math_round (totalIndex * Fin 100) / Fin 100,
           ir_percentile = zToPercentile totalIndex,
           ir_zScore = None,
           ir_details = ds\<rparr>)"

definition spatialStep ::
  "DKTData \<Rightarrow> number \<times> RegionDetail list \<Rightarrow> string \<times> number \<Rightarrow> number \<times> RegionDetail list" where
  "spatialStep data acc rw =
     (case acc of (totalIndex, ds) \<Rightarrow> case rw of (region, weight) \<Rightarrow>
        (case lookupRegion (lh data) (rh data) region of None \<Rightarrow> acc
         | Some (ref, l, r) \<Rightarrow>
             (let metricWeights = (Fin 20, Fin 50, Fin 30);
                  zL = compositeZScore l ref metricWeights;
                  zR = compositeZScore r ref metricWeights
              in (totalIndex + weight * (Fin 0.4 * zL + Fin 0.6 * zR),
                  ds @ [mkDetail region weight zL zR (weight * Fin 0.4 * zL)
                          (weight * Fin 0.6 * zR) (metricLabel metricWeights)]))))"

definition spatialRegionWeights :: "(string \<times> number) list" where
  "spatialRegionWeights =
     [(''inferiorparietal'', Fin 0.50), (''superiorparietal'', Fin 0.35),
      (''precuneus'', Fin 0.15)]"

definition calculateSpatialIndex :: "DKTData \<Rightarrow> IndexResult" where
  "calculateSpatialIndex data =
     (case foldl (spatialStep data) (Fin 0, []) spatialRegionWeights of
        (totalIndex, ds) \<Rightarrow>
          \<lparr>ir_name = ''Spatial Processing Index'',
           ir_value = Math_round (totalIndex * Fin 100) / Fin 100,
           ir_percentile = zToPercentile totalIndex,
           ir_zScore = None,
           ir_details = ds\<rparr>)"

definition fluidRegionWeights :: "(string \<times> number) list" where
  "fluidRegionWeights =
     [(''superiorfrontal'', Fin 0.25), (''inferiorparietal'', Fin 0.20),
      (''superiortemporal'', Fin 0.20), (''rostralmiddlefrontal'', Fin 0.20),
      (''insula'', Fin 0.15)]"

definition calculateFluidIntelligenceIndex :: "DKTData \<Rightarrow> IndexResult" where
  "calculateFluidIntelligenceIndex data =
     (case foldl (meanStep (Fin 30, Fin 30, Fin 40) data) (Fin 0, []) fluidRegionWeights of
        (totalIndex, ds) \<Rightarrow>
          \<lparr>ir_name = ''Fluid Intelligence Index (Structural)'',
           ir_value = Math_round (totalIndex * Fin 100) / Fin 100,
           ir_percentile = zToPercentile totalIndex,
           ir_zScore = None,
           ir_details = ds\<rparr>)"

text \<open>
  The Parietal IQ loop computes the three z-scores in line, with the metric weights of
  the region as fractions. The configuration is (name, weight, wThick, wArea, wVol).
\<close>

definition inlineZ ::
  "number \<Rightarrow> number \<Rightarrow> number \<Rightarrow> DKTRegionData \<Rightarrow> RefEntry \<Rightarrow> number" where
  "inlineZ wThick wArea wVol m ref =
     wThick * ((thickness m - mean (thicknessRef ref)) / std (thicknessRef ref))
     + wArea * ((surfArea m - mean (surfAreaRef ref)) / std (surfAreaRef ref))
     + wVol * ((volume m - mean (volumeRef ref)) / std (volumeRef ref))"

definition parietalStep ::
  "DKTData \<Rightarrow> number \<times> number \<times> RegionDetail list
   \<Rightarrow> string \<times> number \<times> number \<times> number \<times> number
   \<Rightarrow> number \<times> number \<times> RegionDetail list" where
  "parietalStep data acc cfg =
     (case acc of (totalIndex, totalWeight, ds) \<Rightarrow>
      case cfg of (nm, weight, wThick, wArea, wVol) \<Rightarrow>
        (case lookupRegion (lh data) (rh data) nm of None \<Rightarrow> acc
         | Some (ref, l, r) \<Rightarrow>
             (let zL = inlineZ wThick wArea wVol l ref;
                  zR = inlineZ wThick wArea wVol r ref;
                  avgZ = (zL + zR) / Fin 2
              in (totalIndex + weight * avgZ,
                  totalWeight + weight,
                  ds @ [mkDetail nm weight zL zR (weight * zL / Fin 2) (weight * zR / Fin 2)
                          (weightsLabel (wThick * Fin 100) (wArea * Fin 100)
                             (wVol * Fin 100))]))))"

definition parietalRegions :: "(string \<times> number \<times> number \<times> number \<times> number) list" where
  "parietalRegions =
     [(''supramarginal'', Fin 0.25, Fin 0.55, Fin 0.25, Fin 0.20),
      (''inferiorparietal'', Fin 0.25, Fin 0.50, Fin 0.28, Fin 0.22),
      (''superiorparietal'', Fin 0.22, Fin 0.52, Fin 0.28, Fin 0.20),
      (''precuneus'', Fin 0.18, Fin 0.48, Fin 0.30, Fin 0.22),
      (''posteriorcingulate'', Fin 0.10, Fin 0.45, Fin 0.30, Fin 0.25)]"

definition calculateParietalIQIndex :: "DKTData \<Rightarrow> IndexResult" where
  "calculateParietalIQIndex data =
     (case foldl (parietalStep data) (Fin 0, Fin 0, []) parietalRegions of
        (totalIndex, totalWeight, ds) \<Rightarrow>
          (let zScore = (if Fin 0 < totalWeight then totalIndex / totalWeight else Fin 0);
               correlationCoefficient = Fin 0.40;
               predictedIQ = Math_round (Fin 100 + zScore * Fin 15 * correlationCoefficient);
               clampedIQ = Math_max (Fin 70) (Math_min (Fin 145) predictedIQ)
           in \<lparr>ir_name = ''Parietal IQ Prediction Index'',
               ir_value = clampedIQ,
               ir_percentile = zToPercentile zScore,
               ir_zScore = Some (Math_round (zScore * Fin 100) / Fin 100),
               ir_details = ds\<rparr>))"

subsection \<open>Lateralization indices\<close>

text \<open>
  The folding-index z-scores of the Handedness and Language Output loops: both are zero
  unless the region has a curvature reference and both hemispheres carry \<open>foldInd\<close>.
\<close>

definition foldZScores ::
  "CurvRefEntry option \<Rightarrow> DKTRegionData \<Rightarrow> DKTRegionData \<Rightarrow> number \<times> number" where
  "foldZScores curvRef l r =
     (case curvRef of None \<Rightarrow> (Fin 0, Fin 0)
      | Some c \<Rightarrow>
          (case foldInd l of None \<Rightarrow> (Fin 0, Fin 0)
           | Some fl \<Rightarrow>
               (case foldInd r of None \<Rightarrow> (Fin 0, Fin 0)
                | Some fr \<Rightarrow>
                    ((fl - mean (foldIndRef c)) / std (foldIndRef c),
                     (fr - mean (foldIndRef c)) / std (foldIndRef c)))))"

text \<open>
  The composite z-scores \<open>(zL, zR)\<close> of a subregion: thickness, surface area and folding
  index, weighted by the region's \<open>wThick\<close>, \<open>wArea\<close> and \<open>wFold\<close>.
\<close>

definition baZScores ::
  "string \<Rightarrow> number \<Rightarrow> number \<Rightarrow> number \<Rightarrow> RefEntry \<Rightarrow> DKTRegionData \<Rightarrow> DKTRegionData
   \<Rightarrow> number \<times> number" where
  "baZScores nm wThick wArea wFold ref l r =
     (let curvRef = BA_CURVATURE_REFERENCE nm;
          zThick_L = (thickness l - mean (thicknessRef ref)) / std (thicknessRef ref);
          zThick_R = (thickness r - mean (thicknessRef ref)) / std (thicknessRef ref);
          zArea_L = (surfArea l - mean (surfAreaRef ref)) / std (surfAreaRef ref);
          zArea_R = (surfArea r - mean (surfAreaRef ref)) / std (surfAreaRef ref);
          (zFold_L, zFold_R) = foldZScores curvRef l r
      in (wThick * zThick_L + wArea * zArea_L + wFold * zFold_L,
          wThick * zThick_R + wArea * zArea_R + wFold * zFold_R))"

definition handednessStep ::
  "(string \<rightharpoonup> DKTRegionData) \<Rightarrow> (string \<rightharpoonup> DKTRegionData)
   \<Rightarrow> number \<times> number \<times> RegionDetail list
   \<Rightarrow> string \<times> number \<times> number \<times> number \<times> number
   \<Rightarrow> number \<times> number \<times> RegionDetail list" where
  "handednessStep L R acc cfg =
     (case acc of (totalIndex, totalWeight, ds) \<Rightarrow>
      case cfg of (nm, weight, wThick, wArea, wFold) \<Rightarrow>
        (case lookupRegion L R nm of None \<Rightarrow> acc
         | Some (ref, l, r) \<Rightarrow>
             (case baZScores nm wThick wArea wFold ref l r of (zL, zR) \<Rightarrow>
                (let contribution = weight * (zL - zR)
                 in (totalIndex + contribution,
                     totalWeight + weight,
                     ds @ [mkDetail nm weight zL zR (weight * zL) (weight * zR)
                             (weightsLabel (wThick * Fin 100) (wArea * Fin 100)
                                (wFold * Fin 100))])))))"

definition baRegionConfigs :: "(string \<times> number \<times> number \<times> number \<times> number) list" where
  "baRegionConfigs =
     [(''BA4a_exvivo'', Fin 0.35, Fin 0.35, Fin 0.35, Fin 0.30),
      (''BA4p_exvivo'', Fin 0.35, Fin 0.35, Fin 0.35, Fin 0.30),
      (''BA3b_exvivo'', Fin 0.30, Fin 0.40, Fin 0.30, Fin 0.30)]"

definition calculateHandednessIndex :: "DKTData \<Rightarrow> IndexResult" where
  "calculateHandednessIndex data =
     (case lhBA data of
        None \<Rightarrow> \<lparr>ir_name = ''Handedness Index'', ir_value = Fin 0, ir_percentile = Fin 50,
                  ir_zScore = None, ir_details = []\<rparr>
      | Some L \<Rightarrow>
          (case rhBA data of
             None \<Rightarrow> \<lparr>ir_name = ''Handedness Index'', ir_value = Fin 0, ir_percentile = Fin 50,
                       ir_zScore = None, ir_details = []\<rparr>
           | Some R \<Rightarrow>
               (case foldl (handednessStep L R) (Fin 0, Fin 0, []) baRegionConfigs of
                  (totalIndex, totalWeight, ds) \<Rightarrow>
                    (let finalIndex =
                           (if Fin 0 < totalWeight then totalIndex / totalWeight else Fin 0)
                     in \<lparr>ir_name = ''Handedness Index'',
                         ir_value = Math_round (finalIndex * Fin 1000) / Fin 1000,
                         ir_percentile = zToPercentile finalIndex,
                         ir_zScore = None,
                         ir_details = ds\<rparr>))))"

definition dominantEyeStep ::
  "DKTData \<Rightarrow> number \<times> RegionDetail list \<Rightarrow> string \<times> number \<Rightarrow> number \<times> RegionDetail list" where
  "dominantEyeStep data acc rw =
     (case acc of (totalIndex, ds) \<Rightarrow> case rw of (region, weight) \<Rightarrow>
        (case lookupRegion (lh data) (rh data) region of None \<Rightarrow> acc
         | Some (ref, l, r) \<Rightarrow>
             (let metricWeights = (Fin 92, Fin 4, Fin 4);
                  zL = compositeZScore l ref metricWeights;
                  zR = compositeZScore r ref metricWeights
              in (totalIndex + weight * (zL - zR),
                  ds @ [mkDetail region weight zL zR (weight * zL) (weight * zR)
                          (metricLabel metricWeights)]))))"

definition dominantEyeRegionWeights :: "(string \<times> number) list" where
  "dominantEyeRegionWeights =
     [(''pericalcarine'', Fin 0.70), (''cuneus'', Fin 0.15), (''lingual'', Fin 0.15)]"

definition calculateDominantEyeIndex :: "DKTData \<Rightarrow> IndexResult" where
  "calculateDominantEyeIndex data =
     (case foldl (dominantEyeStep data) (Fin 0, []) dominantEyeRegionWeights of
        (totalIndex, ds) \<Rightarrow>
          \<lparr>ir_name = ''Dominant Eye Index'',
           ir_value = Math_round (totalIndex * Fin 1000) / Fin 1000,
           ir_percentile = zToPercentile totalIndex,
           ir_zScore = None,
           ir_details = ds\<rparr>)"

definition nostrilStep ::
  "DKTData \<Rightarrow> number \<times> RegionDetail list \<Rightarrow> string \<times> number \<Rightarrow> number \<times> RegionDetail list" where
  "nostrilStep data acc rw =
     (case acc of (rawScore, ds) \<Rightarrow> case rw of (nm, weight) \<Rightarrow>
        (let actualName = (if nm = ''piriform'' then ''entorhinal'' else nm)
         in case lookupRegion (lh data) (rh data) actualName of None \<Rightarrow> acc
            | Some (norm', l, r) \<Rightarrow>
                (let metricWeights = (Fin 70, Fin 20, Fin 10);
                     zL = compositeZScore l norm' metricWeights;
                     zR = compositeZScore r norm' metricWeights;
                     contribution = weight * (zR - zL)
                 in (rawScore + contribution,
                     ds @ [mkDetail nm weight zL zR (weight * zL) (weight * zR)
                             (metricLabel metricWeights)]))))"

definition nostrilRegions :: "(string \<times> number) list" where
  "nostrilRegions =
     [(''entorhinal'', Fin 0.45), (''parahippocampal'', Fin 0.20),
      (''medialorbitofrontal'', Fin 0.20), (''insula'', Fin 0.10), (''piriform'', Fin 0.05)]"

definition calculatePreferredNostrilIndex :: "DKTData \<Rightarrow> IndexResult" where
  "calculatePreferredNostrilIndex data =
     (case foldl (nostrilStep data) (Fin 0, []) nostrilRegions of
        (rawScore, ds) \<Rightarrow>
          (let oli = rawScore;
               percentile =
                 (if Fin 0 \<le> oli then Math_min (Fin 99) (Math_round (Fin 50 + oli * Fin 40))
                  else Math_max (Fin 1) (Math_round (Fin 50 + oli * Fin 40)))
           in \<lparr>ir_name = ''Preferred Nostril Index'',
               ir_value = toFixed3 oli,
               ir_percentile = percentile,
               ir_zScore = Some (toFixed3 rawScore),
               ir_details = ds\<rparr>))"

text \<open>
  Language Output: the loop over the two Broca subregions collects \<open>sumContribL\<close>,
  \<open>sumContribR\<close> and \<open>totalWeight\<close>; the ratio \<open>li\<close> and its percentile bands follow.
\<close>

definition languageOutputStep ::
  "(string \<rightharpoonup> DKTRegionData) \<Rightarrow> (string \<rightharpoonup> DKTRegionData)
   \<Rightarrow> number \<times> number \<times> number \<times> RegionDetail list
   \<Rightarrow> string \<times> number \<times> number \<times> number \<times> number
   \<Rightarrow> number \<times> number \<times> number \<times> RegionDetail list" where
  "languageOutputStep L R acc cfg =
     (case acc of (sumContribL, sumContribR, totalWeight, ds) \<Rightarrow>
      case cfg of (nm, weight, wThick, wArea, wFold) \<Rightarrow>
        (case lookupRegion L R nm of None \<Rightarrow> acc
         | Some (ref, l, r) \<Rightarrow>
             (case baZScores nm wThick wArea wFold ref l r of (zL, zR) \<Rightarrow>
                (let contribL = weight * zL;
                     contribR = weight * zR
                 in (sumContribL + contribL,
                     sumContribR + contribR,
                     totalWeight + weight,
                     ds @ [mkDetail nm weight zL zR contribL contribR
                             (weightsLabel (wThick * Fin 100) (wArea * Fin 100)
                                (wFold * Fin 100))])))))"

definition baBrocaRegions :: "(string \<times> number \<times> number \<times> number \<times> number) list" where
  "baBrocaRegions =
     [(''BA44_exvivo'', Fin 0.60, Fin 0.40, Fin 0.35, Fin 0.25),
      (''BA45_exvivo'', Fin 0.40, Fin 0.40, Fin 0.35, Fin 0.25)]"

definition lateralizationRatio :: "number \<Rightarrow> number \<Rightarrow> number" where
  "lateralizationRatio sumContribL sumContribR =
     (sumContribL - sumContribR) / (\<bar>sumContribL\<bar> + \<bar>sumContribR\<bar> + Fin 0.001)"

definition languageOutputPercentile :: "number \<Rightarrow> number" where
  "languageOutputPercentile li =
     (let percentile =
            (if Fin 0.25 \<le> li then Math_min (Fin 99) (Fin 90 + (li - Fin 0.25) * Fin 30)
             else if Fin 0.10 \<le> li then Fin 70 + (li - Fin 0.10) * Fin 133
             else if Fin (- 0.10) \<le> li then Fin 50 + li * Fin 100
             else if Fin (- 0.25) \<le> li then Fin 20 + (li + Fin 0.10) * Fin 200
             else Math_max (Fin 1) (Fin 5 + (li + Fin 0.25) * Fin 60))
      in Math_round (Math_max (Fin 1) (Math_min (Fin 99) percentile)))"

definition languageOutputSums ::
  "(string \<rightharpoonup> DKTRegionData) \<Rightarrow> (string \<rightharpoonup> DKTRegionData)
   \<Rightarrow> number \<times> number \<times> number \<times> RegionDetail list" where
  "languageOutputSums L R = foldl (languageOutputStep L R) (Fin 0, Fin 0, Fin 0, []) baBrocaRegions"

definition calculateLanguageOutputLateralization :: "DKTData \<Rightarrow> IndexResult" where
  "calculateLanguageOutputLateralization data =
     (case lhBA data of
        None \<Rightarrow> \<lparr>ir_name = ''Language Output Lateralization Index'', ir_value = Fin 0,
                  ir_percentile = Fin 50, ir_zScore = None, ir_details = []\<rparr>
      | Some L \<Rightarrow>
          (case rhBA data of
             None \<Rightarrow> \<lparr>ir_name = ''Language Output Lateralization Index'', ir_value = Fin 0,
                       ir_percentile = Fin 50, ir_zScore = None, ir_details = []\<rparr>
           | Some R \<Rightarrow>
               (case languageOutputSums L R of
                  (sumContribL, sumContribR, totalWeight, ds) \<Rightarrow>
                    (let li = lateralizationRatio sumContribL sumContribR
                     in \<lparr>ir_name = ''Language Output Lateralization Index'',
                         ir_value = toFixed3 li,
                         ir_percentile = languageOutputPercentile li,
                         ir_zScore = None,
                         ir_details = ds\<rparr>))))"

text \<open>
  Language Input: the same ratio over five standard regions, with thickness, area and
  volume weights per region, and bands of its own.
\<close>

definition languageInputStep ::
  "DKTData \<Rightarrow> number \<times> number \<times> number \<times> RegionDetail list
   \<Rightarrow> string \<times> number \<times> number \<times> number \<times> number
   \<Rightarrow> number \<times> number \<times> number \<times> RegionDetail list" where
  "languageInputStep data acc cfg =
     (case acc of (sumContribL, sumContribR, totalStrength, ds) \<Rightarrow>
      case cfg of (nm, weight, wThick, wArea, wVol) \<Rightarrow>
        (case lookupRegion (lh data) (rh data) nm of None \<Rightarrow> acc
         | Some (norm', l, r) \<Rightarrow>
             (let zL = inlineZ wThick wArea wVol l norm';
                  zR = inlineZ wThick wArea wVol r norm';
                  contribL = weight * zL;
                  contribR = weight * zR
              in (sumContribL + contribL,
                  sumContribR + contribR,
                  totalStrength + (zL + zR) / Fin 2 * weight,
                  ds @ [mkDetail nm weight zL zR contribL contribR
                          (weightsLabel (wThick * Fin 100) (wArea * Fin 100)
                             (wVol * Fin 100))]))))"

definition DKT_LANGUAGE_INPUT_REGIONS :: "(string \<times> number \<times> number \<times> number \<times> number) list" where
  "DKT_LANGUAGE_INPUT_REGIONS =
     [(''superiortemporal'', Fin 0.35, Fin 0.68, Fin 0.18, Fin 0.14),
      (''inferiorparietal'', Fin 0.20, Fin 0.55, Fin 0.32, Fin 0.13),
      (''middletemporal'', Fin 0.20, Fin 0.60, Fin 0.20, Fin 0.20),
      (''supramarginal'', Fin 0.15, Fin 0.48, Fin 0.38, Fin 0.14),
      (''fusiform'', Fin 0.10, Fin 0.45, Fin 0.20, Fin 0.35)]"

definition languageInputPercentile :: "number \<Rightarrow> number" where
  "languageInputPercentile li =
     (let percentile =
            (if Fin 0.20 \<le> li then Math_min (Fin 99) (Fin 90 + (li - Fin 0.20) * Fin 40)
             else if Fin 0.05 \<le> li then Fin 70 + (li - Fin 0.05) * Fin 133
             else if Fin (- 0.05) \<le> li then Fin 50 + li * Fin 200
             else if Fin (- 0.15) \<le> li then Fin 20 + (li + Fin 0.05) * Fin 300
             else Math_max (Fin 1) (Fin 5 + (li + Fin 0.15) * Fin 100))
      in Math_round (Math_max (Fin 1) (Math_min (Fin 99) percentile)))"

definition languageInputSums :: "DKTData \<Rightarrow> number \<times> number \<times> number \<times> RegionDetail list" where
  "languageInputSums data =
     foldl (languageInputStep data) (Fin 0, Fin 0, Fin 0, []) DKT_LANGUAGE_INPUT_REGIONS"

definition calculateLanguageInputLateralization :: "DKTData \<Rightarrow> IndexResult" where
  "calculateLanguageInputLateralization data =
     (case languageInputSums data of
        (sumContribL, sumContribR, totalStrength, ds) \<Rightarrow>
          (let li = lateralizationRatio sumContribL sumContribR
           in \<lparr>ir_name = ''Language Input Lateralization Index'',
               ir_value = toFixed3 li,
               ir_percentile = languageInputPercentile li,
               ir_zScore = Some (toFixed3 totalStrength),
               ir_details = ds\<rparr>))"

definition tagDetails :: "string \<Rightarrow> RegionDetail list \<Rightarrow> RegionDetail list" where
  "tagDetails tag ds = map (\<lambda>d. d\<lparr>rd_region := rd_region d @ tag\<rparr>) ds"

definition calculateLanguageLateralizationIndex :: "DKTData \<Rightarrow> IndexResult" where
  "calculateLanguageLateralizationIndex data =
     (let outputResult = calculateLanguageOutputLateralization data;
          inputResult = calculateLanguageInputLateralization data;
          combinedLI = ir_value outputResult * Fin 0.6 + ir_value inputResult * Fin 0.4;
          allDetails = tagDetails '' (Output)'' (ir_details outputResult)
                       @ tagDetails '' (Input)'' (ir_details inputResult);
          percentile =
            (if Fin 0.20 \<le> combinedLI then
               Math_min (Fin 99) (Fin 95 + (combinedLI - Fin 0.20) * Fin 20)
             else if Fin 0.05 \<le> combinedLI then Fin 80 + (combinedLI - Fin 0.05) * Fin 100
             else if Fin (- 0.05) \<le> combinedLI then Fin 50 + combinedLI * Fin 300
             else if Fin (- 0.15) \<le> combinedLI then Fin 20 + (combinedLI + Fin 0.05) * Fin 300
             else Math_max (Fin 1) (Fin 5 + (combinedLI + Fin 0.15) * Fin 100))
      in \<lparr>ir_name = ''Language Lateralization Index'',
          ir_value = toFixed3 combinedLI,
          ir_percentile = Math_round (Math_max (Fin 1) (Math_min (Fin 99) percentile)),
          ir_zScore = None,
          ir_details = allDetails\<rparr>)"

section \<open>The percentile formula over the reals\<close>

text \<open>
  On a finite argument \<open>zToPercentile\<close> rounds \<open>100 * cdfApprox z\<close>, where \<open>cdfApprox\<close>
  is the source's formula read over the reals: \<open>asPoly\<close> is the polynomial in \<open>t\<close>,
  \<open>asTail\<close> its product with the exponential, and \<open>asPoly'\<close> the derivative of
  \<open>asPoly\<close>.
\<close>

definition asPoly :: "real \<Rightarrow> real" where
  "asPoly t =
     (((((1.061405429 * t + (- 1.453152027)) * t) + 1.421413741) * t + (- 0.284496736)) * t
        + 0.254829592) * t"

definition asTail :: "real \<Rightarrow> real" where
  "asTail a = asPoly (1.0 / (1.0 + 0.3275911 * a)) * exp (- a * a / 2)"

definition cdfApprox :: "real \<Rightarrow> real" where
  "cdfApprox z = 0.5 * (1.0 + (if z < 0 then - 1 else 1) * (1.0 - asTail \<bar>z\<bar>))"

definition asPoly' :: "real \<Rightarrow> real" where
  "asPoly' t = 5.307027145 * (t * t * t * t) - 5.812608108 * (t * t * t)
     + 4.264241223 * (t * t) - 0.568993472 * t + 0.254829592"


section \<open>Predicates and quantities of the statements\<close>

text \<open>The row of the first end-to-end scenario.\<close>

definition entorhinalRow :: string where
  "entorhinalRow = ''entorhinal 120 480 1600 3.20 0.30 0.05 0.02 5 1''"

text \<open>
  The third end-to-end scenario, for one subregion: the left hemisphere has thickness and
  surface area one reference standard deviation above the reference mean, the right
  hemisphere has them at the mean, and neither carries a folding index.
\<close>

definition oneStdAbove ::
  "(string \<rightharpoonup> DKTRegionData) \<Rightarrow> (string \<rightharpoonup> DKTRegionData) \<Rightarrow> string \<Rightarrow> bool" where
  "oneStdAbove L R nm =
     (case lookupRegion L R nm of None \<Rightarrow> False
      | Some (ref, l, r) \<Rightarrow>
          thickness l = mean (thicknessRef ref) + std (thicknessRef ref)
        \<and> surfArea l = mean (surfAreaRef ref) + std (surfAreaRef ref)
        \<and> thickness r = mean (thicknessRef ref)
        \<and> surfArea r = mean (surfAreaRef ref)
        \<and> foldInd l = None \<and> foldInd r = None)"

text \<open>Finite measurements: every field that is present is a finite number.\<close>

fun isFinite :: "number \<Rightarrow> bool" where
  "isFinite (Fin a) = True"
| "isFinite _ = False"

definition finiteOpt :: "number option \<Rightarrow> bool" where
  "finiteOpt x = (case x of None \<Rightarrow> True | Some v \<Rightarrow> isFinite v)"

definition finiteRegion :: "DKTRegionData \<Rightarrow> bool" where
  "finiteRegion m =
     (isFinite (thickness m) \<and> isFinite (surfArea m) \<and> isFinite (volume m)
      \<and> finiteOpt (meanCurv m) \<and> finiteOpt (gausCurv m)
      \<and> finiteOpt (foldInd m) \<and> finiteOpt (curvInd m))"

definition finiteRegions :: "(string \<rightharpoonup> DKTRegionData) \<Rightarrow> bool" where
  "finiteRegions M = (\<forall>nm m. M nm = Some m \<longrightarrow> finiteRegion m)"

definition finiteData :: "DKTData \<Rightarrow> bool" where
  "finiteData d =
     (finiteRegions (lh d) \<and> finiteRegions (rh d)
      \<and> (case lhBA d of None \<Rightarrow> True | Some L \<Rightarrow> finiteRegions L)
      \<and> (case rhBA d of None \<Rightarrow> True | Some R \<Rightarrow> finiteRegions R))"

text \<open>
  Measurements of moderate size: every field that is present is a finite number of
  magnitude at most \<open>10^6\<close>. With the reference tables the z-scores then stay below
  \<open>10^7\<close> and the sums of contributions below \<open>10^8\<close>, far from the range where the
  program's doubles overflow or where adding 0.001 to a sum no longer changes it.
\<close>

fun withinMillion :: "number \<Rightarrow> bool" where
  "withinMillion (Fin a) = (\<bar>a\<bar> \<le> 1000000)"
| "withinMillion _ = False"

definition boundedOpt :: "number option \<Rightarrow> bool" where
  "boundedOpt x = (case x of None \<Rightarrow> True | Some v \<Rightarrow> withinMillion v)"

definition boundedRegion :: "DKTRegionData \<Rightarrow> bool" where
  "boundedRegion m =
     (withinMillion (thickness m) \<and> withinMillion (surfArea m) \<and> withinMillion (volume m)
      \<and> boundedOpt (meanCurv m) \<and> boundedOpt (gausCurv m)
      \<and> boundedOpt (foldInd m) \<and> boundedOpt (curvInd m))"

definition boundedRegions :: "(string \<rightharpoonup> DKTRegionData) \<Rightarrow> bool" where
  "boundedRegions M = (\<forall>nm m. M nm = Some m \<longrightarrow> boundedRegion m)"

definition boundedData :: "DKTData \<Rightarrow> bool" where
  "boundedData d =
     (boundedRegions (lh d) \<and> boundedRegions (rh d)
      \<and> (case lhBA d of None \<Rightarrow> True | Some L \<Rightarrow> boundedRegions L)
      \<and> (case rhBA d of None \<Rightarrow> True | Some R \<Rightarrow> boundedRegions R))"

definition finiteMeanStd :: "MeanStd \<Rightarrow> bool" where
  "finiteMeanStd x = (isFinite (mean x) \<and> positiveFinite (std x))"

definition finiteSums :: "number \<times> number \<times> 'a \<Rightarrow> bool" where
  "finiteSums acc = (isFinite (fst acc) \<and> isFinite (fst (snd acc)))"

definition finiteConfig :: "string \<times> number \<times> number \<times> number \<times> number \<Rightarrow> bool" where
  "finiteConfig cfg =
     (case cfg of (nm, weight, w1, w2, w3) \<Rightarrow>
        isFinite weight \<and> isFinite w1 \<and> isFinite w2 \<and> isFinite w3)"

text \<open>The ratio \<open>li\<close> of the two language lateralization calculators, before rounding.\<close>

definition languageInputLI :: "DKTData \<Rightarrow> number" where
  "languageInputLI data =
     (case languageInputSums data of
        (sumContribL, sumContribR, totalStrength, ds) \<Rightarrow>
          lateralizationRatio sumContribL sumContribR)"

definition languageOutputLI ::
  "(string \<rightharpoonup> DKTRegionData) \<Rightarrow> (string \<rightharpoonup> DKTRegionData) \<Rightarrow> number" where
  "languageOutputLI L R =
     (case languageOutputSums L R of
        (sumContribL, sumContribR, totalWeight, ds) \<Rightarrow>
          lateralizationRatio sumContribL sumContribR)"

text \<open>Concrete inputs of the scenarios.\<close>

definition region3 :: "real \<Rightarrow> real \<Rightarrow> real \<Rightarrow> DKTRegionData" where
  "region3 t a v =
     \<lparr>thickness = Fin t, surfArea = Fin a, volume = Fin v, meanCurv = None,
      gausCurv = None, foldInd = None, curvInd = None\<rparr>"

definition headerLine :: string where
  "headerLine = ''# ColHeaders StructName NumVert SurfArea GrayVol ThickAvg ThickStd''"

definition scenario3 :: DKTData where
  "scenario3 =
     \<lparr>lh = Map.empty, rh = Map.empty,
      lhBA = Some [''BA4a_exvivo'' \<mapsto> region3 3.05 1550 4300,
                   ''BA4p_exvivo'' \<mapsto> region3 2.99 1200 2700,
                   ''BA3b_exvivo'' \<mapsto> region3 2.33 2350 4500],
      rhBA = Some [''BA4a_exvivo'' \<mapsto> region3 2.85 1300 4300,
                   ''BA4p_exvivo'' \<mapsto> region3 2.80 1000 2700,
                   ''BA3b_exvivo'' \<mapsto> region3 2.15 2000 4500]\<rparr>"

definition strongLeftInput :: DKTData where
  "strongLeftInput =
     \<lparr>lh = [''superiortemporal'' \<mapsto> region3 4.85 5800 19000],
      rh = [''superiortemporal'' \<mapsto> region3 2.85 5800 19000],
      lhBA = Some [''BA44_exvivo'' \<mapsto> region3 3.16 1650 5200],
      rhBA = Some [''BA44_exvivo'' \<mapsto> region3 2.80 1650 5200]\<rparr>"

text \<open>
  The calculators by name, so that a statement can range over all of them, and for each
  the region names it looks up: in the standard mappings \<open>lh\<close>/\<open>rh\<close> and in the
  subregion mappings \<open>lhBA\<close>/\<open>rhBA\<close>.
\<close>

datatype calculator =
  Olfactory | LanguageComposite | Reading | Empathy | Executive | Spatial
  | FluidIntelligence | ParietalIQ | Handedness | DominantEye | PreferredNostril
  | LanguageOutput | LanguageInput | LanguageLateralization

fun calculate :: "calculator \<Rightarrow> DKTData \<Rightarrow> IndexResult" where
  "calculate Olfactory = calculateOlfactoryIndex"
| "calculate LanguageComposite = calculateLanguageIndex"
| "calculate Reading = calculateReadingIndex"
| "calculate Empathy = calculateEmpathyIndex"
| "calculate Executive = calculateExecutiveIndex"
| "calculate Spatial = calculateSpatialIndex"
| "calculate FluidIntelligence = calculateFluidIntelligenceIndex"
| "calculate ParietalIQ = calculateParietalIQIndex"
| "calculate Handedness = calculateHandednessIndex"
| "calculate DominantEye = calculateDominantEyeIndex"
| "calculate PreferredNostril = calculatePreferredNostrilIndex"
| "calculate LanguageOutput = calculateLanguageOutputLateralization"
| "calculate LanguageInput = calculateLanguageInputLateralization"
| "calculate LanguageLateralization = calculateLanguageLateralizationIndex"

fun standardRegions :: "calculator \<Rightarrow> string list" where
  "standardRegions Olfactory = map fst olfactoryRegionWeights"
| "standardRegions LanguageComposite = map fst dktRegionWeights"
| "standardRegions Reading = map fst readingRegionWeights"
| "standardRegions Empathy = map fst empathyRegionWeights"
| "standardRegions Executive = map fst executiveRegionWeights"
| "standardRegions Spatial = map fst spatialRegionWeights"
| "standardRegions FluidIntelligence = map fst fluidRegionWeights"
| "standardRegions ParietalIQ = map fst parietalRegions"
| "standardRegions Handedness = []"
| "standardRegions DominantEye = map fst dominantEyeRegionWeights"
| "standardRegions PreferredNostril =
     map (\<lambda>(nm, weight). if nm = ''piriform'' then ''entorhinal'' else nm) nostrilRegions"
| "standardRegions LanguageOutput = []"
| "standardRegions LanguageInput = map fst DKT_LANGUAGE_INPUT_REGIONS"
| "standardRegions LanguageLateralization = map fst DKT_LANGUAGE_INPUT_REGIONS"

fun subregions :: "calculator \<Rightarrow> string list" where
  "subregions LanguageComposite = map fst baRegionWeights"
| "subregions Handedness = map fst baRegionConfigs"
| "subregions LanguageOutput = map fst baBrocaRegions"
| "subregions LanguageLateralization = map fst baBrocaRegions"
| "subregions _ = []"

text \<open>
  All regions of a calculator are missing: each lacks its reference entry or a
  hemisphere's measurement, or the subregion data is absent altogether.
\<close>

definition regionsMissing ::
  "(string \<rightharpoonup> DKTRegionData) \<Rightarrow> (string \<rightharpoonup> DKTRegionData) \<Rightarrow> string list \<Rightarrow> bool" where
  "regionsMissing L R nms = list_all (\<lambda>nm. lookupRegion L R nm = None) nms"

definition allRegionsMissing :: "calculator \<Rightarrow> DKTData \<Rightarrow> bool" where
  "allRegionsMissing c d =
     (regionsMissing (lh d) (rh d) (standardRegions c)
      \<and> (case lhBA d of None \<Rightarrow> True
         | Some L \<Rightarrow> (case rhBA d of None \<Rightarrow> True
                       | Some R \<Rightarrow> regionsMissing L R (subregions c))))"

definition emptyData :: DKTData where
  "emptyData = \<lparr>lh = Map.empty, rh = Map.empty, lhBA = None, rhBA = None\<rparr>"

text \<open>
  A detail entry records the composite z-scores of its region, rounded. A region whose
  composite z-score is \<open>NaN\<close> shows as an entry with \<open>NaN\<close> in \<open>zL\<close> or \<open>zR\<close>.
\<close>

definition nanDetail :: "RegionDetail \<Rightarrow> bool" where
  "nanDetail dt = (rd_zL dt = NaN \<or> rd_zR dt = NaN)"

definition hasNaNRegion :: "IndexResult \<Rightarrow> bool" where
  "hasNaNRegion r = list_ex nanDetail (ir_details r)"

text \<open>Loop invariants: a \<open>NaN\<close> region among the details has turned the running sum into \<open>NaN\<close>.\<close>

definition nanInv :: "number \<times> RegionDetail list \<Rightarrow> bool" where
  "nanInv acc = (case acc of (tot, ds) \<Rightarrow> list_ex nanDetail ds \<longrightarrow> tot = NaN)"

definition nanInvW :: "number \<times> number \<times> RegionDetail list \<Rightarrow> bool" where
  "nanInvW acc =
     (case acc of (tot, totalWeight, ds) \<Rightarrow>
        (list_ex nanDetail ds \<longrightarrow> tot = NaN)
        \<and> (case totalWeight of Fin w \<Rightarrow> 0 \<le> w \<and> (ds \<noteq> [] \<longrightarrow> 0 < w) | _ \<Rightarrow> False))"

definition nanInvLR :: "number \<times> number \<times> number \<times> RegionDetail list \<Rightarrow> bool" where
  "nanInvLR acc =
     (case acc of (sumL, sumR, other, ds) \<Rightarrow>
        list_ex nanDetail ds \<longrightarrow> sumL = NaN \<or> sumR = NaN)"

text \<open>
  A report whose entorhinal thickness field is not a number, as the left hemisphere of a
  dataset whose right hemisphere is at the reference means.
\<close>

definition nanRow :: string where
  "nanRow = ''entorhinal 120 480 1600 n/a 0.30''"

definition finiteRow :: string where
  "finiteRow = ''parahippocampal 100 700 2200 2.97 0.25''"

definition nanReport :: string where
  "nanReport = headerLine @ CHR 0x0A # nanRow @ CHR 0x0A # finiteRow"

definition nanData :: DKTData where
  "nanData =
     \<lparr>lh = parseDKTStats nanReport,
      rh = [''entorhinal'' \<mapsto> region3 3.20 480 1600,
            ''parahippocampal'' \<mapsto> region3 2.97 700 2200],
      lhBA = None, rhBA = None\<rparr>"

text \<open>
  The direct sum of the specification: \<open>weight \<times> (zL - zR)\<close> added up over the regions
  that are available, and the total weight of those regions.
\<close>

definition available ::
  "(string \<rightharpoonup> DKTRegionData) \<Rightarrow> (string \<rightharpoonup> DKTRegionData) \<Rightarrow> string \<Rightarrow> bool" where
  "available L R nm = (lookupRegion L R nm \<noteq> None)"

definition sumNumbers :: "number list \<Rightarrow> number" where
  "sumNumbers xs = foldl (+) (Fin 0) xs"

definition dominantEyeTerm :: "DKTData \<Rightarrow> string \<times> number \<Rightarrow> number" where
  "dominantEyeTerm d rw =
     (case rw of (region, weight) \<Rightarrow>
        (case lookupRegion (lh d) (rh d) region of None \<Rightarrow> Fin 0
         | Some (ref, l, r) \<Rightarrow>
             weight * (compositeZScore l ref (Fin 92, Fin 4, Fin 4)
                       - compositeZScore r ref (Fin 92, Fin 4, Fin 4))))"

definition dominantEyeDirectSum :: "DKTData \<Rightarrow> number" where
  "dominantEyeDirectSum d =
     sumNumbers (map (dominantEyeTerm d)
       (filter (\<lambda>rw. available (lh d) (rh d) (fst rw)) dominantEyeRegionWeights))"

definition handednessTerm ::
  "(string \<rightharpoonup> DKTRegionData) \<Rightarrow> (string \<rightharpoonup> DKTRegionData)
   \<Rightarrow> string \<times> number \<times> number \<times> number \<times> number \<Rightarrow> number" where
  "handednessTerm L R cfg =
     (case cfg of (nm, weight, wThick, wArea, wFold) \<Rightarrow>
        (case lookupRegion L R nm of None \<Rightarrow> Fin 0
         | Some (ref, l, r) \<Rightarrow>
             (case baZScores nm wThick wArea wFold ref l r of (zL, zR) \<Rightarrow>
                weight * (zL - zR))))"

definition handednessDirectSum ::
  "(string \<rightharpoonup> DKTRegionData) \<Rightarrow> (string \<rightharpoonup> DKTRegionData) \<Rightarrow> number" where
  "handednessDirectSum L R =
     sumNumbers (map (handednessTerm L R)
       (filter (\<lambda>cfg. available L R (fst cfg)) baRegionConfigs))"

definition handednessAvailableWeight ::
  "(string \<rightharpoonup> DKTRegionData) \<Rightarrow> (string \<rightharpoonup> DKTRegionData) \<Rightarrow> number" where
  "handednessAvailableWeight L R =
     sumNumbers (map (\<lambda>cfg. fst (snd cfg))
       (filter (\<lambda>cfg. available L R (fst cfg)) baRegionConfigs))"

text \<open>
  Datasets with one region whose left thickness lies \<open>x\<close> standard deviations above the
  reference mean, everything else at the mean.
\<close>

definition thickLeftBA4a :: "real \<Rightarrow> DKTData" where
  "thickLeftBA4a x =
     \<lparr>lh = Map.empty, rh = Map.empty,
      lhBA = Some [''BA4a_exvivo'' \<mapsto> region3 (2.85 + 0.20 * x) 1300 4300],
      rhBA = Some [''BA4a_exvivo'' \<mapsto> region3 2.85 1300 4300]\<rparr>"

definition thickLeftPericalcarine :: "real \<Rightarrow> DKTData" where
  "thickLeftPericalcarine x =
     \<lparr>lh = [''pericalcarine'' \<mapsto> region3 (1.55 + 0.14 * x) 1900 2400],
      rh = [''pericalcarine'' \<mapsto> region3 1.55 1900 2400],
      lhBA = None, rhBA = None\<rparr>"

text \<open>
  The regions whose composite z-score is \<open>NaN\<close>, read off the input. A region takes part
  when its lookup succeeds. Its composite z-scores are the ones the loop of the calculator
  computes: \<open>compositeZScore\<close> with the metric weights of the calculator, the in-line
  weighted sum of Parietal IQ and Language Input, or the subregion blend of thickness,
  surface area and folding index.
\<close>

definition nanStandard ::
  "number \<times> number \<times> number \<Rightarrow> (string \<rightharpoonup> DKTRegionData) \<Rightarrow> (string \<rightharpoonup> DKTRegionData)
   \<Rightarrow> string \<Rightarrow> bool" where
  "nanStandard metricWeights L R nm =
     (case lookupRegion L R nm of None \<Rightarrow> False
      | Some (ref, l, r) \<Rightarrow>
          compositeZScore l ref metricWeights = NaN
          \<or> compositeZScore r ref metricWeights = NaN)"

definition nanInline ::
  "(string \<rightharpoonup> DKTRegionData) \<Rightarrow> (string \<rightharpoonup> DKTRegionData)
   \<Rightarrow> string \<times> number \<times> number \<times> number \<times> number \<Rightarrow> bool" where
  "nanInline L R cfg =
     (case cfg of (nm, weight, wThick, wArea, wVol) \<Rightarrow>
        (case lookupRegion L R nm of None \<Rightarrow> False
         | Some (ref, l, r) \<Rightarrow>
             inlineZ wThick wArea wVol l ref = NaN \<or> inlineZ wThick wArea wVol r ref = NaN))"

definition nanSubregion ::
  "(string \<rightharpoonup> DKTRegionData) \<Rightarrow> (string \<rightharpoonup> DKTRegionData)
   \<Rightarrow> string \<times> number \<times> number \<times> number \<times> number \<Rightarrow> bool" where
  "nanSubregion L R cfg =
     (case cfg of (nm, weight, wThick, wArea, wFold) \<Rightarrow>
        (case lookupRegion L R nm of None \<Rightarrow> False
         | Some (ref, l, r) \<Rightarrow>
             (case baZScores nm wThick wArea wFold ref l r of (zL, zR) \<Rightarrow>
                zL = NaN \<or> zR = NaN)))"

definition withSubregions ::
  "DKTData \<Rightarrow> ((string \<rightharpoonup> DKTRegionData) \<Rightarrow> (string \<rightharpoonup> DKTRegionData) \<Rightarrow> bool) \<Rightarrow> bool" where
  "withSubregions d P =
     (case lhBA d of None \<Rightarrow> False
      | Some L \<Rightarrow> (case rhBA d of None \<Rightarrow> False | Some R \<Rightarrow> P L R))"

fun nanComposite :: "calculator \<Rightarrow> DKTData \<Rightarrow> bool" where
  "nanComposite Olfactory d =
     list_ex (nanStandard (Fin 80, Fin 10, Fin 10) (lh d) (rh d)) (map fst olfactoryRegionWeights)"
| "nanComposite LanguageComposite d =
     (list_ex (nanStandard (Fin 45, Fin 30, Fin 25) (lh d) (rh d)) (map fst dktRegionWeights)
      \<or> withSubregions d (\<lambda>L R.
           list_ex (nanStandard (Fin 45, Fin 30, Fin 25) L R) (map fst baRegionWeights)))"
| "nanComposite Reading d =
     list_ex (nanStandard (Fin 50, Fin 30, Fin 20) (lh d) (rh d)) (map fst readingRegionWeights)"
| "nanComposite Empathy d =
     list_ex (nanStandard (Fin 80, Fin 10, Fin 10) (lh d) (rh d)) (map fst empathyRegionWeights)"
| "nanComposite Executive d =
     list_ex (nanStandard (Fin 35, Fin 25, Fin 40) (lh d) (rh d)) (map fst executiveRegionWeights)"
| "nanComposite Spatial d =
     list_ex (nanStandard (Fin 20, Fin 50, Fin 30) (lh d) (rh d)) (map fst spatialRegionWeights)"
| "nanComposite FluidIntelligence d =
     list_ex (nanStandard (Fin 30, Fin 30, Fin 40) (lh d) (rh d)) (map fst fluidRegionWeights)"
| "nanComposite ParietalIQ d = list_ex (nanInline (lh d) (rh d)) parietalRegions"
| "nanComposite Handedness d =
     withSubregions d (\<lambda>L R. list_ex (nanSubregion L R) baRegionConfigs)"
| "nanComposite DominantEye d =
     list_ex (nanStandard (Fin 92, Fin 4, Fin 4) (lh d) (rh d))
       (map fst dominantEyeRegionWeights)"
| "nanComposite PreferredNostril d =
     list_ex (nanStandard (Fin 70, Fin 20, Fin 10) (lh d) (rh d))
       (map (\<lambda>(nm, weight). if nm = ''piriform'' then ''entorhinal'' else nm) nostrilRegions)"
| "nanComposite LanguageOutput d =
     withSubregions d (\<lambda>L R. list_ex (nanSubregion L R) baBrocaRegions)"
| "nanComposite LanguageInput d = list_ex (nanInline (lh d) (rh d)) DKT_LANGUAGE_INPUT_REGIONS"
| "nanComposite LanguageLateralization d =
     (withSubregions d (\<lambda>L R. list_ex (nanSubregion L R) baBrocaRegions)
      \<or> list_ex (nanInline (lh d) (rh d)) DKT_LANGUAGE_INPUT_REGIONS)"

text \<open>
  A region that takes part and whose thickness or surface area is \<open>NaN\<close> in a hemisphere:
  the two measurements that every calculator uses.
\<close>

definition nanMeasurement ::
  "(string \<rightharpoonup> DKTRegionData) \<Rightarrow> (string \<rightharpoonup> DKTRegionData) \<Rightarrow> string \<Rightarrow> bool" where
  "nanMeasurement L R nm =
     (case lookupRegion L R nm of None \<Rightarrow> False
      | Some (ref, l, r) \<Rightarrow>
          thickness l = NaN \<or> surfArea l = NaN \<or> thickness r = NaN \<or> surfArea r = NaN)"

definition nanMeasured :: "calculator \<Rightarrow> DKTData \<Rightarrow> bool" where
  "nanMeasured c d =
     (list_ex (nanMeasurement (lh d) (rh d)) (standardRegions c)
      \<or> withSubregions d (\<lambda>L R. list_ex (nanMeasurement L R) (subregions c)))"

text \<open>A dataset whose left entorhinal surface area, not its thickness, is \<open>NaN\<close>.\<close>

definition areaNaNData :: DKTData where
  "areaNaNData =
     \<lparr>lh = [''entorhinal'' \<mapsto>
              \<lparr>thickness = Fin 3.20, surfArea = NaN, volume = Fin 1600, meanCurv = None,
               gausCurv = None, foldInd = None, curvInd = None\<rparr>],
      rh = [''entorhinal'' \<mapsto> region3 3.20 480 1600],
      lhBA = None, rhBA = None\<rparr>"

section \<open>Facts about number arithmetic\<close>

lemma minus_Fin [simp]: "Fin a - Fin b = Fin (a - b)"
  by (simp add: minus_number_def)

lemma plus_NaN [simp]: "x + NaN = NaN" "NaN + x = NaN"
  by (cases x; simp)+

lemma minus_NaN [simp]: "x - NaN = NaN" "NaN - x = NaN"
  by (simp_all add: minus_number_def)

lemma times_NaN [simp]: "x * NaN = NaN" "NaN * x = NaN"
  by (cases x; simp)+

lemma divide_NaN [simp]: "x / NaN = NaN" "NaN / x = NaN"
  by (cases x; simp)+

lemma less_NaN [simp]: "\<not> x < NaN" "\<not> NaN < x" "\<not> x \<le> NaN" "\<not> NaN \<le> x"
  by (cases x; simp)+

lemma Math_NaN [simp]: "Math_min x NaN = NaN" "Math_max x NaN = NaN"
  by (cases x; simp)+

lemma Math_min_Fin [simp]: "Math_min (Fin a) (Fin b) = Fin (min a b)"
  by (simp add: min_def)

lemma Math_max_Fin [simp]: "Math_max (Fin a) (Fin b) = Fin (max a b)"
  by (simp add: max_def)

lemma divide_Fin: "b \<noteq> 0 \<Longrightarrow> Fin a / Fin b = Fin (a / b)"
  by simp

lemma zToPercentile_Fin:
  "zToPercentile (Fin z) = Fin (of_int \<lfloor>cdfApprox z * 100 + 1 / 2\<rfloor>)"
proof -
  have "0 \<le> 0.3275911 * \<bar>z\<bar>" by simp
  then have nz: "1.0 + 0.3275911 * \<bar>z\<bar> \<noteq> 0" by linarith
  have two: "(2::real) \<noteq> 0" by simp
  have sg: "(if Fin z < Fin 0 then Fin (- 1) else Fin 1) = Fin (if z < 0 then - 1 else 1)"
    by simp
  show ?thesis
    unfolding zToPercentile_def Let_def cdfApprox_def asTail_def asPoly_def sg
    by (simp only: abs_number.simps times_number.simps(1) plus_number.simps(1) minus_Fin
          uminus_number.simps(1) divide_Fin [OF nz] divide_Fin [OF two] Math_exp.simps(1)
          Math_round.simps(1))
qed


section \<open>Z-score with a zero standard deviation\<close>

lemma positiveFinite_iff: "positiveFinite x \<longleftrightarrow> (\<exists>s. x = Fin s \<and> 0 < s)"
  by (cases x) simp_all

lemma REFERENCE_DATA_MALE_std_pos:
  assumes "REFERENCE_DATA_MALE nm = Some ref"
  shows "positiveFinite (std (thicknessRef ref)) \<and> positiveFinite (std (surfAreaRef ref))
       \<and> positiveFinite (std (volumeRef ref))"
proof -
  have "(nm, ref) \<in> set REFERENCE_DATA_MALE_entries"
    using assms unfolding REFERENCE_DATA_MALE_def by (rule map_of_SomeD)
  then show ?thesis
    unfolding REFERENCE_DATA_MALE_entries_def refEntry_def ms_def by auto
qed

lemma BA_CURVATURE_REFERENCE_std_pos:
  assumes "BA_CURVATURE_REFERENCE nm = Some c"
  shows "positiveFinite (std (meanCurvRef c)) \<and> positiveFinite (std (foldIndRef c))"
proof -
  have "(nm, c) \<in> set BA_CURVATURE_REFERENCE_entries"
    using assms unfolding BA_CURVATURE_REFERENCE_def by (rule map_of_SomeD)
  then show ?thesis
    unfolding BA_CURVATURE_REFERENCE_entries_def curvEntry_def ms_def by auto
qed

text \<open>
  C2, as the code has it. Dividing by a zero standard deviation does not fail: \<open>zScore\<close>
  returns \<open>NaN\<close> when the value equals the mean, \<open>Infinity\<close> when it lies above and
  \<open>-Infinity\<close> when it lies below. Nothing validates the reference tables; every entry
  that a lookup in the two static tables can return has finite, positive standard
  deviations, so scoring against these tables never divides by zero.
\<close>

theorem zScore_zero_std:
  "zScore (Fin v) (Fin m) (Fin 0) = (if v = m then NaN else if m < v then PInf else NInf)
   \<and> (\<forall>nm ref. REFERENCE_DATA_MALE nm = Some ref \<longrightarrow>
          positiveFinite (std (thicknessRef ref)) \<and> positiveFinite (std (surfAreaRef ref))
        \<and> positiveFinite (std (volumeRef ref)))
   \<and> (\<forall>nm c. BA_CURVATURE_REFERENCE nm = Some c \<longrightarrow>
          positiveFinite (std (meanCurvRef c)) \<and> positiveFinite (std (foldIndRef c)))"
proof (intro conjI allI impI)
  show "zScore (Fin v) (Fin m) (Fin 0) = (if v = m then NaN else if m < v then PInf else NInf)"
    by (simp add: zScore_def)
qed (use REFERENCE_DATA_MALE_std_pos BA_CURVATURE_REFERENCE_std_pos in blast)+

theorem zScore_zero_std_witness:
  "zScore (Fin 3) (Fin 2) (Fin 0) = PInf
   \<and> REFERENCE_DATA_MALE ''entorhinal'' = Some (refEntry (ms 3.20 0.35) (ms 480 100) (ms 1600 350))
   \<and> positiveFinite (std (thicknessRef (refEntry (ms 3.20 0.35) (ms 480 100) (ms 1600 350))))
   \<and> BA_CURVATURE_REFERENCE ''BA44_exvivo'' = Some (curvEntry (ms 0.113 0.014) (ms 26 7))
   \<and> positiveFinite (std (foldIndRef (curvEntry (ms 0.113 0.014) (ms 26 7))))"
proof -
  have r: "REFERENCE_DATA_MALE ''entorhinal''
           = Some (refEntry (ms 3.20 0.35) (ms 480 100) (ms 1600 350))"
    by (simp add: REFERENCE_DATA_MALE_def REFERENCE_DATA_MALE_entries_def)
  have c: "BA_CURVATURE_REFERENCE ''BA44_exvivo'' = Some (curvEntry (ms 0.113 0.014) (ms 26 7))"
    by (simp add: BA_CURVATURE_REFERENCE_def BA_CURVATURE_REFERENCE_entries_def)
  show ?thesis
    using zScore_zero_std [of 3 2] r c by auto
qed

text \<open>
  The claim C2 as stated fails: with a zero standard deviation \<open>zScore\<close> returns a value,
  and so does \<open>compositeZScore\<close> on a reference entry whose standard deviations are zero.
\<close>

theorem zScore_zero_std_counterexample:
  "zScore (Fin 1) (Fin 0) (Fin 0) = PInf
   \<and> compositeZScore
        \<lparr>thickness = Fin 1, surfArea = Fin 1, volume = Fin 1, meanCurv = None,
         gausCurv = None, foldInd = None, curvInd = None\<rparr>
        (refEntry (ms 0 0) (ms 0 0) (ms 0 0)) (Fin 80, Fin 10, Fin 10) = PInf"
  by (simp add: zScore_def compositeZScore_def refEntry_def ms_def)

section \<open>Percentile conversion is monotone\<close>

lemma quad_pos:
  fixes A B C t :: real
  assumes "0 < A" and "B * B < 4 * A * C"
  shows "0 < A * (t * t) + B * t + C"
proof -
  have "0 \<le> (2 * A * t + B) * (2 * A * t + B)" by simp
  then have "0 \<le> 4 * A * (A * (t * t) + B * t + C) - (4 * A * C - B * B)"
    by (simp add: algebra_simps)
  with assms(2) have "0 < 4 * A * (A * (t * t) + B * t + C)" by linarith
  with assms(1) show ?thesis
    by (simp add: zero_less_mult_iff)
qed

lemma asPoly_deriv: "(asPoly has_real_derivative asPoly' t) (at t)"
  unfolding asPoly_def [abs_def] asPoly'_def
  by (auto intro!: derivative_eq_intros simp: algebra_simps)


lemma asPoly'_pos: "0 < asPoly' t"
proof -
  have q1: "0 < 5.307027145 * (t * t) + (- 5.812608108) * t + 2"
    by (rule quad_pos) simp_all
  have q2: "0 < 2.264241223 * (t * t) + (- 0.568993472) * t + 0.254829592"
    by (rule quad_pos) simp_all
  have "0 \<le> (t * t) * (5.307027145 * (t * t) + (- 5.812608108) * t + 2)"
    by (rule mult_nonneg_nonneg [OF zero_le_square less_imp_le [OF q1]])
  moreover have "asPoly' t = (t * t) * (5.307027145 * (t * t) + (- 5.812608108) * t + 2)
      + (2.264241223 * (t * t) + (- 0.568993472) * t + 0.254829592)"
    by (simp add: asPoly'_def algebra_simps)
  ultimately show ?thesis using q2 by linarith
qed



lemma asPoly_mono:
  assumes "s \<le> t"
  shows "asPoly s \<le> asPoly t"
  using assms
proof (rule DERIV_nonneg_imp_nondecreasing)
  fix x :: real
  show "\<exists>y. (asPoly has_real_derivative y) (at x) \<and> 0 \<le> y"
    using asPoly_deriv [of x] asPoly'_pos [of x] by (intro exI [of _ "asPoly' x"]) simp
qed

lemma asPoly_nonneg: "0 \<le> t \<Longrightarrow> 0 \<le> asPoly t"
  using asPoly_mono [of 0 t] by (simp add: asPoly_def)

lemma asTail_antimono:
  assumes "0 \<le> a" and "a \<le> b"
  shows "asTail b \<le> asTail a"
proof -
  have pa: "0 < 1.0 + 0.3275911 * a" and pb: "0 < 1.0 + 0.3275911 * b"
    using assms by (simp_all add: add_pos_nonneg)
  have "1.0 + 0.3275911 * a \<le> 1.0 + 0.3275911 * b"
    using assms by simp
  then have t: "1.0 / (1.0 + 0.3275911 * b) \<le> 1.0 / (1.0 + 0.3275911 * a)"
    using pa by (intro divide_left_mono) (simp_all add: pb mult_pos_pos)
  have t0: "0 \<le> 1.0 / (1.0 + 0.3275911 * a)"
    using pa by simp
  have "a * a \<le> b * b"
    using assms by (intro mult_mono) simp_all
  then have e: "exp (- b * b / 2) \<le> exp (- a * a / 2)"
    by simp
  show ?thesis
    unfolding asTail_def
    by (intro mult_mono asPoly_mono t e asPoly_nonneg t0) simp
qed

lemma asTail_less_one:
  assumes "0 \<le> a"
  shows "asTail a < 1"
proof -
  have "asTail 0 = 999999999 / 1000000000"
    by (simp add: asTail_def asPoly_def)
  moreover have "asTail a \<le> asTail 0"
    using assms by (intro asTail_antimono) simp_all
  ultimately show ?thesis by simp
qed

lemma cdfApprox_mono:
  assumes "z1 \<le> z2"
  shows "cdfApprox z1 \<le> cdfApprox z2"
proof -
  consider "z2 < 0" | "z1 < 0" "0 \<le> z2" | "0 \<le> z1"
    by linarith
  then show ?thesis
  proof cases
    case 1
    then have "asTail \<bar>z1\<bar> \<le> asTail \<bar>z2\<bar>"
      using assms by (intro asTail_antimono) simp_all
    with 1 assms show ?thesis
      by (simp add: cdfApprox_def)
  next
    case 2
    then have "asTail \<bar>z1\<bar> < 1" and "asTail \<bar>z2\<bar> < 1"
      by (simp_all add: asTail_less_one)
    with 2 show ?thesis
      by (simp add: cdfApprox_def)
  next
    case 3
    then have "asTail \<bar>z2\<bar> \<le> asTail \<bar>z1\<bar>"
      using assms by (intro asTail_antimono) simp_all
    with 3 assms show ?thesis
      by (simp add: cdfApprox_def)
  qed
qed


text \<open>
  C5: \<open>zToPercentile\<close> is monotone nondecreasing: for all real \<open>z1 < z2\<close> the percentile of
  \<open>z1\<close> is at most the percentile of \<open>z2\<close>.
\<close>

theorem zToPercentile_monotone:
  "z1 < z2 \<Longrightarrow> zToPercentile (Fin z1) \<le> zToPercentile (Fin z2)"
proof -
  assume "z1 < z2"
  then have "cdfApprox z1 \<le> cdfApprox z2"
    by (intro cdfApprox_mono) simp
  then have "\<lfloor>cdfApprox z1 * 100 + 1 / 2\<rfloor> \<le> \<lfloor>cdfApprox z2 * 100 + 1 / 2\<rfloor>"
    by (intro floor_mono) simp
  then show ?thesis
    by (simp add: zToPercentile_Fin)
qed

theorem zToPercentile_monotone_witness:
  "(0::real) < 1 \<and> zToPercentile (Fin 0) \<le> zToPercentile (Fin 1)"
  using zToPercentile_monotone [of 0 1] by simp


section \<open>Language Output percentile bands\<close>

text \<open>
  C10: the Language Output percentile mapping is not monotone in the ratio. The ratios
  \<open>-0.26\<close> and \<open>-0.24\<close> lie on either side of the band boundary \<open>-0.25\<close>; the first gets
  percentile 4 and the second, whose band value \<open>-8\<close> is clamped up, gets percentile 1.
\<close>

theorem languageOutputPercentile_not_monotone:
  "languageOutputPercentile (Fin (- 0.26)) = Fin 4
   \<and> languageOutputPercentile (Fin (- 0.24)) = Fin 1
   \<and> (\<exists>r1 r2. r1 < r2
          \<and> languageOutputPercentile (Fin r2) < languageOutputPercentile (Fin r1))"
proof -
  have a: "languageOutputPercentile (Fin (- 0.26)) = Fin 4"
    by (simp add: languageOutputPercentile_def Let_def)
  have b: "languageOutputPercentile (Fin (- 0.24)) = Fin 1"
    by (simp add: languageOutputPercentile_def Let_def)
  have "(- 0.26 :: real) < - 0.24
        \<and> languageOutputPercentile (Fin (- 0.24)) < languageOutputPercentile (Fin (- 0.26))"
    unfolding a b by simp
  then show ?thesis
    using a b by blast
qed

section \<open>Parsing\<close>

lemma splitNL_nonempty: "splitNL s \<noteq> []"
  by (induction s) (auto split: list.splits)

lemma splitNL_append: "splitNL (a @ CHR 0x0A # b) = splitNL a @ splitNL b"
proof (induction a)
  case Nil
  show ?case by simp
next
  case (Cons c a)
  obtain l ls where "splitNL a = l # ls"
    using splitNL_nonempty [of a] by (cases "splitNL a") auto
  with Cons show ?case by simp
qed

lemma splitNL_single: "CHR 0x0A \<notin> set s \<Longrightarrow> splitNL s = [s]"
  by (induction s) auto

lemma includesStr_iff: "includesStr s sub \<longleftrightarrow> (\<exists>a b. s = a @ sub @ b)"
proof (induction s)
  case Nil
  show ?case by auto
next
  case (Cons c s)
  have sw: "startsWith (c # s) sub \<longleftrightarrow> (\<exists>b. c # s = sub @ b)"
    unfolding startsWith_def
    by (metis append_eq_conv_conj append_take_drop_id)
  show ?case
  proof
    assume "includesStr (c # s) sub"
    then consider "startsWith (c # s) sub" | "includesStr s sub" by auto
    then show "\<exists>a b. c # s = a @ sub @ b"
    proof cases
      case 1
      then obtain b where "c # s = sub @ b" using sw by blast
      then have "c # s = [] @ sub @ b" by simp
      then show ?thesis by blast
    next
      case 2
      then obtain a b where "s = a @ sub @ b" using Cons.IH by blast
      then have "c # s = (c # a) @ sub @ b" by simp
      then show ?thesis by blast
    qed
  next
    assume "\<exists>a b. c # s = a @ sub @ b"
    then obtain a b where ab: "c # s = a @ sub @ b" by blast
    show "includesStr (c # s) sub"
    proof (cases a)
      case Nil
      with ab have "c # s = sub @ b" by simp
      then have "startsWith (c # s) sub" using sw by blast
      then show ?thesis by simp
    next
      case (Cons c' a')
      with ab have "s = a' @ sub @ b" by simp
      with Cons.IH show ?thesis by auto
    qed
  qed
qed

lemma splitNL_first_prefix: "splitNL s = l # ls \<Longrightarrow> \<exists>b. s = l @ b"
proof (induction s arbitrary: l ls)
  case Nil
  then show ?case by simp
next
  case (Cons c s)
  obtain l0 ls0 where sp: "splitNL s = l0 # ls0"
    using splitNL_nonempty [of s] by (cases "splitNL s") auto
  then obtain b where "s = l0 @ b" using Cons.IH by blast
  with Cons.prems sp show ?case
    by (cases "c = CHR 0x0A") auto
qed

lemma splitNL_line_infix:
  "l \<in> set (splitNL s) \<Longrightarrow> \<exists>a b. s = a @ l @ b"
proof (induction s arbitrary: l)
  case Nil
  then show ?case by simp
next
  case (Cons c s)
  obtain l0 ls where sp: "splitNL s = l0 # ls"
    using splitNL_nonempty [of s] by (cases "splitNL s") auto
  show ?case
  proof (cases "c = CHR 0x0A")
    case True
    with Cons.prems have "l = [] \<or> l \<in> set (splitNL s)" by auto
    then show ?thesis
    proof
      assume "l = []"
      then have "c # s = [] @ l @ (c # s)" by simp
      then show ?thesis by blast
    next
      assume "l \<in> set (splitNL s)"
      then obtain a b where "s = a @ l @ b" using Cons.IH by blast
      then have "c # s = (c # a) @ l @ b" by simp
      then show ?thesis by blast
    qed
  next
    case False
    with Cons.prems sp have "l = c # l0 \<or> l \<in> set ls" by auto
    then show ?thesis
    proof
      assume l: "l = c # l0"
      obtain b where "s = l0 @ b" using splitNL_first_prefix [OF sp] by blast
      with l have "c # s = [] @ l @ b" by simp
      then show ?thesis by blast
    next
      assume "l \<in> set ls"
      then have "l \<in> set (splitNL s)" using sp by simp
      then obtain a b where "s = a @ l @ b" using Cons.IH by blast
      then have "c # s = (c # a) @ l @ b" by simp
      then show ?thesis by blast
    qed
  qed
qed


lemma includesStr_line:
  assumes "l \<in> set (splitNL s)" and "includesStr l sub"
  shows "includesStr s sub"
proof -
  obtain a b where "s = a @ l @ b" using splitNL_line_infix [OF assms(1)] by blast
  moreover obtain a' b' where "l = a' @ sub @ b'" using assms(2) includesStr_iff by blast
  ultimately have "s = (a @ a') @ sub @ (b' @ b)" by simp
  then show ?thesis unfolding includesStr_iff by blast
qed

lemma parseLines_skip:
  assumes "\<forall>l \<in> set pre. \<not> includesStr l ''ColHeaders''"
  shows "parseLines False ext data (pre @ ls) = parseLines False ext data ls"
  using assms by (induction pre) simp_all

lemma parseDKTStats_pre:
  assumes "\<not> includesStr pre ''ColHeaders''"
  shows "parseDKTStats (pre @ CHR 0x0A # rest) = parseDKTStats rest"
proof -
  have "\<forall>l \<in> set (splitNL pre). \<not> includesStr l ''ColHeaders''"
    using assms includesStr_line by blast
  then show ?thesis
    unfolding parseDKTStats_def splitNL_append by (rule parseLines_skip)
qed

lemma parseDKTStats_no_header:
  assumes "\<not> includesStr content ''ColHeaders''"
  shows "parseDKTStats content = Map.empty"
proof -
  have "\<forall>l \<in> set (splitNL content). \<not> includesStr l ''ColHeaders''"
    using assms includesStr_line by blast
  then have "parseLines False False Map.empty (splitNL content @ []) = parseLines False False Map.empty []"
    by (rule parseLines_skip)
  then show ?thesis
    by (simp add: parseDKTStats_def)
qed


lemma entorhinalRow_tokens:
  "splitWS (trim entorhinalRow)
   = [''entorhinal'', ''120'', ''480'', ''1600'', ''3.20'', ''0.30'', ''0.05'', ''0.02'', ''5'', ''1'']"
  unfolding entorhinalRow_def by code_simp

lemma entorhinalRow_floats:
  "parseFloat ''3.20'' = Fin 3.20" "parseFloat ''480'' = Fin 480"
  "parseFloat ''1600'' = Fin 1600" "parseFloat ''0.05'' = Fin 0.05"
  "parseFloat ''0.02'' = Fin 0.02" "parseFloat ''5'' = Fin 5" "parseFloat ''1'' = Fin 1"
  by (simp_all add: parseFloat_def parseSign_def startsWith_def isDigit_def isWhiteSpace_def
        digitsValue_def scale10_def parseExponent_def)

lemma entorhinalRow_line:
  "\<not> includesStr entorhinalRow ''ColHeaders''" "trim entorhinalRow \<noteq> []"
  "\<not> startsWith entorhinalRow ''#''" "splitNL entorhinalRow = [entorhinalRow]"
  unfolding entorhinalRow_def by code_simp+

lemma entorhinalRow_parsed:
  "parseRow True Map.empty entorhinalRow
   = [''entorhinal'' \<mapsto>
        \<lparr>thickness = Fin 3.20, surfArea = Fin 480, volume = Fin 1600,
         meanCurv = Some (Fin 0.05), gausCurv = Some (Fin 0.02),
         foldInd = Some (Fin 5), curvInd = Some (Fin 1)\<rparr>]"
  by (simp add: parseRow_def entorhinalRow_tokens entorhinalRow_floats storeRegion_def Let_def)

text \<open>
  C7: a report whose header line contains \<open>ColHeaders\<close> and \<open>MeanCurv\<close>, followed by the
  row \<open>entorhinal 120 480 1600 3.20 0.30 0.05 0.02 5 1\<close>, parses to the mapping with the
  one key \<open>entorhinal\<close>, of thickness 3.20 (token 4), surface area 480 (token 2),
  volume 1600 (token 3), mean curvature 0.05 (token 6), Gaussian curvature 0.02,
  folding index 5 (token 8) and curvature index 1.
\<close>

theorem parseDKTStats_entorhinal_row:
  assumes "CHR 0x0A \<notin> set header"
    and "includesStr header ''ColHeaders''"
    and "includesStr header ''MeanCurv''"
  shows "parseDKTStats (header @ CHR 0x0A # entorhinalRow)
   = [''entorhinal'' \<mapsto>
        \<lparr>thickness = Fin 3.20, surfArea = Fin 480, volume = Fin 1600,
         meanCurv = Some (Fin 0.05), gausCurv = Some (Fin 0.02),
         foldInd = Some (Fin 5), curvInd = Some (Fin 1)\<rparr>]"
proof -
  have "splitNL (header @ CHR 0x0A # entorhinalRow) = [header, entorhinalRow]"
    using assms(1) by (simp add: splitNL_append splitNL_single entorhinalRow_line)
  then have "parseDKTStats (header @ CHR 0x0A # entorhinalRow)
             = parseRow True Map.empty entorhinalRow"
    using assms(2,3) by (simp add: parseDKTStats_def entorhinalRow_line)
  then show ?thesis
    by (simp only: entorhinalRow_parsed)
qed

theorem parseDKTStats_entorhinal_row_witness:
  "CHR 0x0A \<notin> set ''# ColHeaders StructName NumVert SurfArea GrayVol ThickAvg ThickStd MeanCurv GausCurv FoldInd CurvInd''
   \<and> includesStr ''# ColHeaders StructName NumVert SurfArea GrayVol ThickAvg ThickStd MeanCurv GausCurv FoldInd CurvInd'' ''ColHeaders''
   \<and> includesStr ''# ColHeaders StructName NumVert SurfArea GrayVol ThickAvg ThickStd MeanCurv GausCurv FoldInd CurvInd'' ''MeanCurv''
   \<and> parseDKTStats (''# ColHeaders StructName NumVert SurfArea GrayVol ThickAvg ThickStd MeanCurv GausCurv FoldInd CurvInd'' @ CHR 0x0A # entorhinalRow) ''entorhinal''
     = Some \<lparr>thickness = Fin 3.20, surfArea = Fin 480, volume = Fin 1600,
         meanCurv = Some (Fin 0.05), gausCurv = Some (Fin 0.02),
         foldInd = Some (Fin 5), curvInd = Some (Fin 1)\<rparr>"
proof -
  let ?h = "''# ColHeaders StructName NumVert SurfArea GrayVol ThickAvg ThickStd MeanCurv GausCurv FoldInd CurvInd''"
  have a: "CHR 0x0A \<notin> set ?h" by code_simp
  have b: "includesStr ?h ''ColHeaders''" by code_simp
  have c: "includesStr ?h ''MeanCurv''" by code_simp
  show ?thesis
    using a b c parseDKTStats_entorhinal_row [OF a b c] by simp
qed

section \<open>Lines before the header\<close>

text \<open>
  C9: \<open>parseDKTStats\<close> is a total function of the report text: no step of it can fail, so
  the model has no error value, and every text, also one without a header, with short
  rows or with fields that are not numbers, gives a mapping. No line before the first
  line that contains \<open>ColHeaders\<close> contributes an entry: text without that marker in front
  of a line break can be dropped, a report without the marker gives the empty mapping,
  and a row of fewer than five tokens leaves the mapping as it is.
\<close>

theorem parseDKTStats_ignores_lines_before_header:
  "(\<not> includesStr pre ''ColHeaders'' \<longrightarrow>
      parseDKTStats (pre @ CHR 0x0A # rest) = parseDKTStats rest)
   \<and> (\<not> includesStr content ''ColHeaders'' \<longrightarrow> parseDKTStats content = Map.empty)
   \<and> (length (splitWS (trim line)) < 5 \<longrightarrow> parseRow ext data line = data)"
  using parseDKTStats_pre [of pre rest] parseDKTStats_no_header [of content]
  by (simp add: parseRow_def Let_def)

theorem parseDKTStats_ignores_lines_before_header_witness:
  "\<not> includesStr ''entorhinal 120 480 1600 3.20 0.30'' ''ColHeaders''
   \<and> parseDKTStats (''entorhinal 120 480 1600 3.20 0.30'' @ CHR 0x0A # headerLine)
       = parseDKTStats headerLine
   \<and> parseDKTStats ''entorhinal 120 480 1600 3.20 0.30'' = Map.empty
   \<and> length (splitWS (trim ''entorhinal 120 x'')) < 5
   \<and> parseRow False Map.empty ''entorhinal 120 x'' = Map.empty"
proof -
  have a: "\<not> includesStr ''entorhinal 120 480 1600 3.20 0.30'' ''ColHeaders''"
    by code_simp
  have b: "length (splitWS (trim ''entorhinal 120 x'')) < 5"
    by code_simp
  show ?thesis
    using a b
      parseDKTStats_ignores_lines_before_header
        [of "''entorhinal 120 480 1600 3.20 0.30''" headerLine
            "''entorhinal 120 480 1600 3.20 0.30''" "''entorhinal 120 x''" False Map.empty]
    by simp
qed

section \<open>Handedness with the left hemisphere one standard deviation above\<close>

lemma ref_BA:
  "REFERENCE_DATA_MALE ''BA4a_exvivo'' = Some (refEntry (ms 2.85 0.20) (ms 1300 250) (ms 4300 650))"
  "REFERENCE_DATA_MALE ''BA4p_exvivo'' = Some (refEntry (ms 2.80 0.19) (ms 1000 200) (ms 2700 450))"
  "REFERENCE_DATA_MALE ''BA3b_exvivo'' = Some (refEntry (ms 2.15 0.18) (ms 2000 350) (ms 4500 700))"
  by (simp_all add: REFERENCE_DATA_MALE_def REFERENCE_DATA_MALE_entries_def)

lemma handednessStep_oneStdAbove:
  assumes "oneStdAbove L R nm" and "nm \<in> {''BA4a_exvivo'', ''BA4p_exvivo'', ''BA3b_exvivo''}"
  shows "\<exists>d. handednessStep L R (Fin ti, Fin tw, ds) (nm, Fin w, Fin wT, Fin wA, Fin wF)
         = (Fin (ti + w * (wT + wA)), Fin (tw + w), ds @ [d])"
proof -
  obtain ref l r where lk: "lookupRegion L R nm = Some (ref, l, r)"
    using assms(1) by (auto simp: oneStdAbove_def split: option.splits)
  then have rf: "REFERENCE_DATA_MALE nm = Some ref"
    by (auto simp: lookupRegion_def split: option.splits)
  have vals: "thickness l = mean (thicknessRef ref) + std (thicknessRef ref)"
    "surfArea l = mean (surfAreaRef ref) + std (surfAreaRef ref)"
    "thickness r = mean (thicknessRef ref)" "surfArea r = mean (surfAreaRef ref)"
    "foldInd l = None" "foldInd r = None"
    using assms(1) lk by (simp_all add: oneStdAbove_def)
  have z: "baZScores nm (Fin wT) (Fin wA) (Fin wF) ref l r = (Fin (wT + wA), Fin 0)"
    using assms(2) rf
    by (auto simp: baZScores_def foldZScores_def vals ref_BA refEntry_def ms_def Let_def
          split: option.splits)
  show ?thesis
    by (simp add: handednessStep_def lk z algebra_simps)
qed

text \<open>
  C6: when the subregion mappings hold BA4a, BA4p and BA3b with left thickness and surface
  area one reference standard deviation above the reference means, the right hemisphere
  at the means and no folding index, the Handedness Index value is positive and equals
  0.70, the sum of the thickness and area metric weights.
\<close>

theorem handedness_one_std_left:
  assumes "lhBA d = Some L" and "rhBA d = Some R"
    and "oneStdAbove L R ''BA4a_exvivo''"
    and "oneStdAbove L R ''BA4p_exvivo''"
    and "oneStdAbove L R ''BA3b_exvivo''"
  shows "ir_value (calculateHandednessIndex d) = Fin 0.70
         \<and> Fin 0 < ir_value (calculateHandednessIndex d)"
proof -
  obtain d1 where s1: "handednessStep L R (Fin 0, Fin 0, [])
        (''BA4a_exvivo'', Fin 0.35, Fin 0.35, Fin 0.35, Fin 0.30)
      = (Fin (0 + 0.35 * (0.35 + 0.35)), Fin (0 + 0.35), [] @ [d1])"
    using handednessStep_oneStdAbove [OF assms(3)] by blast
  obtain d2 where s2: "handednessStep L R
        (Fin (0 + 0.35 * (0.35 + 0.35)), Fin (0 + 0.35), [] @ [d1])
        (''BA4p_exvivo'', Fin 0.35, Fin 0.35, Fin 0.35, Fin 0.30)
      = (Fin (0 + 0.35 * (0.35 + 0.35) + 0.35 * (0.35 + 0.35)), Fin (0 + 0.35 + 0.35),
         ([] @ [d1]) @ [d2])"
    using handednessStep_oneStdAbove [OF assms(4)] by blast
  obtain d3 where s3: "handednessStep L R
        (Fin (0 + 0.35 * (0.35 + 0.35) + 0.35 * (0.35 + 0.35)), Fin (0 + 0.35 + 0.35),
         ([] @ [d1]) @ [d2])
        (''BA3b_exvivo'', Fin 0.30, Fin 0.40, Fin 0.30, Fin 0.30)
      = (Fin (0 + 0.35 * (0.35 + 0.35) + 0.35 * (0.35 + 0.35) + 0.30 * (0.40 + 0.30)),
         Fin (0 + 0.35 + 0.35 + 0.30), (([] @ [d1]) @ [d2]) @ [d3])"
    using handednessStep_oneStdAbove [OF assms(5)] by blast
  have "foldl (handednessStep L R) (Fin 0, Fin 0, []) baRegionConfigs
        = (Fin (0 + 0.35 * (0.35 + 0.35) + 0.35 * (0.35 + 0.35) + 0.30 * (0.40 + 0.30)),
           Fin (0 + 0.35 + 0.35 + 0.30), (([] @ [d1]) @ [d2]) @ [d3])"
    unfolding baRegionConfigs_def foldl.simps s1 s2 s3 ..
  then show ?thesis
    by (simp add: calculateHandednessIndex_def assms(1,2) Let_def)
qed

theorem handedness_one_std_left_witness:
  "ir_value (calculateHandednessIndex scenario3) = Fin 0.70
   \<and> Fin 0 < ir_value (calculateHandednessIndex scenario3)"
proof -
  let ?L = "[''BA4a_exvivo'' \<mapsto> region3 3.05 1550 4300,
             ''BA4p_exvivo'' \<mapsto> region3 2.99 1200 2700,
             ''BA3b_exvivo'' \<mapsto> region3 2.33 2350 4500]"
  let ?R = "[''BA4a_exvivo'' \<mapsto> region3 2.85 1300 4300,
             ''BA4p_exvivo'' \<mapsto> region3 2.80 1000 2700,
             ''BA3b_exvivo'' \<mapsto> region3 2.15 2000 4500]"
  have l: "lhBA scenario3 = Some ?L" and r: "rhBA scenario3 = Some ?R"
    by (simp_all add: scenario3_def)
  have a: "oneStdAbove ?L ?R ''BA4a_exvivo''"
    by (simp add: oneStdAbove_def lookupRegion_def ref_BA refEntry_def ms_def region3_def)
  have b: "oneStdAbove ?L ?R ''BA4p_exvivo''"
    by (simp add: oneStdAbove_def lookupRegion_def ref_BA refEntry_def ms_def region3_def)
  have c: "oneStdAbove ?L ?R ''BA3b_exvivo''"
    by (simp add: oneStdAbove_def lookupRegion_def ref_BA refEntry_def ms_def region3_def)
  show ?thesis
    by (rule handedness_one_std_left [OF l r a b c])
qed

section \<open>Bounds of the language lateralization ratio\<close>

lemma isFinite_iff: "isFinite x \<longleftrightarrow> (\<exists>a. x = Fin a)"
  by (cases x) simp_all

lemma REFERENCE_DATA_MALE_finite:
  assumes "REFERENCE_DATA_MALE nm = Some ref"
  shows "finiteMeanStd (thicknessRef ref) \<and> finiteMeanStd (surfAreaRef ref)
       \<and> finiteMeanStd (volumeRef ref)"
proof -
  have "(nm, ref) \<in> set REFERENCE_DATA_MALE_entries"
    using assms unfolding REFERENCE_DATA_MALE_def by (rule map_of_SomeD)
  then show ?thesis
    unfolding REFERENCE_DATA_MALE_entries_def refEntry_def ms_def finiteMeanStd_def by auto
qed

lemma BA_CURVATURE_REFERENCE_finite:
  assumes "BA_CURVATURE_REFERENCE nm = Some c"
  shows "finiteMeanStd (meanCurvRef c) \<and> finiteMeanStd (foldIndRef c)"
proof -
  have "(nm, c) \<in> set BA_CURVATURE_REFERENCE_entries"
    using assms unfolding BA_CURVATURE_REFERENCE_def by (rule map_of_SomeD)
  then show ?thesis
    unfolding BA_CURVATURE_REFERENCE_entries_def curvEntry_def ms_def finiteMeanStd_def by auto
qed

lemma zterm_finite:
  assumes "isFinite v" and "finiteMeanStd x"
  shows "isFinite ((v - mean x) / std x)"
  using assms unfolding finiteMeanStd_def
  by (cases v; cases "mean x"; cases "std x") simp_all

lemma isFinite_plus [simp]: "isFinite a \<Longrightarrow> isFinite b \<Longrightarrow> isFinite (a + b)"
  by (cases a; cases b) simp_all

lemma isFinite_times [simp]: "isFinite a \<Longrightarrow> isFinite b \<Longrightarrow> isFinite (a * b)"
  by (cases a; cases b) simp_all

lemma isFinite_half [simp]: "isFinite a \<Longrightarrow> isFinite (a / Fin 2)"
  by (cases a) simp_all

lemma lookupRegion_SomeD:
  assumes "lookupRegion L R nm = Some (ref, l, r)"
  shows "REFERENCE_DATA_MALE nm = Some ref" "L nm = Some l" "R nm = Some r"
  using assms by (auto simp: lookupRegion_def split: option.splits)

lemma inlineZ_finite:
  assumes "isFinite wT" "isFinite wA" "isFinite wV" "finiteRegion m"
    and "REFERENCE_DATA_MALE nm = Some ref"
  shows "isFinite (inlineZ wT wA wV m ref)"
  using assms(1-4) REFERENCE_DATA_MALE_finite [OF assms(5)]
  unfolding inlineZ_def finiteRegion_def
  by (intro isFinite_plus isFinite_times zterm_finite) simp_all

lemma foldZScores_finite:
  assumes "finiteRegion l" "finiteRegion r"
  shows "isFinite (fst (foldZScores (BA_CURVATURE_REFERENCE nm) l r))
       \<and> isFinite (snd (foldZScores (BA_CURVATURE_REFERENCE nm) l r))"
proof (cases "BA_CURVATURE_REFERENCE nm")
  case None
  then show ?thesis by (simp add: foldZScores_def)
next
  case (Some c)
  then have "finiteMeanStd (foldIndRef c)"
    using BA_CURVATURE_REFERENCE_finite by blast
  with Some assms show ?thesis
    by (auto simp: foldZScores_def finiteRegion_def finiteOpt_def zterm_finite
          split: option.splits)
qed

lemma baZScores_finite:
  assumes "isFinite wT" "isFinite wA" "isFinite wF" "finiteRegion l" "finiteRegion r"
    and "REFERENCE_DATA_MALE nm = Some ref"
  shows "isFinite (fst (baZScores nm wT wA wF ref l r))
       \<and> isFinite (snd (baZScores nm wT wA wF ref l r))"
proof -
  obtain fl fr where f: "foldZScores (BA_CURVATURE_REFERENCE nm) l r = (fl, fr)"
    by (cases "foldZScores (BA_CURVATURE_REFERENCE nm) l r")
  then have "isFinite fl" "isFinite fr"
    using foldZScores_finite [OF assms(4,5), of nm] by simp_all
  then show ?thesis
    using assms(1-5) REFERENCE_DATA_MALE_finite [OF assms(6)]
    unfolding baZScores_def finiteRegion_def Let_def f
    by (simp add: zterm_finite)
qed


lemma foldl_invariant:
  assumes "P acc" and "\<And>a x. x \<in> set xs \<Longrightarrow> P a \<Longrightarrow> P (f a x)"
  shows "P (foldl f acc xs)"
  using assms by (induction xs arbitrary: acc) simp_all

lemma languageInputStep_finite:
  assumes "finiteRegions (lh d)" "finiteRegions (rh d)" "finiteConfig cfg" "finiteSums acc"
  shows "finiteSums (languageInputStep d acc cfg)"
proof -
  obtain sl sr ts ds where acc: "acc = (sl, sr, ts, ds)" by (cases acc) auto
  obtain nm w wT wA wV where cfg: "cfg = (nm, w, wT, wA, wV)" by (cases cfg) auto
  show ?thesis
  proof (cases "lookupRegion (lh d) (rh d) nm")
    case None
    with assms(4) show ?thesis by (simp add: languageInputStep_def acc cfg)
  next
    case (Some t)
    obtain ref l r where t: "t = (ref, l, r)" by (cases t) auto
    note lk = lookupRegion_SomeD [OF Some [unfolded t]]
    have fl: "finiteRegion l" and fr: "finiteRegion r"
      using assms(1,2) lk unfolding finiteRegions_def by blast+
    have w: "isFinite w" "isFinite wT" "isFinite wA" "isFinite wV"
      using assms(3) by (simp_all add: finiteConfig_def cfg)
    have "isFinite (inlineZ wT wA wV l ref)" "isFinite (inlineZ wT wA wV r ref)"
      using w fl fr lk(1) by (simp_all add: inlineZ_finite)
    with assms(4) w(1) show ?thesis
      by (simp add: languageInputStep_def acc cfg Some t finiteSums_def Let_def)
  qed
qed

lemma languageOutputStep_finite:
  assumes "finiteRegions L" "finiteRegions R" "finiteConfig cfg" "finiteSums acc"
  shows "finiteSums (languageOutputStep L R acc cfg)"
proof -
  obtain sl sr ts ds where acc: "acc = (sl, sr, ts, ds)" by (cases acc) auto
  obtain nm w wT wA wF where cfg: "cfg = (nm, w, wT, wA, wF)" by (cases cfg) auto
  show ?thesis
  proof (cases "lookupRegion L R nm")
    case None
    with assms(4) show ?thesis by (simp add: languageOutputStep_def acc cfg)
  next
    case (Some t)
    obtain ref l r where t: "t = (ref, l, r)" by (cases t) auto
    note lk = lookupRegion_SomeD [OF Some [unfolded t]]
    have fl: "finiteRegion l" and fr: "finiteRegion r"
      using assms(1,2) lk unfolding finiteRegions_def by blast+
    have w: "isFinite w" "isFinite wT" "isFinite wA" "isFinite wF"
      using assms(3) by (simp_all add: finiteConfig_def cfg)
    obtain zl zr where z: "baZScores nm wT wA wF ref l r = (zl, zr)"
      by (cases "baZScores nm wT wA wF ref l r")
    then have "isFinite zl" "isFinite zr"
      using baZScores_finite [OF w(2-4) fl fr lk(1)] by simp_all
    with assms(4) w(1) show ?thesis
      by (simp add: languageOutputStep_def acc cfg Some t z finiteSums_def Let_def)
  qed
qed

lemma languageInputSums_finite:
  assumes "finiteRegions (lh d)" "finiteRegions (rh d)"
  shows "finiteSums (languageInputSums d)"
  unfolding languageInputSums_def
proof (rule foldl_invariant)
  show "finiteSums (Fin 0, Fin 0, Fin 0, [])" by (simp add: finiteSums_def)
next
  fix a :: "number \<times> number \<times> number \<times> RegionDetail list"
    and x :: "string \<times> number \<times> number \<times> number \<times> number"
  assume "x \<in> set DKT_LANGUAGE_INPUT_REGIONS" and a: "finiteSums a"
  then have "finiteConfig x"
    by (auto simp: DKT_LANGUAGE_INPUT_REGIONS_def finiteConfig_def)
  then show "finiteSums (languageInputStep d a x)"
    using assms a by (intro languageInputStep_finite)
qed

lemma languageOutputSums_finite:
  assumes "finiteRegions L" "finiteRegions R"
  shows "finiteSums (languageOutputSums L R)"
  unfolding languageOutputSums_def
proof (rule foldl_invariant)
  show "finiteSums (Fin 0, Fin 0, Fin 0, [])" by (simp add: finiteSums_def)
next
  fix a :: "number \<times> number \<times> number \<times> RegionDetail list"
    and x :: "string \<times> number \<times> number \<times> number \<times> number"
  assume "x \<in> set baBrocaRegions" and a: "finiteSums a"
  then have "finiteConfig x"
    by (auto simp: baBrocaRegions_def finiteConfig_def)
  then show "finiteSums (languageOutputStep L R a x)"
    using assms a by (intro languageOutputStep_finite)
qed

lemma lateralizationRatio_bound:
  "\<exists>li. lateralizationRatio (Fin a) (Fin b) = Fin li \<and> - 1 < li \<and> li < 1"
proof -
  let ?den = "\<bar>a\<bar> + \<bar>b\<bar> + 1 / 1000"
  have den: "0 < ?den"
    using abs_ge_zero [of a] abs_ge_zero [of b] by linarith
  then have "?den \<noteq> 0" by simp
  then have eq: "lateralizationRatio (Fin a) (Fin b) = Fin ((a - b) / ?den)"
    by (simp add: lateralizationRatio_def)
  have "- ?den < a - b" "a - b < ?den" by linarith+
  then have "- 1 < (a - b) / ?den" "(a - b) / ?den < 1"
    using den by (simp_all add: pos_less_divide_eq pos_divide_less_eq)
  with eq show ?thesis by blast
qed

lemma toFixed3_bound:
  assumes "- 1 < li" "li < 1"
  shows "\<exists>v. toFixed3 (Fin li) = Fin v \<and> - 1 \<le> v \<and> v \<le> 1"
proof -
  have small: "\<not> 10 ^ 21 \<le> \<bar>li\<bar>"
    using assms by simp
  show ?thesis
  proof (cases "li < 0")
    case True
    define n where "n = \<lfloor>- li * 1000 + 1 / 2\<rfloor>"
    have "0 \<le> - li * 1000 + 1 / 2" using True by simp
    then have "0 \<le> n" unfolding n_def by (simp only: zero_le_floor)
    moreover have "- li * 1000 + 1 / 2 < 1001" using assms by simp
    then have "n < 1001" unfolding n_def by (simp only: floor_less_iff of_int_numeral)
    ultimately have "0 \<le> real_of_int n" "real_of_int n \<le> 1000" by simp_all
    then have "- 1 \<le> - (real_of_int n / 1000)" "- (real_of_int n / 1000) \<le> 1"
      by simp_all
    moreover have "toFixed3 (Fin li) = Fin (- (real_of_int n / 1000))"
      using True small by (simp add: n_def)
    ultimately show ?thesis by blast
  next
    case False
    define n where "n = \<lfloor>li * 1000 + 1 / 2\<rfloor>"
    have "0 \<le> li * 1000 + 1 / 2" using False by simp
    then have "0 \<le> n" unfolding n_def by (simp only: zero_le_floor)
    moreover have "li * 1000 + 1 / 2 < 1001" using assms by simp
    then have "n < 1001" unfolding n_def by (simp only: floor_less_iff of_int_numeral)
    ultimately have "0 \<le> real_of_int n" "real_of_int n \<le> 1000" by simp_all
    then have "- 1 \<le> real_of_int n / 1000" "real_of_int n / 1000 \<le> 1"
      by simp_all
    moreover have "toFixed3 (Fin li) = Fin (real_of_int n / 1000)"
      using False small by (simp add: n_def)
    ultimately show ?thesis by blast
  qed
qed

lemma languageInput_value:
  "ir_value (calculateLanguageInputLateralization d) = toFixed3 (languageInputLI d)"
  by (simp add: calculateLanguageInputLateralization_def languageInputLI_def Let_def
        split: prod.splits)

lemma languageOutput_value:
  "lhBA d = Some L \<Longrightarrow> rhBA d = Some R \<Longrightarrow>
   ir_value (calculateLanguageOutputLateralization d) = toFixed3 (languageOutputLI L R)"
  by (simp add: calculateLanguageOutputLateralization_def languageOutputLI_def Let_def
        split: prod.splits)

lemma languageInputLI_bound:
  assumes "finiteData d"
  shows "\<exists>li. languageInputLI d = Fin li \<and> - 1 < li \<and> li < 1"
proof -
  have "finiteSums (languageInputSums d)"
    using assms by (intro languageInputSums_finite) (simp_all add: finiteData_def)
  then obtain a b ts ds where "languageInputSums d = (Fin a, Fin b, ts, ds)"
    by (cases "languageInputSums d") (auto simp: finiteSums_def isFinite_iff)
  then show ?thesis
    using lateralizationRatio_bound [of a b] by (simp add: languageInputLI_def)
qed

lemma languageOutputLI_bound:
  assumes "finiteRegions L" "finiteRegions R"
  shows "\<exists>li. languageOutputLI L R = Fin li \<and> - 1 < li \<and> li < 1"
proof -
  have "finiteSums (languageOutputSums L R)"
    using assms by (intro languageOutputSums_finite)
  then obtain a b ts ds where "languageOutputSums L R = (Fin a, Fin b, ts, ds)"
    by (cases "languageOutputSums L R") (auto simp: finiteSums_def isFinite_iff)
  then show ?thesis
    using lateralizationRatio_bound [of a b] by (simp add: languageOutputLI_def)
qed

lemma languageOutput_value_bound:
  assumes "finiteData d"
  shows "\<exists>v. ir_value (calculateLanguageOutputLateralization d) = Fin v \<and> - 1 \<le> v \<and> v \<le> 1"
proof (cases "lhBA d")
  case None
  then show ?thesis by (simp add: calculateLanguageOutputLateralization_def)
next
  case (Some L)
  note L = this
  show ?thesis
  proof (cases "rhBA d")
    case None
    with L show ?thesis by (simp add: calculateLanguageOutputLateralization_def)
  next
    case (Some R)
    have "finiteRegions L" "finiteRegions R"
      using assms L Some by (simp_all add: finiteData_def)
    then obtain li where "languageOutputLI L R = Fin li" "- 1 < li" "li < 1"
      using languageOutputLI_bound by blast
    then show ?thesis
      using toFixed3_bound [of li] languageOutput_value [OF L Some] by simp
  qed
qed

lemma language_bounds_finite:
  assumes "finiteData d"
  shows "(\<exists>li. languageInputLI d = Fin li \<and> - 1 < li \<and> li < 1)
       \<and> (\<exists>v. ir_value (calculateLanguageInputLateralization d) = Fin v \<and> - 1 \<le> v \<and> v \<le> 1)
       \<and> (\<forall>L R. lhBA d = Some L \<and> rhBA d = Some R \<longrightarrow>
             (\<exists>li. languageOutputLI L R = Fin li \<and> - 1 < li \<and> li < 1))
       \<and> (\<exists>v. ir_value (calculateLanguageOutputLateralization d) = Fin v \<and> - 1 \<le> v \<and> v \<le> 1)"
proof (intro conjI allI impI)
  show i: "\<exists>li. languageInputLI d = Fin li \<and> - 1 < li \<and> li < 1"
    by (rule languageInputLI_bound [OF assms])
  show "\<exists>v. ir_value (calculateLanguageInputLateralization d) = Fin v \<and> - 1 \<le> v \<and> v \<le> 1"
    using i toFixed3_bound languageInput_value [of d] by force
  show "\<exists>v. ir_value (calculateLanguageOutputLateralization d) = Fin v \<and> - 1 \<le> v \<and> v \<le> 1"
    by (rule languageOutput_value_bound [OF assms])
next
  fix L R
  assume lr: "lhBA d = Some L \<and> rhBA d = Some R"
  then have "finiteRegions L" "finiteRegions R"
    using assms by (simp_all add: finiteData_def)
  then show "\<exists>li. languageOutputLI L R = Fin li \<and> - 1 < li \<and> li < 1"
    by (rule languageOutputLI_bound)
qed

lemma withinMillion_finite: "withinMillion x \<Longrightarrow> isFinite x"
  by (cases x) simp_all

lemma boundedOpt_finite: "boundedOpt x \<Longrightarrow> finiteOpt x"
  by (cases x) (simp_all add: boundedOpt_def finiteOpt_def withinMillion_finite)

lemma boundedRegion_finite: "boundedRegion m \<Longrightarrow> finiteRegion m"
  by (simp add: boundedRegion_def finiteRegion_def withinMillion_finite boundedOpt_finite)

lemma boundedRegions_finite: "boundedRegions M \<Longrightarrow> finiteRegions M"
  unfolding boundedRegions_def finiteRegions_def using boundedRegion_finite by blast

lemma boundedData_finite:
  assumes "boundedData d"
  shows "finiteData d"
proof -
  have "finiteRegions (lh d)" "finiteRegions (rh d)"
    using assms by (simp_all add: boundedData_def boundedRegions_finite)
  moreover have "case lhBA d of None \<Rightarrow> True | Some L \<Rightarrow> finiteRegions L"
    using assms by (cases "lhBA d") (simp_all add: boundedData_def boundedRegions_finite)
  moreover have "case rhBA d of None \<Rightarrow> True | Some R \<Rightarrow> finiteRegions R"
    using assms by (cases "rhBA d") (simp_all add: boundedData_def boundedRegions_finite)
  ultimately show ?thesis
    by (simp add: finiteData_def)
qed

lemma lateralizationRatio_range:
  "lateralizationRatio l r = NaN
   \<or> (\<exists>li. lateralizationRatio l r = Fin li \<and> - 1 < li \<and> li < 1)"
proof (cases "isFinite l \<and> isFinite r")
  case True
  then obtain a b where "l = Fin a" "r = Fin b"
    by (auto simp: isFinite_iff)
  then show ?thesis
    using lateralizationRatio_bound [of a b] by simp
next
  case False
  then have "lateralizationRatio l r = NaN"
    by (cases l; cases r) (simp_all add: lateralizationRatio_def minus_number_def)
  then show ?thesis by simp
qed

lemma toFixed3_range:
  assumes "x = NaN \<or> (\<exists>li. x = Fin li \<and> - 1 < li \<and> li < 1)"
  shows "toFixed3 x = NaN \<or> (\<exists>v. toFixed3 x = Fin v \<and> - 1 \<le> v \<and> v \<le> 1)"
  using assms toFixed3_bound by auto

lemma languageInput_value_range:
  "ir_value (calculateLanguageInputLateralization d) = NaN
   \<or> (\<exists>v. ir_value (calculateLanguageInputLateralization d) = Fin v \<and> - 1 \<le> v \<and> v \<le> 1)"
  unfolding languageInput_value languageInputLI_def
  by (rule toFixed3_range) (simp add: lateralizationRatio_range split: prod.splits)

lemma languageOutput_value_range:
  "ir_value (calculateLanguageOutputLateralization d) = NaN
   \<or> (\<exists>v. ir_value (calculateLanguageOutputLateralization d) = Fin v \<and> - 1 \<le> v \<and> v \<le> 1)"
proof (cases "lhBA d")
  case None
  then show ?thesis by (simp add: calculateLanguageOutputLateralization_def)
next
  case (Some L)
  note L = this
  show ?thesis
  proof (cases "rhBA d")
    case None
    with L show ?thesis by (simp add: calculateLanguageOutputLateralization_def)
  next
    case (Some R)
    show ?thesis
      unfolding languageOutput_value [OF L Some] languageOutputLI_def
      by (rule toFixed3_range) (simp add: lateralizationRatio_range split: prod.splits)
  qed
qed

text \<open>
  C8, as the code has it. For a dataset whose measurements are finite and of magnitude
  at most \<open>10^6\<close>, the ratio
  \<open>(\<Sigma>contribL - \<Sigma>contribR) / (|\<Sigma>contribL| + |\<Sigma>contribR| + 0.001)\<close> of Language Output and
  of Language Input lies strictly between \<open>-1\<close> and \<open>1\<close>. The returned value is that
  ratio rounded to three decimals and lies between \<open>-1\<close> and \<open>1\<close>, the ends included. For
  every dataset whatever, the returned value is \<open>NaN\<close> or lies between \<open>-1\<close> and \<open>1\<close>,
  the ends included.
\<close>

theorem language_lateralization_bounds:
  "(boundedData d \<longrightarrow>
      (\<exists>li. languageInputLI d = Fin li \<and> - 1 < li \<and> li < 1)
    \<and> (\<exists>v. ir_value (calculateLanguageInputLateralization d) = Fin v \<and> - 1 \<le> v \<and> v \<le> 1)
    \<and> (\<forall>L R. lhBA d = Some L \<and> rhBA d = Some R \<longrightarrow>
          (\<exists>li. languageOutputLI L R = Fin li \<and> - 1 < li \<and> li < 1))
    \<and> (\<exists>v. ir_value (calculateLanguageOutputLateralization d) = Fin v \<and> - 1 \<le> v \<and> v \<le> 1))
   \<and> ir_value (calculateLanguageInputLateralization d) = toFixed3 (languageInputLI d)
   \<and> (\<forall>L R. lhBA d = Some L \<and> rhBA d = Some R \<longrightarrow>
         ir_value (calculateLanguageOutputLateralization d) = toFixed3 (languageOutputLI L R))
   \<and> (ir_value (calculateLanguageInputLateralization d) = NaN
       \<or> (\<exists>v. ir_value (calculateLanguageInputLateralization d) = Fin v
              \<and> - 1 \<le> v \<and> v \<le> 1))
   \<and> (ir_value (calculateLanguageOutputLateralization d) = NaN
       \<or> (\<exists>v. ir_value (calculateLanguageOutputLateralization d) = Fin v
              \<and> - 1 \<le> v \<and> v \<le> 1))"
proof (intro conjI impI allI)
  assume "boundedData d"
  then have f: "finiteData d" by (rule boundedData_finite)
  show "\<exists>li. languageInputLI d = Fin li \<and> - 1 < li \<and> li < 1"
    using language_bounds_finite [OF f] by blast
  show "\<exists>v. ir_value (calculateLanguageInputLateralization d) = Fin v \<and> - 1 \<le> v \<and> v \<le> 1"
    using language_bounds_finite [OF f] by blast
  show "\<exists>v. ir_value (calculateLanguageOutputLateralization d) = Fin v \<and> - 1 \<le> v \<and> v \<le> 1"
    using language_bounds_finite [OF f] by blast
  fix L R
  assume "lhBA d = Some L \<and> rhBA d = Some R"
  then show "\<exists>li. languageOutputLI L R = Fin li \<and> - 1 < li \<and> li < 1"
    using language_bounds_finite [OF f] by blast
next
  show "ir_value (calculateLanguageInputLateralization d) = toFixed3 (languageInputLI d)"
    by (rule languageInput_value)
next
  fix L R
  assume "lhBA d = Some L \<and> rhBA d = Some R"
  then show "ir_value (calculateLanguageOutputLateralization d)
             = toFixed3 (languageOutputLI L R)"
    by (simp add: languageOutput_value)
next
  show "ir_value (calculateLanguageInputLateralization d) = NaN
        \<or> (\<exists>v. ir_value (calculateLanguageInputLateralization d) = Fin v
               \<and> - 1 \<le> v \<and> v \<le> 1)"
    by (rule languageInput_value_range)
next
  show "ir_value (calculateLanguageOutputLateralization d) = NaN
        \<or> (\<exists>v. ir_value (calculateLanguageOutputLateralization d) = Fin v
               \<and> - 1 \<le> v \<and> v \<le> 1)"
    by (rule languageOutput_value_range)
qed

lemma ref_superiortemporal:
  "REFERENCE_DATA_MALE ''superiortemporal''
   = Some (refEntry (ms 2.85 0.20) (ms 5800 700) (ms 19000 2500))"
  by (simp add: REFERENCE_DATA_MALE_def REFERENCE_DATA_MALE_entries_def)

lemma strongLeftInput_finite: "finiteData strongLeftInput"
  by (auto simp: finiteData_def strongLeftInput_def finiteRegions_def finiteRegion_def
        finiteOpt_def region3_def split: if_splits)

lemma strongLeftInput_sums:
  "\<exists>ts ds. languageInputSums strongLeftInput = (Fin 2.38, Fin 0, ts, ds)"
  by (simp add: languageInputSums_def DKT_LANGUAGE_INPUT_REGIONS_def languageInputStep_def
        lookupRegion_def strongLeftInput_def ref_superiortemporal inlineZ_def refEntry_def
        ms_def region3_def Let_def REFERENCE_DATA_MALE_def REFERENCE_DATA_MALE_entries_def)

text \<open>
  The claim C8 as stated fails for the returned value: with the left superior temporal
  thickness ten standard deviations above the mean and everything else at the mean, the
  ratio is \<open>2.38 / 2.381\<close> and the Language Input value rounds to exactly 1.
\<close>

theorem language_value_reaches_one_counterexample:
  "finiteData strongLeftInput
   \<and> ir_value (calculateLanguageInputLateralization strongLeftInput) = Fin 1"
proof -
  obtain ts ds where "languageInputSums strongLeftInput = (Fin 2.38, Fin 0, ts, ds)"
    using strongLeftInput_sums by blast
  then have "ir_value (calculateLanguageInputLateralization strongLeftInput) = Fin 1"
    by (simp add: calculateLanguageInputLateralization_def lateralizationRatio_def Let_def)
  then show ?thesis
    using strongLeftInput_finite by simp
qed

lemma strongLeftInput_bounded: "boundedData strongLeftInput"
  by (auto simp: boundedData_def strongLeftInput_def boundedRegions_def boundedRegion_def
        boundedOpt_def region3_def split: if_splits)

theorem language_lateralization_bounds_witness:
  "boundedData strongLeftInput
   \<and> (\<exists>li. languageInputLI strongLeftInput = Fin li \<and> - 1 < li \<and> li < 1)
   \<and> (\<exists>li. languageOutputLI [''BA44_exvivo'' \<mapsto> region3 3.16 1650 5200]
                [''BA44_exvivo'' \<mapsto> region3 2.80 1650 5200] = Fin li \<and> - 1 < li \<and> li < 1)
   \<and> (\<exists>v. ir_value (calculateLanguageOutputLateralization strongLeftInput) = Fin v
          \<and> - 1 \<le> v \<and> v \<le> 1)"
proof -
  have "lhBA strongLeftInput = Some [''BA44_exvivo'' \<mapsto> region3 3.16 1650 5200]
        \<and> rhBA strongLeftInput = Some [''BA44_exvivo'' \<mapsto> region3 2.80 1650 5200]"
    by (simp add: strongLeftInput_def)
  then show ?thesis
    using language_lateralization_bounds [of strongLeftInput] strongLeftInput_bounded
    by blast
qed

section \<open>Datasets without the regions of an index\<close>

lemma foldl_unchanged:
  assumes "\<And>x. x \<in> set xs \<Longrightarrow> f acc x = acc"
  shows "foldl f acc xs = acc"
  using assms by (induction xs) simp_all

lemma zToPercentile_zero: "zToPercentile (Fin 0) = Fin 50"
  by (simp add: zToPercentile_def Let_def)

lemma step_missing:
  "lookupRegion (lh d) (rh d) rg = None \<Longrightarrow> olfactoryStep d acc (rg, w) = acc"
  "lookupRegion (lh d) (rh d) rg = None \<Longrightarrow> languageDktStep d acc3 (rg, w) = acc3"
  "lookupRegion L R rg = None \<Longrightarrow> languageBaStep L R acc3 (rg, w) = acc3"
  "lookupRegion (lh d) (rh d) rg = None \<Longrightarrow> readingStep d acc (rg, w) = acc"
  "lookupRegion (lh d) (rh d) rg = None \<Longrightarrow> meanStep mw d acc (rg, w) = acc"
  "lookupRegion (lh d) (rh d) rg = None \<Longrightarrow> spatialStep d acc (rg, w) = acc"
  "lookupRegion (lh d) (rh d) rg = None \<Longrightarrow> parietalStep d acc3 (rg, w, w1, w2, w3) = acc3"
  "lookupRegion L R rg = None \<Longrightarrow> handednessStep L R acc3 (rg, w, w1, w2, w3) = acc3"
  "lookupRegion (lh d) (rh d) rg = None \<Longrightarrow> dominantEyeStep d acc (rg, w) = acc"
  "lookupRegion (lh d) (rh d) (if rg = ''piriform'' then ''entorhinal'' else rg) = None
     \<Longrightarrow> nostrilStep d acc (rg, w) = acc"
  "lookupRegion L R rg = None \<Longrightarrow> languageOutputStep L R acc4 (rg, w, w1, w2, w3) = acc4"
  "lookupRegion (lh d) (rh d) rg = None \<Longrightarrow> languageInputStep d acc4 (rg, w, w1, w2, w3) = acc4"
  by (simp_all add: olfactoryStep_def languageDktStep_def languageBaStep_def readingStep_def
        meanStep_def spatialStep_def parietalStep_def handednessStep_def dominantEyeStep_def
        nostrilStep_def languageOutputStep_def languageInputStep_def Let_def
        split: prod.splits)

lemma olfactory_missing:
  assumes "allRegionsMissing Olfactory d"
  shows "foldl (olfactoryStep d) (Fin 0, []) olfactoryRegionWeights = (Fin 0, [])"
  using assms
  by (intro foldl_unchanged)
     (auto simp: allRegionsMissing_def regionsMissing_def olfactoryRegionWeights_def
        step_missing)


lemma dkt_missing:
  assumes "regionsMissing (lh d) (rh d) (map fst dktRegionWeights)"
  shows "foldl (languageDktStep d) (Fin 0, Fin 0, []) dktRegionWeights = (Fin 0, Fin 0, [])"
  using assms
  by (intro foldl_unchanged) (auto simp: regionsMissing_def dktRegionWeights_def step_missing)

lemma ba_missing:
  assumes "regionsMissing L R (map fst baRegionWeights)"
  shows "foldl (languageBaStep L R) (Fin 0, Fin 0, []) baRegionWeights = (Fin 0, Fin 0, [])"
  using assms
  by (intro foldl_unchanged) (auto simp: regionsMissing_def baRegionWeights_def step_missing)

lemma reading_missing:
  assumes "allRegionsMissing Reading d"
  shows "foldl (readingStep d) (Fin 0, []) readingRegionWeights = (Fin 0, [])"
  using assms
  by (intro foldl_unchanged)
     (auto simp: allRegionsMissing_def regionsMissing_def readingRegionWeights_def step_missing)

lemma empathy_missing:
  assumes "allRegionsMissing Empathy d"
  shows "foldl (meanStep mw d) (Fin 0, []) empathyRegionWeights = (Fin 0, [])"
  using assms
  by (intro foldl_unchanged)
     (auto simp: allRegionsMissing_def regionsMissing_def empathyRegionWeights_def step_missing)

lemma executive_missing:
  assumes "allRegionsMissing Executive d"
  shows "foldl (meanStep mw d) (Fin 0, []) executiveRegionWeights = (Fin 0, [])"
  using assms
  by (intro foldl_unchanged)
     (auto simp: allRegionsMissing_def regionsMissing_def executiveRegionWeights_def
        step_missing)

lemma spatial_missing:
  assumes "allRegionsMissing Spatial d"
  shows "foldl (spatialStep d) (Fin 0, []) spatialRegionWeights = (Fin 0, [])"
  using assms
  by (intro foldl_unchanged)
     (auto simp: allRegionsMissing_def regionsMissing_def spatialRegionWeights_def step_missing)

lemma fluid_missing:
  assumes "allRegionsMissing FluidIntelligence d"
  shows "foldl (meanStep mw d) (Fin 0, []) fluidRegionWeights = (Fin 0, [])"
  using assms
  by (intro foldl_unchanged)
     (auto simp: allRegionsMissing_def regionsMissing_def fluidRegionWeights_def step_missing)

lemma parietal_missing:
  assumes "allRegionsMissing ParietalIQ d"
  shows "foldl (parietalStep d) (Fin 0, Fin 0, []) parietalRegions = (Fin 0, Fin 0, [])"
  using assms
  by (intro foldl_unchanged)
     (auto simp: allRegionsMissing_def regionsMissing_def parietalRegions_def step_missing)

lemma handedness_missing:
  assumes "regionsMissing L R (map fst baRegionConfigs)"
  shows "foldl (handednessStep L R) (Fin 0, Fin 0, []) baRegionConfigs = (Fin 0, Fin 0, [])"
  using assms
  by (intro foldl_unchanged) (auto simp: regionsMissing_def baRegionConfigs_def step_missing)

lemma dominantEye_missing:
  assumes "allRegionsMissing DominantEye d"
  shows "foldl (dominantEyeStep d) (Fin 0, []) dominantEyeRegionWeights = (Fin 0, [])"
  using assms
  by (intro foldl_unchanged)
     (auto simp: allRegionsMissing_def regionsMissing_def dominantEyeRegionWeights_def
        step_missing)

lemma nostril_missing:
  assumes "allRegionsMissing PreferredNostril d"
  shows "foldl (nostrilStep d) (Fin 0, []) nostrilRegions = (Fin 0, [])"
  using assms
  by (intro foldl_unchanged)
     (auto simp: allRegionsMissing_def regionsMissing_def nostrilRegions_def step_missing)

lemma languageOutput_missing:
  assumes "regionsMissing L R (map fst baBrocaRegions)"
  shows "languageOutputSums L R = (Fin 0, Fin 0, Fin 0, [])"
  unfolding languageOutputSums_def using assms
  by (intro foldl_unchanged) (auto simp: regionsMissing_def baBrocaRegions_def step_missing)

lemma languageInput_missing:
  assumes "regionsMissing (lh d) (rh d) (map fst DKT_LANGUAGE_INPUT_REGIONS)"
  shows "languageInputSums d = (Fin 0, Fin 0, Fin 0, [])"
  unfolding languageInputSums_def using assms
  by (intro foldl_unchanged)
     (auto simp: regionsMissing_def DKT_LANGUAGE_INPUT_REGIONS_def step_missing)

lemma lateralizationRatio_zero: "lateralizationRatio (Fin 0) (Fin 0) = Fin 0"
  by (simp add: lateralizationRatio_def)

lemma languageOutput_neutral:
  assumes "allRegionsMissing LanguageOutput d \<or> allRegionsMissing LanguageLateralization d"
  shows "ir_value (calculateLanguageOutputLateralization d) = Fin 0
       \<and> ir_percentile (calculateLanguageOutputLateralization d) = Fin 50
       \<and> ir_details (calculateLanguageOutputLateralization d) = []"
proof (cases "lhBA d")
  case None
  then show ?thesis by (simp add: calculateLanguageOutputLateralization_def)
next
  case (Some L)
  note L = this
  show ?thesis
  proof (cases "rhBA d")
    case None
    with L show ?thesis by (simp add: calculateLanguageOutputLateralization_def)
  next
    case (Some R)
    have "regionsMissing L R (map fst baBrocaRegions)"
      using assms L Some by (auto simp: allRegionsMissing_def)
    then have "languageOutputSums L R = (Fin 0, Fin 0, Fin 0, [])"
      by (rule languageOutput_missing)
    then show ?thesis
      using L Some
      by (simp add: calculateLanguageOutputLateralization_def lateralizationRatio_zero
            languageOutputPercentile_def Let_def)
  qed
qed

lemma languageInput_neutral:
  assumes "allRegionsMissing LanguageInput d \<or> allRegionsMissing LanguageLateralization d"
  shows "ir_value (calculateLanguageInputLateralization d) = Fin 0
       \<and> ir_percentile (calculateLanguageInputLateralization d) = Fin 50
       \<and> ir_details (calculateLanguageInputLateralization d) = []"
proof -
  have "regionsMissing (lh d) (rh d) (map fst DKT_LANGUAGE_INPUT_REGIONS)"
    using assms by (auto simp: allRegionsMissing_def)
  then have "languageInputSums d = (Fin 0, Fin 0, Fin 0, [])"
    by (rule languageInput_missing)
  then show ?thesis
    by (simp add: calculateLanguageInputLateralization_def lateralizationRatio_zero
          languageInputPercentile_def Let_def)
qed

lemma handedness_neutral:
  assumes "allRegionsMissing Handedness d"
  shows "ir_value (calculateHandednessIndex d) = Fin 0
       \<and> ir_percentile (calculateHandednessIndex d) = Fin 50
       \<and> ir_details (calculateHandednessIndex d) = []"
proof (cases "lhBA d")
  case None
  then show ?thesis by (simp add: calculateHandednessIndex_def)
next
  case (Some L)
  note L = this
  show ?thesis
  proof (cases "rhBA d")
    case None
    with L show ?thesis by (simp add: calculateHandednessIndex_def)
  next
    case (Some R)
    have "regionsMissing L R (map fst baRegionConfigs)"
      using assms L Some by (auto simp: allRegionsMissing_def)
    then have "foldl (handednessStep L R) (Fin 0, Fin 0, []) baRegionConfigs
               = (Fin 0, Fin 0, [])"
      by (rule handedness_missing)
    then show ?thesis
      using L Some by (simp add: calculateHandednessIndex_def zToPercentile_zero Let_def)
  qed
qed

lemma language_neutral:
  assumes "allRegionsMissing LanguageComposite d"
  shows "ir_value (calculateLanguageIndex d) = Fin 0
       \<and> ir_percentile (calculateLanguageIndex d) = Fin 50
       \<and> ir_details (calculateLanguageIndex d) = []"
proof -
  have dkt: "foldl (languageDktStep d) (Fin 0, Fin 0, []) dktRegionWeights = (Fin 0, Fin 0, [])"
    using assms by (intro dkt_missing) (simp add: allRegionsMissing_def)
  have "(case (lhBA d, rhBA d) of
           (Some L, Some R) \<Rightarrow> foldl (languageBaStep L R) (Fin 0, Fin 0, []) baRegionWeights
         | _ \<Rightarrow> (Fin 0, Fin 0, [])) = (Fin 0, Fin 0, [])"
    using assms by (auto simp: allRegionsMissing_def ba_missing split: option.splits)
  then show ?thesis
    by (simp add: calculateLanguageIndex_def dkt zToPercentile_zero Let_def)
qed

lemma lateralization_neutral:
  assumes "allRegionsMissing LanguageLateralization d"
  shows "ir_value (calculateLanguageLateralizationIndex d) = Fin 0
       \<and> ir_percentile (calculateLanguageLateralizationIndex d) = Fin 50
       \<and> ir_details (calculateLanguageLateralizationIndex d) = []"
  using languageOutput_neutral [of d] languageInput_neutral [of d] assms
  by (simp add: calculateLanguageLateralizationIndex_def tagDetails_def Let_def)

text \<open>
  C4, as the code has it. When all regions of a calculator are missing, so that no region
  contributes, the calculator returns percentile 50 and an empty detail list and never
  divides by the zero total weight. The value is 0 for every calculator but Parietal IQ,
  whose value is the IQ-scaled score 100, with \<open>zScore\<close> 0.
\<close>

theorem missing_regions_neutral:
  assumes "allRegionsMissing c d"
  shows "ir_value (calculate c d) = (if c = ParietalIQ then Fin 100 else Fin 0)
       \<and> (c = ParietalIQ \<longrightarrow> ir_zScore (calculate c d) = Some (Fin 0))
       \<and> ir_percentile (calculate c d) = Fin 50
       \<and> ir_details (calculate c d) = []"
proof (cases c)
  case Olfactory
  with assms show ?thesis
    by (simp add: calculateOlfactoryIndex_def olfactory_missing zToPercentile_zero)
next
  case LanguageComposite
  with assms show ?thesis by (simp add: language_neutral)
next
  case Reading
  with assms show ?thesis
    by (simp add: calculateReadingIndex_def reading_missing zToPercentile_zero)
next
  case Empathy
  with assms show ?thesis
    by (simp add: calculateEmpathyIndex_def empathy_missing zToPercentile_zero)
next
  case Executive
  with assms show ?thesis
    by (simp add: calculateExecutiveIndex_def executive_missing zToPercentile_zero)
next
  case Spatial
  with assms show ?thesis
    by (simp add: calculateSpatialIndex_def spatial_missing zToPercentile_zero)
next
  case FluidIntelligence
  with assms show ?thesis
    by (simp add: calculateFluidIntelligenceIndex_def fluid_missing zToPercentile_zero)
next
  case ParietalIQ
  with assms show ?thesis
    by (simp add: calculateParietalIQIndex_def parietal_missing zToPercentile_zero Let_def)
next
  case Handedness
  with assms show ?thesis by (simp add: handedness_neutral)
next
  case DominantEye
  with assms show ?thesis
    by (simp add: calculateDominantEyeIndex_def dominantEye_missing zToPercentile_zero)
next
  case PreferredNostril
  with assms show ?thesis
    by (simp add: calculatePreferredNostrilIndex_def nostril_missing Let_def)
next
  case LanguageOutput
  with assms show ?thesis by (simp add: languageOutput_neutral)
next
  case LanguageInput
  with assms show ?thesis by (simp add: languageInput_neutral)
next
  case LanguageLateralization
  with assms show ?thesis by (simp add: lateralization_neutral)
qed

theorem missing_regions_neutral_witness:
  "allRegionsMissing Olfactory emptyData
   \<and> ir_value (calculateOlfactoryIndex emptyData) = Fin 0
   \<and> ir_percentile (calculateOlfactoryIndex emptyData) = Fin 50
   \<and> ir_details (calculateOlfactoryIndex emptyData) = []
   \<and> allRegionsMissing ParietalIQ emptyData
   \<and> ir_value (calculateParietalIQIndex emptyData) = Fin 100
   \<and> ir_zScore (calculateParietalIQIndex emptyData) = Some (Fin 0)"
proof -
  have a: "allRegionsMissing Olfactory emptyData"
    by (simp add: allRegionsMissing_def regionsMissing_def emptyData_def lookupRegion_def
          olfactoryRegionWeights_def split: option.splits)
  have b: "allRegionsMissing ParietalIQ emptyData"
    by (simp add: allRegionsMissing_def regionsMissing_def emptyData_def lookupRegion_def
          parietalRegions_def split: option.splits)
  show ?thesis
    using a b missing_regions_neutral [OF a] missing_regions_neutral [OF b] by simp
qed

text \<open>
  The claim C4 as stated fails for the Parietal IQ calculator: on the dataset without any
  region its value is 100, not 0.
\<close>

theorem missing_regions_parietal_counterexample:
  "allRegionsMissing ParietalIQ emptyData
   \<and> ir_value (calculateParietalIQIndex emptyData) = Fin 100"
proof -
  have "foldl (parietalStep emptyData) (Fin 0, Fin 0, []) parietalRegions = (Fin 0, Fin 0, [])"
    by (simp add: parietalRegions_def parietalStep_def lookupRegion_def emptyData_def
          split: option.splits)
  then have "ir_value (calculateParietalIQIndex emptyData) = Fin 100"
    by (simp add: calculateParietalIQIndex_def Let_def)
  moreover have "allRegionsMissing ParietalIQ emptyData"
    by (simp add: allRegionsMissing_def regionsMissing_def emptyData_def lookupRegion_def
          parietalRegions_def split: option.splits)
  ultimately show ?thesis by simp
qed

section \<open>Regions with a NaN z-score\<close>

lemma toFixed3_NaN [simp]: "toFixed3 x = NaN \<longleftrightarrow> x = NaN"
  by (cases x) simp_all

lemma zToPercentile_NaN: "zToPercentile NaN = NaN"
  by (simp add: zToPercentile_def Let_def)

lemma nanDetail_mkDetail [simp]:
  "nanDetail (mkDetail r w zl zr cl cr wu) \<longleftrightarrow> zl = NaN \<or> zr = NaN"
  by (simp add: nanDetail_def mkDetail_def)

lemma nanInv_steps:
  "nanInv acc \<Longrightarrow> nanInv (olfactoryStep d acc rw)"
  "nanInv acc \<Longrightarrow> nanInv (readingStep d acc rw)"
  "nanInv acc \<Longrightarrow> nanInv (meanStep mw d acc rw)"
  "nanInv acc \<Longrightarrow> nanInv (spatialStep d acc rw)"
  "nanInv acc \<Longrightarrow> nanInv (dominantEyeStep d acc rw)"
  "nanInv acc \<Longrightarrow> nanInv (nostrilStep d acc rw)"
  by (auto simp: nanInv_def olfactoryStep_def readingStep_def meanStep_def spatialStep_def
        dominantEyeStep_def nostrilStep_def Let_def split: prod.splits option.splits)

lemma nanInvLR_steps:
  "nanInvLR acc4 \<Longrightarrow> nanInvLR (languageOutputStep L R acc4 cfg)"
  "nanInvLR acc4 \<Longrightarrow> nanInvLR (languageInputStep d acc4 cfg)"
  by (auto simp: nanInvLR_def languageOutputStep_def languageInputStep_def Let_def
        split: prod.splits option.splits)

lemma nanInvW_steps:
  assumes "nanInvW acc" and "positiveFinite w"
  shows "nanInvW (parietalStep d acc (nm, w, w1, w2, w3))"
    and "nanInvW (handednessStep L R acc (nm, w, w1, w2, w3))"
    and "nanInvW (languageDktStep d acc (nm, w))"
    and "nanInvW (languageBaStep L R acc (nm, w))"
  using assms
  by (cases w; auto simp: nanInvW_def parietalStep_def handednessStep_def languageDktStep_def
        languageBaStep_def Let_def split: prod.splits option.splits number.splits)+


lemma nanInv_fold:
  assumes "\<And>a x. nanInv a \<Longrightarrow> nanInv (f a x)"
  shows "nanInv (foldl f (Fin 0, []) xs)"
proof (rule foldl_invariant)
  show "nanInv (Fin 0, [])" by (simp add: nanInv_def)
qed (rule assms)

lemma nanInv_result:
  assumes "nanInv (tot, ds)" and "list_ex nanDetail ds"
  shows "tot = NaN"
  using assms by (simp add: nanInv_def)

lemma nanInvW_fold:
  assumes "nanInvW acc"
    and "\<And>a x. x \<in> set xs \<Longrightarrow> nanInvW a \<Longrightarrow> nanInvW (f a x)"
  shows "nanInvW (foldl f acc xs)"
  using assms by (rule foldl_invariant)

lemma nanInvW_init: "nanInvW (Fin 0, Fin 0, [])"
  by (simp add: nanInvW_def)

lemma nanInvW_result:
  assumes "nanInvW (tot, tw, ds)" and "list_ex nanDetail ds"
  shows "tot = NaN \<and> Fin 0 < tw"
  using assms by (cases tw; cases ds) (auto simp: nanInvW_def)

lemma olfactory_nan:
  assumes "hasNaNRegion (calculateOlfactoryIndex d)"
  shows "ir_value (calculateOlfactoryIndex d) = NaN
       \<and> ir_percentile (calculateOlfactoryIndex d) = NaN"
proof -
  obtain tot ds where f: "foldl (olfactoryStep d) (Fin 0, []) olfactoryRegionWeights = (tot, ds)"
    by (cases "foldl (olfactoryStep d) (Fin 0, []) olfactoryRegionWeights")
  have "nanInv (foldl (olfactoryStep d) (Fin 0, []) olfactoryRegionWeights)"
    by (rule nanInv_fold) (rule nanInv_steps)
  moreover have "list_ex nanDetail ds"
    using assms by (simp add: hasNaNRegion_def calculateOlfactoryIndex_def f)
  ultimately have "tot = NaN"
    unfolding f by (rule nanInv_result)
  then show ?thesis
    by (simp add: calculateOlfactoryIndex_def f zToPercentile_NaN)
qed

lemma reading_nan:
  assumes "hasNaNRegion (calculateReadingIndex d)"
  shows "ir_value (calculateReadingIndex d) = NaN
       \<and> ir_percentile (calculateReadingIndex d) = NaN"
proof -
  obtain tot ds where f: "foldl (readingStep d) (Fin 0, []) readingRegionWeights = (tot, ds)"
    by (cases "foldl (readingStep d) (Fin 0, []) readingRegionWeights")
  have "nanInv (foldl (readingStep d) (Fin 0, []) readingRegionWeights)"
    by (rule nanInv_fold) (rule nanInv_steps)
  moreover have "list_ex nanDetail ds"
    using assms by (simp add: hasNaNRegion_def calculateReadingIndex_def f)
  ultimately have "tot = NaN"
    unfolding f by (rule nanInv_result)
  then show ?thesis
    by (simp add: calculateReadingIndex_def f zToPercentile_NaN)
qed

lemma meanStep_nan:
  assumes "list_ex nanDetail (snd (foldl (meanStep mw d) (Fin 0, []) rws))"
  shows "fst (foldl (meanStep mw d) (Fin 0, []) rws) = NaN"
proof -
  obtain tot ds where f: "foldl (meanStep mw d) (Fin 0, []) rws = (tot, ds)"
    by (cases "foldl (meanStep mw d) (Fin 0, []) rws")
  have "nanInv (foldl (meanStep mw d) (Fin 0, []) rws)"
    by (rule nanInv_fold) (rule nanInv_steps)
  then show ?thesis
    using assms unfolding f by (simp add: nanInv_def)
qed

lemma empathy_nan:
  assumes "hasNaNRegion (calculateEmpathyIndex d)"
  shows "ir_value (calculateEmpathyIndex d) = NaN
       \<and> ir_percentile (calculateEmpathyIndex d) = NaN"
  using assms meanStep_nan [of "(Fin 80, Fin 10, Fin 10)" d empathyRegionWeights]
  by (auto simp: hasNaNRegion_def calculateEmpathyIndex_def zToPercentile_NaN
        split: prod.splits)

lemma executive_nan:
  assumes "hasNaNRegion (calculateExecutiveIndex d)"
  shows "ir_value (calculateExecutiveIndex d) = NaN
       \<and> ir_percentile (calculateExecutiveIndex d) = NaN"
  using assms meanStep_nan [of "(Fin 35, Fin 25, Fin 40)" d executiveRegionWeights]
  by (auto simp: hasNaNRegion_def calculateExecutiveIndex_def zToPercentile_NaN
        split: prod.splits)

lemma fluid_nan:
  assumes "hasNaNRegion (calculateFluidIntelligenceIndex d)"
  shows "ir_value (calculateFluidIntelligenceIndex d) = NaN
       \<and> ir_percentile (calculateFluidIntelligenceIndex d) = NaN"
  using assms meanStep_nan [of "(Fin 30, Fin 30, Fin 40)" d fluidRegionWeights]
  by (auto simp: hasNaNRegion_def calculateFluidIntelligenceIndex_def zToPercentile_NaN
        split: prod.splits)

lemma spatial_nan:
  assumes "hasNaNRegion (calculateSpatialIndex d)"
  shows "ir_value (calculateSpatialIndex d) = NaN
       \<and> ir_percentile (calculateSpatialIndex d) = NaN"
proof -
  obtain tot ds where f: "foldl (spatialStep d) (Fin 0, []) spatialRegionWeights = (tot, ds)"
    by (cases "foldl (spatialStep d) (Fin 0, []) spatialRegionWeights")
  have "nanInv (foldl (spatialStep d) (Fin 0, []) spatialRegionWeights)"
    by (rule nanInv_fold) (rule nanInv_steps)
  moreover have "list_ex nanDetail ds"
    using assms by (simp add: hasNaNRegion_def calculateSpatialIndex_def f)
  ultimately have "tot = NaN"
    unfolding f by (rule nanInv_result)
  then show ?thesis
    by (simp add: calculateSpatialIndex_def f zToPercentile_NaN)
qed

lemma dominantEye_nan:
  assumes "hasNaNRegion (calculateDominantEyeIndex d)"
  shows "ir_value (calculateDominantEyeIndex d) = NaN
       \<and> ir_percentile (calculateDominantEyeIndex d) = NaN"
proof -
  obtain tot ds where
    f: "foldl (dominantEyeStep d) (Fin 0, []) dominantEyeRegionWeights = (tot, ds)"
    by (cases "foldl (dominantEyeStep d) (Fin 0, []) dominantEyeRegionWeights")
  have "nanInv (foldl (dominantEyeStep d) (Fin 0, []) dominantEyeRegionWeights)"
    by (rule nanInv_fold) (rule nanInv_steps)
  moreover have "list_ex nanDetail ds"
    using assms by (simp add: hasNaNRegion_def calculateDominantEyeIndex_def f)
  ultimately have "tot = NaN"
    unfolding f by (rule nanInv_result)
  then show ?thesis
    by (simp add: calculateDominantEyeIndex_def f zToPercentile_NaN)
qed

lemma nostril_nan:
  assumes "hasNaNRegion (calculatePreferredNostrilIndex d)"
  shows "ir_value (calculatePreferredNostrilIndex d) = NaN
       \<and> ir_percentile (calculatePreferredNostrilIndex d) = NaN"
proof -
  obtain tot ds where f: "foldl (nostrilStep d) (Fin 0, []) nostrilRegions = (tot, ds)"
    by (cases "foldl (nostrilStep d) (Fin 0, []) nostrilRegions")
  have "nanInv (foldl (nostrilStep d) (Fin 0, []) nostrilRegions)"
    by (rule nanInv_fold) (rule nanInv_steps)
  moreover have "list_ex nanDetail ds"
    using assms by (simp add: hasNaNRegion_def calculatePreferredNostrilIndex_def f Let_def)
  ultimately have "tot = NaN"
    unfolding f by (rule nanInv_result)
  then show ?thesis
    by (simp add: calculatePreferredNostrilIndex_def f Let_def)
qed

lemma parietal_nan:
  assumes "hasNaNRegion (calculateParietalIQIndex d)"
  shows "ir_value (calculateParietalIQIndex d) = NaN
       \<and> ir_percentile (calculateParietalIQIndex d) = NaN"
proof -
  obtain tot tw ds where
    f: "foldl (parietalStep d) (Fin 0, Fin 0, []) parietalRegions = (tot, tw, ds)"
    by (cases "foldl (parietalStep d) (Fin 0, Fin 0, []) parietalRegions")
  have "nanInvW (foldl (parietalStep d) (Fin 0, Fin 0, []) parietalRegions)"
    by (rule nanInvW_fold [OF nanInvW_init])
       (auto simp: parietalRegions_def intro!: nanInvW_steps)
  moreover have "list_ex nanDetail ds"
    using assms by (simp add: hasNaNRegion_def calculateParietalIQIndex_def f Let_def)
  ultimately have "tot = NaN \<and> Fin 0 < tw"
    unfolding f by (rule nanInvW_result)
  then show ?thesis
    by (simp add: calculateParietalIQIndex_def f zToPercentile_NaN Let_def)
qed

lemma handedness_nan:
  assumes "hasNaNRegion (calculateHandednessIndex d)"
  shows "ir_value (calculateHandednessIndex d) = NaN
       \<and> ir_percentile (calculateHandednessIndex d) = NaN"
proof -
  obtain L R where L: "lhBA d = Some L" and R: "rhBA d = Some R"
    using assms
    by (auto simp: hasNaNRegion_def calculateHandednessIndex_def split: option.splits)
  obtain tot tw ds where
    f: "foldl (handednessStep L R) (Fin 0, Fin 0, []) baRegionConfigs = (tot, tw, ds)"
    by (cases "foldl (handednessStep L R) (Fin 0, Fin 0, []) baRegionConfigs")
  have "nanInvW (foldl (handednessStep L R) (Fin 0, Fin 0, []) baRegionConfigs)"
    by (rule nanInvW_fold [OF nanInvW_init])
       (auto simp: baRegionConfigs_def intro!: nanInvW_steps)
  moreover have "list_ex nanDetail ds"
    using assms by (simp add: hasNaNRegion_def calculateHandednessIndex_def L R f Let_def)
  ultimately have "tot = NaN \<and> Fin 0 < tw"
    unfolding f by (rule nanInvW_result)
  then show ?thesis
    by (simp add: calculateHandednessIndex_def L R f zToPercentile_NaN Let_def)
qed

lemma language_nan:
  assumes "hasNaNRegion (calculateLanguageIndex d)"
  shows "ir_value (calculateLanguageIndex d) = NaN
       \<and> ir_percentile (calculateLanguageIndex d) = NaN"
proof -
  define acc1 where "acc1 = foldl (languageDktStep d) (Fin 0, Fin 0, []) dktRegionWeights"
  define acc2 where
    "acc2 = (case (lhBA d, rhBA d) of
               (Some L, Some R) \<Rightarrow> foldl (languageBaStep L R) acc1 baRegionWeights
             | _ \<Rightarrow> acc1)"
  have i1: "nanInvW acc1"
    unfolding acc1_def
    by (rule nanInvW_fold [OF nanInvW_init])
       (auto simp: dktRegionWeights_def intro!: nanInvW_steps)
  have ba: "nanInvW (foldl (languageBaStep L R) acc1 baRegionWeights)" for L R
    by (rule nanInvW_fold [OF i1]) (auto simp: baRegionWeights_def intro!: nanInvW_steps)
  have i2: "nanInvW acc2"
    unfolding acc2_def using i1 ba by (auto split: option.splits)
  obtain tot tw ds where f: "acc2 = (tot, tw, ds)"
    by (cases acc2)
  have eq: "calculateLanguageIndex d =
      \<lparr>ir_name = ''Language Composite Index'',
       ir_value = Math_round ((if Fin 0 < tw \<and> tw < Fin 1 then tot / tw else tot) * Fin 100)
                    / Fin 100,
       ir_percentile = zToPercentile (if Fin 0 < tw \<and> tw < Fin 1 then tot / tw else tot),
       ir_zScore = None,
       ir_details = ds\<rparr>"
    unfolding calculateLanguageIndex_def Let_def acc1_def [symmetric] acc2_def [symmetric] f
    by simp
  have "list_ex nanDetail ds"
    using assms by (simp add: hasNaNRegion_def eq)
  with i2 have "tot = NaN"
    unfolding f using nanInvW_result by blast
  then show ?thesis
    by (simp add: eq zToPercentile_NaN)
qed

lemma lateralizationRatio_NaN:
  "l = NaN \<or> r = NaN \<Longrightarrow> lateralizationRatio l r = NaN"
  by (auto simp: lateralizationRatio_def)

lemma languagePercentile_NaN:
  "languageOutputPercentile NaN = NaN" "languageInputPercentile NaN = NaN"
  by (simp_all add: languageOutputPercentile_def languageInputPercentile_def Let_def)

lemma languageOutput_nan:
  assumes "hasNaNRegion (calculateLanguageOutputLateralization d)"
  shows "ir_value (calculateLanguageOutputLateralization d) = NaN
       \<and> ir_percentile (calculateLanguageOutputLateralization d) = NaN"
proof -
  obtain L R where L: "lhBA d = Some L" and R: "rhBA d = Some R"
    using assms
    by (auto simp: hasNaNRegion_def calculateLanguageOutputLateralization_def
          split: option.splits)
  obtain sl sr tw ds where f: "languageOutputSums L R = (sl, sr, tw, ds)"
    by (cases "languageOutputSums L R")
  have "nanInvLR (languageOutputSums L R)"
    unfolding languageOutputSums_def
    by (rule foldl_invariant) (simp_all add: nanInvLR_def nanInvLR_steps [unfolded nanInvLR_def])
  moreover have "list_ex nanDetail ds"
    using assms
    by (simp add: hasNaNRegion_def calculateLanguageOutputLateralization_def L R f Let_def)
  ultimately have "lateralizationRatio sl sr = NaN"
    unfolding f by (intro lateralizationRatio_NaN) (simp add: nanInvLR_def)
  then show ?thesis
    by (simp add: calculateLanguageOutputLateralization_def L R f languagePercentile_NaN
          Let_def)
qed

lemma languageInput_nan:
  assumes "hasNaNRegion (calculateLanguageInputLateralization d)"
  shows "ir_value (calculateLanguageInputLateralization d) = NaN
       \<and> ir_percentile (calculateLanguageInputLateralization d) = NaN"
proof -
  obtain sl sr ts ds where f: "languageInputSums d = (sl, sr, ts, ds)"
    by (cases "languageInputSums d")
  have "nanInvLR (languageInputSums d)"
    unfolding languageInputSums_def
    by (rule foldl_invariant) (simp_all add: nanInvLR_def nanInvLR_steps [unfolded nanInvLR_def])
  moreover have "list_ex nanDetail ds"
    using assms
    by (simp add: hasNaNRegion_def calculateLanguageInputLateralization_def f Let_def)
  ultimately have "lateralizationRatio sl sr = NaN"
    unfolding f by (intro lateralizationRatio_NaN) (simp add: nanInvLR_def)
  then show ?thesis
    by (simp add: calculateLanguageInputLateralization_def f languagePercentile_NaN Let_def)
qed

lemma list_ex_tagDetails [simp]: "list_ex nanDetail (tagDetails tag ds) = list_ex nanDetail ds"
  by (induction ds) (simp_all add: tagDetails_def nanDetail_def)

lemma lateralization_nan:
  assumes "hasNaNRegion (calculateLanguageLateralizationIndex d)"
  shows "ir_value (calculateLanguageLateralizationIndex d) = NaN
       \<and> ir_percentile (calculateLanguageLateralizationIndex d) = NaN"
proof -
  have "hasNaNRegion (calculateLanguageOutputLateralization d)
        \<or> hasNaNRegion (calculateLanguageInputLateralization d)"
    using assms
    by (simp add: hasNaNRegion_def calculateLanguageLateralizationIndex_def Let_def)
  then have "ir_value (calculateLanguageOutputLateralization d) = NaN
             \<or> ir_value (calculateLanguageInputLateralization d) = NaN"
    using languageOutput_nan languageInput_nan by blast
  then have "ir_value (calculateLanguageOutputLateralization d) * Fin 0.6
             + ir_value (calculateLanguageInputLateralization d) * Fin 0.4 = NaN"
    by auto
  then show ?thesis
    by (simp add: calculateLanguageLateralizationIndex_def Let_def)
qed

lemma headerLine_facts:
  "includesStr headerLine ''ColHeaders''" "\<not> includesStr headerLine ''MeanCurv''"
  "\<not> includesStr headerLine ''CurvInd''" "CHR 0x0A \<notin> set headerLine"
  unfolding headerLine_def by code_simp+

lemma nanRow_facts:
  "\<not> includesStr nanRow ''ColHeaders''" "trim nanRow \<noteq> []" "\<not> startsWith nanRow ''#''"
  "CHR 0x0A \<notin> set nanRow"
  "splitWS (trim nanRow) = [''entorhinal'', ''120'', ''480'', ''1600'', ''n/a'', ''0.30'']"
  unfolding nanRow_def by code_simp+

lemma finiteRow_facts:
  "\<not> includesStr finiteRow ''ColHeaders''" "trim finiteRow \<noteq> []"
  "\<not> startsWith finiteRow ''#''" "CHR 0x0A \<notin> set finiteRow"
  "splitWS (trim finiteRow) = [''parahippocampal'', ''100'', ''700'', ''2200'', ''2.97'', ''0.25'']"
  unfolding finiteRow_def by code_simp+

lemma nanReport_floats:
  "parseFloat ''n/a'' = NaN" "parseFloat ''700'' = Fin 700" "parseFloat ''2200'' = Fin 2200"
  "parseFloat ''2.97'' = Fin 2.97"
  by (simp_all add: parseFloat_def parseSign_def startsWith_def isDigit_def isWhiteSpace_def
        digitsValue_def scale10_def parseExponent_def)

lemma nanReport_lines: "splitNL nanReport = [headerLine, nanRow, finiteRow]"
  unfolding nanReport_def
  by (simp add: splitNL_append splitNL_single headerLine_facts nanRow_facts finiteRow_facts)

lemma nanReport_parsed:
  "parseDKTStats nanReport
   = [''entorhinal'' \<mapsto>
        \<lparr>thickness = NaN, surfArea = Fin 480, volume = Fin 1600, meanCurv = None,
         gausCurv = None, foldInd = None, curvInd = None\<rparr>,
      ''parahippocampal'' \<mapsto> region3 2.97 700 2200]"
  by (simp add: parseDKTStats_def nanReport_lines headerLine_facts nanRow_facts
        finiteRow_facts parseRow_def storeRegion_def nanReport_floats entorhinalRow_floats
        region3_def Let_def)

lemma ref_olfactory:
  "REFERENCE_DATA_MALE ''entorhinal''
   = Some (refEntry (ms 3.20 0.35) (ms 480 100) (ms 1600 350))"
  "REFERENCE_DATA_MALE ''parahippocampal''
   = Some (refEntry (ms 2.75 0.22) (ms 700 120) (ms 2200 380))"
  "REFERENCE_DATA_MALE ''medialorbitofrontal''
   = Some (refEntry (ms 2.45 0.20) (ms 1800 300) (ms 5000 750))"
  by (simp_all add: REFERENCE_DATA_MALE_def REFERENCE_DATA_MALE_entries_def)

lemma nanData_olfactory:
  "\<exists>ds. foldl (olfactoryStep nanData) (Fin 0, []) olfactoryRegionWeights = (NaN, ds)
        \<and> list_ex nanDetail ds"
  by (simp add: olfactoryRegionWeights_def olfactoryStep_def nanData_def nanReport_parsed
        lookupRegion_def ref_olfactory compositeZScore_def zScore_def refEntry_def ms_def
        region3_def Let_def)

lemma hasNaNRegion_poisons:
  assumes "hasNaNRegion (calculate c d)"
  shows "ir_value (calculate c d) = NaN \<and> ir_percentile (calculate c d) = NaN"
  using assms
  by (cases c)
     (simp_all add: olfactory_nan language_nan reading_nan empathy_nan executive_nan
        spatial_nan fluid_nan parietal_nan handedness_nan dominantEye_nan nostril_nan
        languageOutput_nan languageInput_nan lateralization_nan)

lemma foldl_reaches:
  assumes "x \<in> set xs" and "\<And>a. P (f a x)" and "\<And>a y. P a \<Longrightarrow> P (f a y)"
  shows "P (foldl f a xs)"
  using assms(1)
proof (induction xs arbitrary: a)
  case Nil
  then show ?case by simp
next
  case (Cons y ys)
  show ?case
  proof (cases "x \<in> set ys")
    case True
    then show ?thesis using Cons.IH by simp
  next
    case False
    with Cons.prems have "y = x" by simp
    then have "P (f a y)" using assms(2) by simp
    then have "P (foldl f (f a y) ys)"
      by (rule foldl_invariant) (rule assms(3))
    then show ?thesis by simp
  qed
qed

lemma nanStandard_D:
  assumes "nanStandard mw L R nm"
  obtains ref l r where "lookupRegion L R nm = Some (ref, l, r)"
    and "compositeZScore l ref mw = NaN \<or> compositeZScore r ref mw = NaN"
  using assms by (auto simp: nanStandard_def split: option.splits)

lemma nanInline_D:
  assumes "nanInline L R (nm, w, w1, w2, w3)"
  obtains ref l r where "lookupRegion L R nm = Some (ref, l, r)"
    and "inlineZ w1 w2 w3 l ref = NaN \<or> inlineZ w1 w2 w3 r ref = NaN"
  using assms by (auto simp: nanInline_def split: option.splits)

lemma nanSubregion_D:
  assumes "nanSubregion L R (nm, w, w1, w2, w3)"
  obtains ref l r zl zr where "lookupRegion L R nm = Some (ref, l, r)"
    and "baZScores nm w1 w2 w3 ref l r = (zl, zr)" and "zl = NaN \<or> zr = NaN"
  using assms by (auto simp: nanSubregion_def split: option.splits prod.splits)

lemma details_kept2:
  "list_ex nanDetail (snd acc) \<Longrightarrow> list_ex nanDetail (snd (olfactoryStep d acc rw))"
  "list_ex nanDetail (snd acc) \<Longrightarrow> list_ex nanDetail (snd (readingStep d acc rw))"
  "list_ex nanDetail (snd acc) \<Longrightarrow> list_ex nanDetail (snd (meanStep mw d acc rw))"
  "list_ex nanDetail (snd acc) \<Longrightarrow> list_ex nanDetail (snd (spatialStep d acc rw))"
  "list_ex nanDetail (snd acc) \<Longrightarrow> list_ex nanDetail (snd (dominantEyeStep d acc rw))"
  "list_ex nanDetail (snd acc) \<Longrightarrow> list_ex nanDetail (snd (nostrilStep d acc rw))"
  by (auto simp: olfactoryStep_def readingStep_def meanStep_def spatialStep_def
        dominantEyeStep_def nostrilStep_def Let_def split: prod.splits option.splits)

lemma details_kept3:
  "list_ex nanDetail (snd (snd acc3)) \<Longrightarrow>
     list_ex nanDetail (snd (snd (languageDktStep d acc3 rw)))"
  "list_ex nanDetail (snd (snd acc3)) \<Longrightarrow>
     list_ex nanDetail (snd (snd (languageBaStep L R acc3 rw)))"
  "list_ex nanDetail (snd (snd acc3)) \<Longrightarrow>
     list_ex nanDetail (snd (snd (parietalStep d acc3 cfg)))"
  "list_ex nanDetail (snd (snd acc3)) \<Longrightarrow>
     list_ex nanDetail (snd (snd (handednessStep L R acc3 cfg)))"
  by (auto simp: languageDktStep_def languageBaStep_def parietalStep_def handednessStep_def
        Let_def split: prod.splits option.splits)

lemma details_kept4:
  "list_ex nanDetail (snd (snd (snd acc4))) \<Longrightarrow>
     list_ex nanDetail (snd (snd (snd (languageOutputStep L R acc4 cfg))))"
  "list_ex nanDetail (snd (snd (snd acc4))) \<Longrightarrow>
     list_ex nanDetail (snd (snd (snd (languageInputStep d acc4 cfg))))"
  by (auto simp: languageOutputStep_def languageInputStep_def Let_def
        split: prod.splits option.splits)

lemma fold_hits:
  assumes "list_ex Q (map g xs)"
    and "\<And>a x. Q (g x) \<Longrightarrow> P (f a x)"
    and "\<And>a y. P a \<Longrightarrow> P (f a y)"
  shows "P (foldl f a xs)"
proof -
  obtain x where "x \<in> set xs" and "Q (g x)"
    using assms(1) by (auto simp: list_ex_iff)
  then show ?thesis
    using assms(2,3) by (intro foldl_reaches [of x xs P f]) auto
qed

lemma details_of:
  "ir_details (calculateOlfactoryIndex d)
     = snd (foldl (olfactoryStep d) (Fin 0, []) olfactoryRegionWeights)"
  "ir_details (calculateReadingIndex d)
     = snd (foldl (readingStep d) (Fin 0, []) readingRegionWeights)"
  "ir_details (calculateEmpathyIndex d)
     = snd (foldl (meanStep (Fin 80, Fin 10, Fin 10) d) (Fin 0, []) empathyRegionWeights)"
  "ir_details (calculateExecutiveIndex d)
     = snd (foldl (meanStep (Fin 35, Fin 25, Fin 40) d) (Fin 0, []) executiveRegionWeights)"
  "ir_details (calculateSpatialIndex d)
     = snd (foldl (spatialStep d) (Fin 0, []) spatialRegionWeights)"
  "ir_details (calculateFluidIntelligenceIndex d)
     = snd (foldl (meanStep (Fin 30, Fin 30, Fin 40) d) (Fin 0, []) fluidRegionWeights)"
  "ir_details (calculateDominantEyeIndex d)
     = snd (foldl (dominantEyeStep d) (Fin 0, []) dominantEyeRegionWeights)"
  "ir_details (calculatePreferredNostrilIndex d)
     = snd (foldl (nostrilStep d) (Fin 0, []) nostrilRegions)"
  "ir_details (calculateParietalIQIndex d)
     = snd (snd (foldl (parietalStep d) (Fin 0, Fin 0, []) parietalRegions))"
  "ir_details (calculateLanguageInputLateralization d) = snd (snd (snd (languageInputSums d)))"
  by (simp_all add: calculateOlfactoryIndex_def calculateReadingIndex_def
        calculateEmpathyIndex_def calculateExecutiveIndex_def calculateSpatialIndex_def
        calculateFluidIntelligenceIndex_def calculateDominantEyeIndex_def
        calculatePreferredNostrilIndex_def calculateParietalIQIndex_def
        calculateLanguageInputLateralization_def Let_def split: prod.splits)

lemma details_of_BA:
  assumes "lhBA d = Some L" and "rhBA d = Some R"
  shows "ir_details (calculateHandednessIndex d)
           = snd (snd (foldl (handednessStep L R) (Fin 0, Fin 0, []) baRegionConfigs))"
    and "ir_details (calculateLanguageOutputLateralization d)
           = snd (snd (snd (languageOutputSums L R)))"
  using assms
  by (simp_all add: calculateHandednessIndex_def calculateLanguageOutputLateralization_def
        Let_def split: prod.splits)

lemma language_details:
  "ir_details (calculateLanguageIndex d)
   = snd (snd (case (lhBA d, rhBA d) of
        (Some L, Some R) \<Rightarrow>
          foldl (languageBaStep L R)
            (foldl (languageDktStep d) (Fin 0, Fin 0, []) dktRegionWeights) baRegionWeights
      | _ \<Rightarrow> foldl (languageDktStep d) (Fin 0, Fin 0, []) dktRegionWeights))"
  unfolding calculateLanguageIndex_def Let_def
  by (simp split: prod.splits)

lemma lateralization_hit:
  assumes "hasNaNRegion (calculateLanguageOutputLateralization d)
           \<or> hasNaNRegion (calculateLanguageInputLateralization d)"
  shows "hasNaNRegion (calculateLanguageLateralizationIndex d)"
  using assms
  by (auto simp: hasNaNRegion_def calculateLanguageLateralizationIndex_def Let_def)

lemma details_hit2:
  "nanStandard (Fin 80, Fin 10, Fin 10) (lh d) (rh d) rg \<Longrightarrow>
     list_ex nanDetail (snd (olfactoryStep d acc (rg, w)))"
  "nanStandard (Fin 50, Fin 30, Fin 20) (lh d) (rh d) rg \<Longrightarrow>
     list_ex nanDetail (snd (readingStep d acc (rg, w)))"
  "nanStandard mw (lh d) (rh d) rg \<Longrightarrow>
     list_ex nanDetail (snd (meanStep mw d acc (rg, w)))"
  "nanStandard (Fin 20, Fin 50, Fin 30) (lh d) (rh d) rg \<Longrightarrow>
     list_ex nanDetail (snd (spatialStep d acc (rg, w)))"
  "nanStandard (Fin 92, Fin 4, Fin 4) (lh d) (rh d) rg \<Longrightarrow>
     list_ex nanDetail (snd (dominantEyeStep d acc (rg, w)))"
  by (auto simp: olfactoryStep_def readingStep_def meanStep_def spatialStep_def
        dominantEyeStep_def Let_def elim!: nanStandard_D split: prod.splits)

lemma details_hit_nostril:
  assumes "nanStandard (Fin 70, Fin 20, Fin 10) (lh d) (rh d)
             (if rg = ''piriform'' then ''entorhinal'' else rg)"
  shows "list_ex nanDetail (snd (nostrilStep d acc (rg, w)))"
  using assms
  by (auto simp: nostrilStep_def Let_def elim!: nanStandard_D split: prod.splits)

lemma details_hit3:
  "nanStandard (Fin 45, Fin 30, Fin 25) (lh d) (rh d) rg \<Longrightarrow>
     list_ex nanDetail (snd (snd (languageDktStep d acc3 (rg, w))))"
  "nanStandard (Fin 45, Fin 30, Fin 25) L R rg \<Longrightarrow>
     list_ex nanDetail (snd (snd (languageBaStep L R acc3 (rg, w))))"
  "nanInline (lh d) (rh d) (rg, w, w1, w2, w3) \<Longrightarrow>
     list_ex nanDetail (snd (snd (parietalStep d acc3 (rg, w, w1, w2, w3))))"
  by (auto simp: languageDktStep_def languageBaStep_def parietalStep_def Let_def
        elim!: nanStandard_D nanInline_D split: prod.splits)

lemma details_hit_handedness:
  assumes "nanSubregion L R (rg, w, w1, w2, w3)"
  shows "list_ex nanDetail (snd (snd (handednessStep L R acc3 (rg, w, w1, w2, w3))))"
proof -
  obtain ref l r zl zr where "lookupRegion L R rg = Some (ref, l, r)"
    and "baZScores rg w1 w2 w3 ref l r = (zl, zr)" and "zl = NaN \<or> zr = NaN"
    using assms by (rule nanSubregion_D)
  then show ?thesis
    by (auto simp: handednessStep_def Let_def split: prod.splits)
qed

lemma details_hit_output:
  assumes "nanSubregion L R (rg, w, w1, w2, w3)"
  shows "list_ex nanDetail (snd (snd (snd (languageOutputStep L R acc4 (rg, w, w1, w2, w3)))))"
proof -
  obtain ref l r zl zr where "lookupRegion L R rg = Some (ref, l, r)"
    and "baZScores rg w1 w2 w3 ref l r = (zl, zr)" and "zl = NaN \<or> zr = NaN"
    using assms by (rule nanSubregion_D)
  then show ?thesis
    by (auto simp: languageOutputStep_def Let_def split: prod.splits)
qed

lemma details_hit_input:
  assumes "nanInline (lh d) (rh d) (rg, w, w1, w2, w3)"
  shows "list_ex nanDetail (snd (snd (snd (languageInputStep d acc4 (rg, w, w1, w2, w3)))))"
  using assms
  by (auto simp: languageInputStep_def Let_def elim!: nanInline_D split: prod.splits)

lemma nanComposite_standard:
  assumes "nanComposite c d"
    and "c \<noteq> LanguageComposite" and "c \<noteq> LanguageLateralization"
    and "c \<noteq> Handedness" and "c \<noteq> LanguageOutput"
  shows "hasNaNRegion (calculate c d)"
proof (cases c)
  case Olfactory
  have "list_ex nanDetail (snd (foldl (olfactoryStep d) (Fin 0, []) olfactoryRegionWeights))"
  proof (rule fold_hits [where g = "fst" and Q = "nanStandard (Fin 80, Fin 10, Fin 10) (lh d) (rh d)"
          and P = "\<lambda>a. list_ex nanDetail (snd a)"])
    show "list_ex (nanStandard (Fin 80, Fin 10, Fin 10) (lh d) (rh d)) (map (fst) olfactoryRegionWeights)"
      using assms Olfactory by simp
  qed (auto simp: details_hit2 details_kept2)
  then show ?thesis
    by (simp add: hasNaNRegion_def Olfactory details_of)
next
  case Reading
  have "list_ex nanDetail (snd (foldl (readingStep d) (Fin 0, []) readingRegionWeights))"
  proof (rule fold_hits [where g = "fst" and Q = "nanStandard (Fin 50, Fin 30, Fin 20) (lh d) (rh d)"
          and P = "\<lambda>a. list_ex nanDetail (snd a)"])
    show "list_ex (nanStandard (Fin 50, Fin 30, Fin 20) (lh d) (rh d)) (map (fst) readingRegionWeights)"
      using assms Reading by simp
  qed (auto simp: details_hit2 details_kept2)
  then show ?thesis
    by (simp add: hasNaNRegion_def Reading details_of)
next
  case Empathy
  have "list_ex nanDetail (snd (foldl (meanStep (Fin 80, Fin 10, Fin 10) d) (Fin 0, []) empathyRegionWeights))"
  proof (rule fold_hits [where g = "fst" and Q = "nanStandard (Fin 80, Fin 10, Fin 10) (lh d) (rh d)"
          and P = "\<lambda>a. list_ex nanDetail (snd a)"])
    show "list_ex (nanStandard (Fin 80, Fin 10, Fin 10) (lh d) (rh d)) (map (fst) empathyRegionWeights)"
      using assms Empathy by simp
  qed (auto simp: details_hit2 details_kept2)
  then show ?thesis
    by (simp add: hasNaNRegion_def Empathy details_of)
next
  case Executive
  have "list_ex nanDetail (snd (foldl (meanStep (Fin 35, Fin 25, Fin 40) d) (Fin 0, []) executiveRegionWeights))"
  proof (rule fold_hits [where g = "fst" and Q = "nanStandard (Fin 35, Fin 25, Fin 40) (lh d) (rh d)"
          and P = "\<lambda>a. list_ex nanDetail (snd a)"])
    show "list_ex (nanStandard (Fin 35, Fin 25, Fin 40) (lh d) (rh d)) (map (fst) executiveRegionWeights)"
      using assms Executive by simp
  qed (auto simp: details_hit2 details_kept2)
  then show ?thesis
    by (simp add: hasNaNRegion_def Executive details_of)
next
  case Spatial
  have "list_ex nanDetail (snd (foldl (spatialStep d) (Fin 0, []) spatialRegionWeights))"
  proof (rule fold_hits [where g = "fst" and Q = "nanStandard (Fin 20, Fin 50, Fin 30) (lh d) (rh d)"
          and P = "\<lambda>a. list_ex nanDetail (snd a)"])
    show "list_ex (nanStandard (Fin 20, Fin 50, Fin 30) (lh d) (rh d)) (map (fst) spatialRegionWeights)"
      using assms Spatial by simp
  qed (auto simp: details_hit2 details_kept2)
  then show ?thesis
    by (simp add: hasNaNRegion_def Spatial details_of)
next
  case FluidIntelligence
  have "list_ex nanDetail (snd (foldl (meanStep (Fin 30, Fin 30, Fin 40) d) (Fin 0, []) fluidRegionWeights))"
  proof (rule fold_hits [where g = "fst" and Q = "nanStandard (Fin 30, Fin 30, Fin 40) (lh d) (rh d)"
          and P = "\<lambda>a. list_ex nanDetail (snd a)"])
    show "list_ex (nanStandard (Fin 30, Fin 30, Fin 40) (lh d) (rh d)) (map (fst) fluidRegionWeights)"
      using assms FluidIntelligence by simp
  qed (auto simp: details_hit2 details_kept2)
  then show ?thesis
    by (simp add: hasNaNRegion_def FluidIntelligence details_of)
next
  case ParietalIQ
  have "list_ex nanDetail (snd (snd (foldl (parietalStep d) (Fin 0, Fin 0, []) parietalRegions)))"
  proof (rule fold_hits [where g = "\<lambda>x. x" and Q = "nanInline (lh d) (rh d)"
          and P = "\<lambda>a. list_ex nanDetail (snd (snd a))"])
    show "list_ex (nanInline (lh d) (rh d)) (map (\<lambda>x. x) parietalRegions)"
      using assms ParietalIQ by simp
  qed (auto simp: details_hit3 details_kept3)
  then show ?thesis
    by (simp add: hasNaNRegion_def ParietalIQ details_of)
next
  case DominantEye
  have "list_ex nanDetail (snd (foldl (dominantEyeStep d) (Fin 0, []) dominantEyeRegionWeights))"
  proof (rule fold_hits [where g = "fst" and Q = "nanStandard (Fin 92, Fin 4, Fin 4) (lh d) (rh d)"
          and P = "\<lambda>a. list_ex nanDetail (snd a)"])
    show "list_ex (nanStandard (Fin 92, Fin 4, Fin 4) (lh d) (rh d)) (map (fst) dominantEyeRegionWeights)"
      using assms DominantEye by simp
  qed (auto simp: details_hit2 details_kept2)
  then show ?thesis
    by (simp add: hasNaNRegion_def DominantEye details_of)
next
  case PreferredNostril
  have "list_ex nanDetail (snd (foldl (nostrilStep d) (Fin 0, []) nostrilRegions))"
  proof (rule fold_hits [where g = "\<lambda>(nm, weight). if nm = ''piriform'' then ''entorhinal'' else nm" and Q = "nanStandard (Fin 70, Fin 20, Fin 10) (lh d) (rh d)"
          and P = "\<lambda>a. list_ex nanDetail (snd a)"])
    show "list_ex (nanStandard (Fin 70, Fin 20, Fin 10) (lh d) (rh d)) (map (\<lambda>(nm, weight). if nm = ''piriform'' then ''entorhinal'' else nm) nostrilRegions)"
      using assms PreferredNostril by simp
  qed (auto simp: details_hit_nostril details_kept2)
  then show ?thesis
    by (simp add: hasNaNRegion_def PreferredNostril details_of)
next
  case LanguageInput
  have "list_ex nanDetail (snd (snd (snd (foldl (languageInputStep d) (Fin 0, Fin 0, Fin 0, []) DKT_LANGUAGE_INPUT_REGIONS))))"
  proof (rule fold_hits [where g = "\<lambda>x. x" and Q = "nanInline (lh d) (rh d)"
          and P = "\<lambda>a. list_ex nanDetail (snd (snd (snd a)))"])
    show "list_ex (nanInline (lh d) (rh d)) (map (\<lambda>x. x) DKT_LANGUAGE_INPUT_REGIONS)"
      using assms LanguageInput by simp
  qed (auto simp: details_hit_input details_kept4)
  then show ?thesis
    by (simp add: hasNaNRegion_def LanguageInput details_of languageInputSums_def)
qed (use assms in simp_all)

lemma handedness_hit:
  assumes "lhBA d = Some L" and "rhBA d = Some R"
    and "list_ex (nanSubregion L R) baRegionConfigs"
  shows "hasNaNRegion (calculateHandednessIndex d)"
proof -
  have "list_ex nanDetail
          (snd (snd (foldl (handednessStep L R) (Fin 0, Fin 0, []) baRegionConfigs)))"
  proof (rule fold_hits [where g = "\<lambda>x. x" and Q = "nanSubregion L R"
          and P = "\<lambda>a. list_ex nanDetail (snd (snd a))"])
    show "list_ex (nanSubregion L R) (map (\<lambda>x. x) baRegionConfigs)"
      using assms(3) by simp
  qed (auto simp: details_hit_handedness details_kept3)
  then show ?thesis
    by (simp add: hasNaNRegion_def details_of_BA [OF assms(1,2)])
qed

lemma languageOutput_hit:
  assumes "lhBA d = Some L" and "rhBA d = Some R"
    and "list_ex (nanSubregion L R) baBrocaRegions"
  shows "hasNaNRegion (calculateLanguageOutputLateralization d)"
proof -
  have "list_ex nanDetail
          (snd (snd (snd (foldl (languageOutputStep L R) (Fin 0, Fin 0, Fin 0, [])
             baBrocaRegions))))"
  proof (rule fold_hits [where g = "\<lambda>x. x" and Q = "nanSubregion L R"
          and P = "\<lambda>a. list_ex nanDetail (snd (snd (snd a)))"])
    show "list_ex (nanSubregion L R) (map (\<lambda>x. x) baBrocaRegions)"
      using assms(3) by simp
  qed (auto simp: details_hit_output details_kept4)
  then show ?thesis
    by (simp add: hasNaNRegion_def details_of_BA [OF assms(1,2)] languageOutputSums_def)
qed

lemma language_hit_standard:
  assumes "list_ex (nanStandard (Fin 45, Fin 30, Fin 25) (lh d) (rh d))
             (map fst dktRegionWeights)"
  shows "hasNaNRegion (calculateLanguageIndex d)"
proof -
  have dkt: "list_ex nanDetail
          (snd (snd (foldl (languageDktStep d) (Fin 0, Fin 0, []) dktRegionWeights)))"
    by (rule fold_hits [where g = fst
          and Q = "nanStandard (Fin 45, Fin 30, Fin 25) (lh d) (rh d)"
          and P = "\<lambda>a. list_ex nanDetail (snd (snd a))", OF assms])
       (auto simp: details_hit3 details_kept3)
  have "list_ex nanDetail (snd (snd (foldl (languageBaStep L R)
            (foldl (languageDktStep d) (Fin 0, Fin 0, []) dktRegionWeights) baRegionWeights)))"
    for L R
    by (rule foldl_invariant [where P = "\<lambda>a. list_ex nanDetail (snd (snd a))", OF dkt])
       (rule details_kept3)
  with dkt show ?thesis
    by (simp add: hasNaNRegion_def language_details split: option.splits)
qed

lemma language_hit_subregion:
  assumes "lhBA d = Some L" and "rhBA d = Some R"
    and "list_ex (nanStandard (Fin 45, Fin 30, Fin 25) L R) (map fst baRegionWeights)"
  shows "hasNaNRegion (calculateLanguageIndex d)"
proof -
  have "list_ex nanDetail (snd (snd (foldl (languageBaStep L R)
            (foldl (languageDktStep d) (Fin 0, Fin 0, []) dktRegionWeights) baRegionWeights)))"
    by (rule fold_hits [where g = fst and Q = "nanStandard (Fin 45, Fin 30, Fin 25) L R"
          and P = "\<lambda>a. list_ex nanDetail (snd (snd a))", OF assms(3)])
       (auto simp: details_hit3 details_kept3)
  then show ?thesis
    by (simp add: hasNaNRegion_def language_details assms(1,2))
qed

lemma withSubregions_D:
  assumes "withSubregions d P"
  obtains L R where "lhBA d = Some L" and "rhBA d = Some R" and "P L R"
  using assms by (auto simp: withSubregions_def split: option.splits)

lemma nanComposite_hasNaNRegion:
  assumes "nanComposite c d"
  shows "hasNaNRegion (calculate c d)"
proof (cases "c = LanguageComposite \<or> c = LanguageLateralization \<or> c = Handedness
              \<or> c = LanguageOutput")
  case False
  with assms show ?thesis by (intro nanComposite_standard) simp_all
next
  case True
  then consider "c = LanguageComposite" | "c = LanguageLateralization" | "c = Handedness"
    | "c = LanguageOutput" by blast
  then show ?thesis
  proof cases
    case 1
    with assms show ?thesis
      by (auto simp: language_hit_standard language_hit_subregion elim!: withSubregions_D)
  next
    case 2
    with assms have "nanComposite LanguageOutput d \<or> nanComposite LanguageInput d"
      by simp
    then have "hasNaNRegion (calculateLanguageOutputLateralization d)
               \<or> hasNaNRegion (calculateLanguageInputLateralization d)"
    proof
      assume "nanComposite LanguageOutput d"
      then show ?thesis
        by (auto simp: languageOutput_hit elim!: withSubregions_D)
    next
      assume "nanComposite LanguageInput d"
      then have "hasNaNRegion (calculate LanguageInput d)"
        by (intro nanComposite_standard) simp_all
      then show ?thesis by simp
    qed
    with 2 show ?thesis by (simp add: lateralization_hit)
  next
    case 3
    with assms show ?thesis
      by (auto simp: handedness_hit elim!: withSubregions_D)
  next
    case 4
    with assms show ?thesis
      by (auto simp: languageOutput_hit elim!: withSubregions_D)
  qed
qed

lemma nanMeasurement_D:
  assumes "nanMeasurement L R nm"
  obtains ref l r where "lookupRegion L R nm = Some (ref, l, r)"
    and "thickness l = NaN \<or> surfArea l = NaN \<or> thickness r = NaN \<or> surfArea r = NaN"
  using assms by (auto simp: nanMeasurement_def split: option.splits)

lemma compositeZScore_NaN:
  "thickness m = NaN \<or> surfArea m = NaN \<Longrightarrow> compositeZScore m ref mw = NaN"
  by (auto simp: compositeZScore_def zScore_def Let_def split: prod.splits)

lemma inlineZ_NaN: "thickness m = NaN \<or> surfArea m = NaN \<Longrightarrow> inlineZ a b c m ref = NaN"
  by (auto simp: inlineZ_def)

lemma baZScores_NaN:
  assumes "thickness l = NaN \<or> surfArea l = NaN \<or> thickness r = NaN \<or> surfArea r = NaN"
  shows "fst (baZScores nm a b c ref l r) = NaN \<or> snd (baZScores nm a b c ref l r) = NaN"
  using assms by (auto simp: baZScores_def Let_def split: prod.splits)

lemma nanMeasurement_composite:
  assumes "nanMeasurement L R nm"
  shows "nanStandard mw L R nm" and "nanInline L R (nm, w, w1, w2, w3)"
    and "nanSubregion L R (nm, w, w1, w2, w3)"
proof -
  obtain ref l r where lk: "lookupRegion L R nm = Some (ref, l, r)"
    and n: "thickness l = NaN \<or> surfArea l = NaN \<or> thickness r = NaN \<or> surfArea r = NaN"
    using assms by (rule nanMeasurement_D)
  show "nanStandard mw L R nm"
    using n by (auto simp: nanStandard_def lk compositeZScore_NaN)
  show "nanInline L R (nm, w, w1, w2, w3)"
    using n by (auto simp: nanInline_def lk inlineZ_NaN)
  show "nanSubregion L R (nm, w, w1, w2, w3)"
    using baZScores_NaN [OF n, of nm w1 w2 w3 ref]
    by (auto simp: nanSubregion_def lk split: prod.splits)
qed

lemma list_ex_standard:
  "list_ex (nanMeasurement L R) nms \<Longrightarrow> list_ex (nanStandard mw L R) nms"
  unfolding list_ex_iff using nanMeasurement_composite(1) by blast

lemma list_ex_config:
  assumes "list_ex (nanMeasurement L R) (map fst cfgs)"
  shows "list_ex (nanInline L R) cfgs" and "list_ex (nanSubregion L R) cfgs"
proof -
  obtain cfg where "cfg \<in> set cfgs" and m: "nanMeasurement L R (fst cfg)"
    using assms by (auto simp: list_ex_iff)
  moreover obtain nm w w1 w2 w3 where "cfg = (nm, w, w1, w2, w3)"
    by (cases cfg)
  ultimately have "cfg \<in> set cfgs" and "nanInline L R cfg" and "nanSubregion L R cfg"
    using nanMeasurement_composite(2,3) [of L R nm w w1 w2 w3] by simp_all
  then show "list_ex (nanInline L R) cfgs" and "list_ex (nanSubregion L R) cfgs"
    unfolding list_ex_iff by blast+
qed

lemma nanMeasured_nanComposite:
  assumes "nanMeasured c d"
  shows "nanComposite c d"
proof -
  consider (std) "list_ex (nanMeasurement (lh d) (rh d)) (standardRegions c)"
    | (sub) L R where "lhBA d = Some L" "rhBA d = Some R"
        "list_ex (nanMeasurement L R) (subregions c)"
    using assms by (auto simp: nanMeasured_def elim!: withSubregions_D)
  then show ?thesis
  proof cases
    case std
    then show ?thesis
      by (cases c) (simp_all add: list_ex_standard list_ex_config)
  next
    case sub
    then show ?thesis
      by (cases c) (simp_all add: withSubregions_def list_ex_standard list_ex_config)
  qed
qed

lemma areaNaNData_composite: "nanComposite Olfactory areaNaNData"
  by (simp add: olfactoryRegionWeights_def nanStandard_def lookupRegion_def areaNaNData_def
        ref_olfactory compositeZScore_def zScore_def refEntry_def ms_def region3_def Let_def)

text \<open>
  C1, as the code has it. No calculator checks for finiteness, and a region whose composite
  z-score is \<open>NaN\<close> is not excluded. For every index calculator and every dataset: when
  a region that takes part has a \<open>NaN\<close> composite z-score in a hemisphere, whatever the
  measurement it comes from, the region is listed in the details with a \<open>NaN\<close> z-score
  and the returned value and percentile are \<open>NaN\<close>. A \<open>NaN\<close> thickness or surface area,
  as parsed from a token that is not a number, gives such a composite z-score.
\<close>

theorem nan_region_propagates:
  "(nanComposite c d \<longrightarrow>
      hasNaNRegion (calculate c d)
      \<and> ir_value (calculate c d) = NaN \<and> ir_percentile (calculate c d) = NaN)
   \<and> (hasNaNRegion (calculate c d) \<longrightarrow>
        ir_value (calculate c d) = NaN \<and> ir_percentile (calculate c d) = NaN)
   \<and> (nanMeasured c d \<longrightarrow> nanComposite c d)"
  using hasNaNRegion_poisons [of c d] nanComposite_hasNaNRegion [of c d]
    nanMeasured_nanComposite [of c d]
  by blast

theorem nan_region_propagates_witness:
  "nanMeasured Olfactory nanData
   \<and> nanComposite Olfactory nanData
   \<and> hasNaNRegion (calculate Olfactory nanData)
   \<and> ir_value (calculate Olfactory nanData) = NaN
   \<and> ir_percentile (calculate Olfactory nanData) = NaN
   \<and> nanComposite Olfactory areaNaNData
   \<and> ir_value (calculate Olfactory areaNaNData) = NaN
   \<and> ir_percentile (calculate Olfactory areaNaNData) = NaN"
proof -
  have m: "nanMeasured Olfactory nanData"
    by (simp add: nanMeasured_def nanMeasurement_def olfactoryRegionWeights_def
          lookupRegion_def nanData_def nanReport_parsed ref_olfactory)
  show ?thesis
    using m areaNaNData_composite nan_region_propagates [of Olfactory nanData]
      nan_region_propagates [of Olfactory areaNaNData]
    by blast
qed

text \<open>
  The claim C1 as stated fails. The left report has the token \<open>n/a\<close> as entorhinal
  thickness, parsed as \<open>NaN\<close>, and a finite parahippocampal row; the Olfactory value and
  percentile are \<open>NaN\<close>, not the combination over the finite region.
\<close>

theorem nan_region_not_excluded_counterexample:
  "lh nanData ''entorhinal''
     = Some \<lparr>thickness = NaN, surfArea = Fin 480, volume = Fin 1600, meanCurv = None,
              gausCurv = None, foldInd = None, curvInd = None\<rparr>
   \<and> lh nanData ''parahippocampal'' = Some (region3 2.97 700 2200)
   \<and> ir_value (calculateOlfactoryIndex nanData) = NaN
   \<and> ir_percentile (calculateOlfactoryIndex nanData) = NaN"
proof -
  obtain ds where "foldl (olfactoryStep nanData) (Fin 0, []) olfactoryRegionWeights = (NaN, ds)"
    using nanData_olfactory by blast
  then have "ir_value (calculateOlfactoryIndex nanData) = NaN
             \<and> ir_percentile (calculateOlfactoryIndex nanData) = NaN"
    by (simp add: calculateOlfactoryIndex_def zToPercentile_NaN)
  then show ?thesis
    by (simp add: nanData_def nanReport_parsed)
qed

section \<open>Handedness and Dominant Eye as sums\<close>

lemma dominantEye_fold:
  "fst (foldl (dominantEyeStep d) (t, ds) rws)
   = foldl (+) t (map (dominantEyeTerm d)
       (filter (\<lambda>rw. available (lh d) (rh d) (fst rw)) rws))"
proof (induction rws arbitrary: t ds)
  case Nil
  show ?case by simp
next
  case (Cons rw rws)
  obtain rg w where rw: "rw = (rg, w)" by (cases rw)
  show ?case
  proof (cases "lookupRegion (lh d) (rh d) rg")
    case None
    then show ?thesis
      using Cons.IH [of t ds] by (simp add: rw dominantEyeStep_def available_def)
  next
    case (Some a)
    obtain ref l r where a: "a = (ref, l, r)" by (cases a)
    show ?thesis
      using Cons.IH by (simp add: rw dominantEyeStep_def available_def Some a
            dominantEyeTerm_def Let_def)
  qed
qed

lemma handedness_fold:
  "\<exists>ds'. foldl (handednessStep L R) (t, tw, ds) cfgs
   = (foldl (+) t (map (handednessTerm L R) (filter (\<lambda>cfg. available L R (fst cfg)) cfgs)),
      foldl (+) tw (map (\<lambda>cfg. fst (snd cfg)) (filter (\<lambda>cfg. available L R (fst cfg)) cfgs)),
      ds')"
proof (induction cfgs arbitrary: t tw ds)
  case Nil
  show ?case by simp
next
  case (Cons cfg cfgs)
  obtain nm w w1 w2 w3 where cfg: "cfg = (nm, w, w1, w2, w3)" by (cases cfg)
  show ?case
  proof (cases "lookupRegion L R nm")
    case None
    then show ?thesis
      using Cons.IH [of t tw ds] by (simp add: cfg handednessStep_def available_def)
  next
    case (Some a)
    obtain ref l r where a: "a = (ref, l, r)" by (cases a)
    obtain zl zr where z: "baZScores nm w1 w2 w3 ref l r = (zl, zr)"
      by (cases "baZScores nm w1 w2 w3 ref l r")
    show ?thesis
      using Cons.IH by (simp add: cfg handednessStep_def available_def Some a z
            handednessTerm_def Let_def)
  qed
qed

lemma dominantEye_value:
  "ir_value (calculateDominantEyeIndex d)
   = Math_round (dominantEyeDirectSum d * Fin 1000) / Fin 1000"
proof -
  obtain tot ds where
    f: "foldl (dominantEyeStep d) (Fin 0, []) dominantEyeRegionWeights = (tot, ds)"
    by (cases "foldl (dominantEyeStep d) (Fin 0, []) dominantEyeRegionWeights")
  then have "tot = dominantEyeDirectSum d"
    using dominantEye_fold [of d "Fin 0" "[]" dominantEyeRegionWeights]
    by (simp add: dominantEyeDirectSum_def sumNumbers_def)
  then show ?thesis
    by (simp add: calculateDominantEyeIndex_def f)
qed

lemma handedness_value:
  assumes "lhBA d = Some L" and "rhBA d = Some R"
  shows "ir_value (calculateHandednessIndex d)
   = Math_round ((if Fin 0 < handednessAvailableWeight L R
                  then handednessDirectSum L R / handednessAvailableWeight L R
                  else Fin 0) * Fin 1000) / Fin 1000"
proof -
  obtain ds' where "foldl (handednessStep L R) (Fin 0, Fin 0, []) baRegionConfigs
      = (handednessDirectSum L R, handednessAvailableWeight L R, ds')"
    using handedness_fold [of L R "Fin 0" "Fin 0" "[]" baRegionConfigs]
    unfolding handednessDirectSum_def handednessAvailableWeight_def sumNumbers_def by blast
  then show ?thesis
    by (simp add: calculateHandednessIndex_def assms Let_def)
qed

lemma ref_pericalcarine:
  "REFERENCE_DATA_MALE ''pericalcarine''
   = Some (refEntry (ms 1.55 0.14) (ms 1900 320) (ms 2400 400))"
  by (simp add: REFERENCE_DATA_MALE_def REFERENCE_DATA_MALE_entries_def)

lemma thickLeftPericalcarine_sum:
  "dominantEyeDirectSum (thickLeftPericalcarine x) = Fin (0.644 * x)"
  by (simp add: dominantEyeDirectSum_def sumNumbers_def dominantEyeRegionWeights_def
        available_def lookupRegion_def thickLeftPericalcarine_def ref_pericalcarine
        dominantEyeTerm_def compositeZScore_def zScore_def refEntry_def ms_def region3_def
        Let_def REFERENCE_DATA_MALE_def REFERENCE_DATA_MALE_entries_def)

lemma curv_BA4a:
  "BA_CURVATURE_REFERENCE ''BA4a_exvivo'' = Some (curvEntry (ms 0.091 0.012) (ms 23 6))"
  by (simp add: BA_CURVATURE_REFERENCE_def BA_CURVATURE_REFERENCE_entries_def)

lemma thickLeftBA4a_sums:
  "handednessDirectSum [''BA4a_exvivo'' \<mapsto> region3 (2.85 + 0.20 * x) 1300 4300]
     [''BA4a_exvivo'' \<mapsto> region3 2.85 1300 4300] = Fin (0.1225 * x)"
  "handednessAvailableWeight [''BA4a_exvivo'' \<mapsto> region3 (2.85 + 0.20 * x) 1300 4300]
     [''BA4a_exvivo'' \<mapsto> region3 2.85 1300 4300] = Fin 0.35"
  by (simp_all add: handednessDirectSum_def handednessAvailableWeight_def sumNumbers_def
        baRegionConfigs_def available_def lookupRegion_def ref_BA handednessTerm_def
        baZScores_def foldZScores_def curv_BA4a refEntry_def ms_def region3_def Let_def)


lemma round3_above:
  assumes "B + 1 \<le> y"
  shows "Fin B < Math_round (Fin y * Fin 1000) / Fin 1000"
proof -
  have "y * 1000 + 1 / 2 - 1 < real_of_int \<lfloor>y * 1000 + 1 / 2\<rfloor>"
    by linarith
  then have "B * 1000 < real_of_int \<lfloor>y * 1000 + 1 / 2\<rfloor>"
    using assms by linarith
  then have "B < real_of_int \<lfloor>y * 1000 + 1 / 2\<rfloor> / 1000"
    by (simp add: pos_less_divide_eq)
  then show ?thesis by simp
qed

lemma dominantEye_unbounded: "\<exists>d. Fin B < ir_value (calculateDominantEyeIndex d)"
proof -
  have "dominantEyeDirectSum (thickLeftPericalcarine ((B + 1) / 0.644)) = Fin (B + 1)"
    by (simp add: thickLeftPericalcarine_sum)
  then have "Fin B < ir_value (calculateDominantEyeIndex (thickLeftPericalcarine ((B + 1) / 0.644)))"
    by (simp only: dominantEye_value round3_above [of B "B + 1"] order_refl)
  then show ?thesis by blast
qed

lemma handedness_unbounded: "\<exists>d. Fin B < ir_value (calculateHandednessIndex d)"
proof -
  let ?x = "(B + 1) / 0.35"
  let ?L = "[''BA4a_exvivo'' \<mapsto> region3 (2.85 + 0.20 * ?x) 1300 4300]"
  let ?R = "[''BA4a_exvivo'' \<mapsto> region3 2.85 1300 4300]"
  have l: "lhBA (thickLeftBA4a ?x) = Some ?L" and r: "rhBA (thickLeftBA4a ?x) = Some ?R"
    by (simp_all add: thickLeftBA4a_def)
  have "(if Fin 0 < handednessAvailableWeight ?L ?R
         then handednessDirectSum ?L ?R / handednessAvailableWeight ?L ?R else Fin 0)
        = Fin (B + 1)"
    unfolding thickLeftBA4a_sums by simp
  then have "Fin B < ir_value (calculateHandednessIndex (thickLeftBA4a ?x))"
    by (simp only: handedness_value [OF l r] round3_above [of B "B + 1"] order_refl)
  then show ?thesis by blast
qed

text \<open>
  C3, as the code has it. For every dataset the Dominant Eye value is the direct sum of
  \<open>weight \<times> (zL - zR)\<close> over the available regions, rounded to three decimals, with no
  renormalization. The Handedness value is that sum divided by the total weight of the
  available regions (0 when none is available), rounded to three decimals. Both values
  are unbounded: each exceeds any given bound on some dataset.
\<close>

theorem lateral_index_sums:
  "ir_value (calculateDominantEyeIndex d)
     = Math_round (dominantEyeDirectSum d * Fin 1000) / Fin 1000
   \<and> (lhBA d = Some L \<and> rhBA d = Some R \<longrightarrow>
        ir_value (calculateHandednessIndex d)
          = Math_round ((if Fin 0 < handednessAvailableWeight L R
                         then handednessDirectSum L R / handednessAvailableWeight L R
                         else Fin 0) * Fin 1000) / Fin 1000)
   \<and> (\<exists>d'. Fin B < ir_value (calculateDominantEyeIndex d'))
   \<and> (\<exists>d'. Fin B < ir_value (calculateHandednessIndex d'))"
  using dominantEye_value [of d] handedness_value [of d L R]
    dominantEye_unbounded [of B] handedness_unbounded [of B]
  by blast

lemma thickLeftBA4a_one:
  "lhBA (thickLeftBA4a 1) = Some [''BA4a_exvivo'' \<mapsto> region3 3.05 1300 4300]"
  "rhBA (thickLeftBA4a 1) = Some [''BA4a_exvivo'' \<mapsto> region3 2.85 1300 4300]"
  "handednessDirectSum [''BA4a_exvivo'' \<mapsto> region3 3.05 1300 4300]
     [''BA4a_exvivo'' \<mapsto> region3 2.85 1300 4300] = Fin 0.1225"
  "handednessAvailableWeight [''BA4a_exvivo'' \<mapsto> region3 3.05 1300 4300]
     [''BA4a_exvivo'' \<mapsto> region3 2.85 1300 4300] = Fin 0.35"
  using thickLeftBA4a_sums [of 1] by (simp_all add: thickLeftBA4a_def)

theorem lateral_index_sums_witness:
  "lhBA (thickLeftBA4a 1) = Some [''BA4a_exvivo'' \<mapsto> region3 3.05 1300 4300]
   \<and> rhBA (thickLeftBA4a 1) = Some [''BA4a_exvivo'' \<mapsto> region3 2.85 1300 4300]
   \<and> ir_value (calculateHandednessIndex (thickLeftBA4a 1))
       = Math_round (Fin 0.1225 / Fin 0.35 * Fin 1000) / Fin 1000"
  using thickLeftBA4a_one
    lateral_index_sums
      [of "thickLeftBA4a 1" "[''BA4a_exvivo'' \<mapsto> region3 3.05 1300 4300]"
          "[''BA4a_exvivo'' \<mapsto> region3 2.85 1300 4300]" 0]
  by simp

text \<open>
  The claim C3 as stated fails for the Handedness Index: with BA4a as the only available
  subregion and its left thickness one standard deviation above the mean, the direct sum
  is \<open>0.35 \<times> 0.35 = 0.1225\<close>, and the returned value is that sum divided by the
  available weight 0.35.
\<close>

theorem handedness_normalised_counterexample:
  "lhBA (thickLeftBA4a 1) = Some [''BA4a_exvivo'' \<mapsto> region3 3.05 1300 4300]
   \<and> rhBA (thickLeftBA4a 1) = Some [''BA4a_exvivo'' \<mapsto> region3 2.85 1300 4300]
   \<and> handednessDirectSum [''BA4a_exvivo'' \<mapsto> region3 3.05 1300 4300]
        [''BA4a_exvivo'' \<mapsto> region3 2.85 1300 4300] = Fin 0.1225
   \<and> ir_value (calculateHandednessIndex (thickLeftBA4a 1)) = Fin 0.35
   \<and> ir_value (calculateHandednessIndex (thickLeftBA4a 1))
       \<noteq> handednessDirectSum [''BA4a_exvivo'' \<mapsto> region3 3.05 1300 4300]
           [''BA4a_exvivo'' \<mapsto> region3 2.85 1300 4300]"
  using thickLeftBA4a_one handedness_value [OF thickLeftBA4a_one(1,2)]
  by simp

end
